theory Spec2Isabelle
  imports Main "HOL-Library.AList" "HOL-Library.Char_ord" "HOL-Library.List_Lexorder"
begin

section \<open>Plugin manager of VCPToolBox (Plugin.js)\<close>

text \<open>
  The development embeds the \<^verbatim>\<open>PluginManager\<close> class of \<^verbatim>\<open>Plugin.js\<close>. JavaScript strings are
  modelled as \<^typ>\<open>string\<close>, a \<^verbatim>\<open>Map\<close> keyed by strings as a partial function, an object that
  is iterated in insertion order as an association list, and everything that the class
  obtains from outside (the plugin directory, the order file, spawned processes, the file
  fetcher, \<^verbatim>\<open>JSON.parse\<close>) as an explicit argument of the function that uses it.
\<close>

subsection \<open>Manifests and the manager state\<close>

record entry_point =
  command :: "string option"
  script :: "string option"

record communication =
  protocol :: "string option"
  timeout :: "nat option"

text \<open>
  A manifest as read from \<^verbatim>\<open>plugin-manifest.json\<close> or received from a distributed server.
  A missing \<^verbatim>\<open>name\<close> or \<^verbatim>\<open>pluginType\<close> is the empty string (both are falsy in the checks
  of the source); \<^verbatim>\<open>systemPromptPlaceholders\<close> holds the \<^verbatim>\<open>placeholder\<close> key of every entry of
  \<^verbatim>\<open>capabilities.systemPromptPlaceholders\<close>, \<^verbatim>\<open>None\<close> when the list is not declared;
  \<^verbatim>\<open>configSchema\<close> holds the keys of the object with their declared types, each key once.
\<close>

record manifest =
  name :: string
  displayName :: "string option"
  pluginType :: string
  entryPoint :: "entry_point option"
  communication :: "communication option"
  refreshIntervalCron :: "string option"
  systemPromptPlaceholders :: "string list option"
  configSchema :: "(string \<times> string) list option"
  basePath :: "string option"
  pluginSpecificEnvConfig :: "(string \<rightharpoonup> string) option"
  isDistributed :: bool
  serverId :: "string option"

text \<open>
  A module obtained by \<^verbatim>\<open>require\<close>: its identity and whether it exports
  \<^verbatim>\<open>processMessages\<close>.
\<close>

record plugin_module =
  moduleId :: string
  hasProcessMessages :: bool

record manager =
  plugins :: "string \<rightharpoonup> manifest"
  staticPlaceholderValues :: "string \<rightharpoonup> string"
  messagePreprocessors :: "string \<rightharpoonup> plugin_module"
  preprocessorOrder :: "string list"
  serviceModules :: "string \<rightharpoonup> (manifest \<times> plugin_module)"

text \<open>The state that the constructor builds.\<close>

definition newManager :: manager where
  "newManager =
     \<lparr>plugins = Map.empty, staticPlaceholderValues = Map.empty,
      messagePreprocessors = Map.empty, preprocessorOrder = [],
      serviceModules = Map.empty\<rparr>"

subsection \<open>The plugin directory and the order file\<close>

text \<open>
  One entry of \<^verbatim>\<open>fs.readdir(PLUGIN_DIR)\<close>: \<^verbatim>\<open>manifestFile\<close> is \<^verbatim>\<open>None\<close> when reading or parsing
  the manifest throws, \<^verbatim>\<open>configEnv\<close> is \<^verbatim>\<open>None\<close> when \<^verbatim>\<open>config.env\<close> cannot be read, and
  \<^verbatim>\<open>moduleLoad\<close> is \<^verbatim>\<open>None\<close> when a statement of the block that loads the module throws:
  \<^verbatim>\<open>require\<close>, the call of \<^verbatim>\<open>_getPluginConfig\<close> for the initial configuration, or the
  module's \<^verbatim>\<open>initialize\<close>.
\<close>

record folder =
  folderName :: string
  isDirectory :: bool
  manifestFile :: "manifest option"
  configEnv :: "(string \<rightharpoonup> string) option"
  moduleLoad :: "plugin_module option"

text \<open>
  The file \<^verbatim>\<open>preprocessor_order.json\<close>: absent, present but unreadable or not an array, or an
  array of names. An element of the array that is not a string is never the name of a
  discovered preprocessor, so the reconciliation passes over it; the list holds the strings.
\<close>

datatype order_file = NoOrderFile | BadOrderFile | SavedOrder "string list"

record environment =
  pluginDir :: string
  pluginFolders :: "folder list option"
  orderFile :: order_file

subsection \<open>loadPlugins\<close>

definition localPlugins :: "(string \<rightharpoonup> manifest) \<Rightarrow> (string \<rightharpoonup> manifest)" where
  "localPlugins ps =
     (\<lambda>n. case ps n of
             None \<Rightarrow> None
           | Some m \<Rightarrow> if \<not> isDistributed m then Some m else None)"

text \<open>The first statements of \<^verbatim>\<open>loadPlugins\<close>, up to the three \<^verbatim>\<open>clear()\<close> calls.\<close>

definition clearForReload :: "manager \<Rightarrow> manager" where
  "clearForReload st =
     st\<lparr>plugins := localPlugins (plugins st),
        messagePreprocessors := Map.empty,
        staticPlaceholderValues := Map.empty,
        serviceModules := Map.empty\<rparr>"

definition isPreprocessor :: "manifest \<Rightarrow> bool" where
  "isPreprocessor m \<longleftrightarrow> pluginType m = ''messagePreprocessor'' \<or> pluginType m = ''hybridservice''"

definition isService :: "manifest \<Rightarrow> bool" where
  "isService m \<longleftrightarrow> pluginType m = ''service'' \<or> pluginType m = ''hybridservice''"

definition truthy :: "string option \<Rightarrow> bool" where
  "truthy v \<longleftrightarrow> (case v of None \<Rightarrow> False | Some s \<Rightarrow> s \<noteq> [])"

definition directScript :: "manifest \<Rightarrow> bool" where
  "directScript m \<longleftrightarrow>
     (case entryPoint m of None \<Rightarrow> False | Some e \<Rightarrow> truthy (script e)) \<and>
     (case communication m of None \<Rightarrow> False | Some c \<Rightarrow> protocol c = Some ''direct'')"

text \<open>
  The body of the loop over the directory entries. The second component is
  \<^verbatim>\<open>discoveredPreprocessors\<close>, a \<^verbatim>\<open>Map\<close> whose insertion order is used later.
\<close>

definition loadedManifest :: "string \<Rightarrow> folder \<Rightarrow> manifest \<Rightarrow> manifest" where
  "loadedManifest dir f m =
     m\<lparr>basePath := Some (dir @ ''/'' @ folderName f),
       pluginSpecificEnvConfig :=
         Some (case configEnv f of None \<Rightarrow> Map.empty | Some c \<Rightarrow> c)\<rparr>"

definition scanFolder ::
  "string \<Rightarrow> folder \<Rightarrow> manager \<times> (string \<times> plugin_module) list
     \<Rightarrow> manager \<times> (string \<times> plugin_module) list" where
  "scanFolder dir f acc =
     (case acc of (st, discovered) \<Rightarrow>
       if \<not> isDirectory f then acc
       else
        (case manifestFile f of
           None \<Rightarrow> acc
         | Some m \<Rightarrow>
             if name m = [] \<or> pluginType m = [] \<or> entryPoint m = None then acc
             else if plugins st (name m) \<noteq> None then acc
             else
               let m' = loadedManifest dir f m;
                   st1 = st\<lparr>plugins := (plugins st)(name m \<mapsto> m')\<rparr>
               in if (isPreprocessor m' \<or> isService m') \<and> directScript m' then
                    (case moduleLoad f of
                       None \<Rightarrow> (st1, discovered)
                     | Some md \<Rightarrow>
                         (if isService m'
                          then st1\<lparr>serviceModules :=
                                     (serviceModules st1)(name m \<mapsto> (m', md))\<rparr>
                          else st1,
                          if isPreprocessor m' \<and> hasProcessMessages md
                          then AList.update (name m) md discovered
                          else discovered))
                  else (st1, discovered)))"

fun scanFolders ::
  "string \<Rightarrow> folder list \<Rightarrow> manager \<times> (string \<times> plugin_module) list
     \<Rightarrow> manager \<times> (string \<times> plugin_module) list" where
  "scanFolders dir [] acc = acc"
| "scanFolders dir (f # fs) acc = scanFolders dir fs (scanFolder dir f acc)"

text \<open>
  The loop over \<^verbatim>\<open>savedOrder\<close>: a saved name that is still in \<^verbatim>\<open>availablePlugins\<close> is pushed
  on \<^verbatim>\<open>finalOrder\<close> and deleted from the set. The result is the pushed names and the names
  left in the set.
\<close>

fun takeSaved :: "string list \<Rightarrow> string list \<Rightarrow> string list \<times> string list" where
  "takeSaved [] available = ([], available)"
| "takeSaved (p # ps) available =
     (if p \<in> set available
      then (case takeSaved ps (removeAll p available) of
              (pushed, rest) \<Rightarrow> (p # pushed, rest))
      else takeSaved ps available)"

definition reconcileOrder :: "order_file \<Rightarrow> string list \<Rightarrow> string list" where
  "reconcileOrder file available =
     (case (case file of SavedOrder saved \<Rightarrow> takeSaved saved available
                       | _ \<Rightarrow> ([], available)) of
        (pushed, rest) \<Rightarrow> pushed @ sort rest)"

definition orderFileExists :: "order_file \<Rightarrow> bool" where
  "orderFileExists file \<longleftrightarrow> file \<noteq> NoOrderFile"

text \<open>The content that \<^verbatim>\<open>loadPlugins\<close> passes to \<^verbatim>\<open>fs.writeFile\<close> for the order file, if any.\<close>

definition orderFileWrite :: "order_file \<Rightarrow> string list \<Rightarrow> string list option" where
  "orderFileWrite file finalOrder =
     (if \<not> orderFileExists file \<and> length finalOrder > 0 then Some finalOrder else None)"

fun registerPreprocessors ::
  "(string \<times> plugin_module) list \<Rightarrow> string list
     \<Rightarrow> (string \<rightharpoonup> plugin_module) \<Rightarrow> (string \<rightharpoonup> plugin_module)" where
  "registerPreprocessors discovered [] mp = mp"
| "registerPreprocessors discovered (p # ps) mp =
     registerPreprocessors discovered ps
       (case map_of discovered p of None \<Rightarrow> mp | Some md \<Rightarrow> mp(p \<mapsto> md))"

text \<open>
  \<^verbatim>\<open>loadPlugins\<close>: the new state and the write to the order file. When \<^verbatim>\<open>readdir\<close> throws, the
  \<^verbatim>\<open>catch\<close> block only logs, so the state is the cleared one.
\<close>

definition loadPlugins :: "environment \<Rightarrow> manager \<Rightarrow> manager \<times> string list option" where
  "loadPlugins env st =
     (let st0 = clearForReload st in
      case pluginFolders env of
        None \<Rightarrow> (st0, None)
      | Some folders \<Rightarrow>
          (case scanFolders (pluginDir env) folders (st0, []) of
             (st1, discovered) \<Rightarrow>
               let finalOrder = reconcileOrder (orderFile env) (map fst discovered)
               in (st1\<lparr>messagePreprocessors :=
                          registerPreprocessors discovered finalOrder (messagePreprocessors st1),
                        preprocessorOrder := finalOrder\<rparr>,
                   orderFileWrite (orderFile env) finalOrder)))"

subsection \<open>Distributed tools and placeholders\<close>

text \<open>The prefix of a distributed display name: an opening bracket, two CJK characters
  (as UTF-8 bytes), a closing bracket and a space.\<close>

definition cloudPrefix :: string where
  "cloudPrefix = [CHR ''['', CHR 0xE4, CHR 0xBA, CHR 0x91, CHR 0xE7, CHR 0xAB, CHR 0xAF, CHR '']'', CHR '' '']"

definition registerTool :: "string \<Rightarrow> manifest \<Rightarrow> (string \<rightharpoonup> manifest) \<Rightarrow> (string \<rightharpoonup> manifest)" where
  "registerTool sid t ps =
     (if name t = [] \<or> pluginType t = [] \<or> entryPoint t = None then ps
      else if ps (name t) \<noteq> None then ps
      else ps(name t \<mapsto>
             t\<lparr>isDistributed := True,
               serverId := Some sid,
               displayName := Some (cloudPrefix @ (if truthy (displayName t)
                                                   then the (displayName t) else name t))\<rparr>))"

fun registerTools :: "string \<Rightarrow> manifest list \<Rightarrow> (string \<rightharpoonup> manifest) \<Rightarrow> (string \<rightharpoonup> manifest)" where
  "registerTools sid [] ps = ps"
| "registerTools sid (t # ts) ps = registerTools sid ts (registerTool sid t ps)"

definition registerDistributedTools :: "string \<Rightarrow> manifest list \<Rightarrow> manager \<Rightarrow> manager" where
  "registerDistributedTools sid tools st = st\<lparr>plugins := registerTools sid tools (plugins st)\<rparr>"

text \<open>
  \<^verbatim>\<open>updateDistributedStaticPlaceholders\<close> computes \<^verbatim>\<open>distributedKey\<close> for every pair but stores
  the value under the plain placeholder; the pairs come in the insertion order of the object.
\<close>

fun setPlaceholders :: "(string \<times> string) list \<Rightarrow> (string \<rightharpoonup> string) \<Rightarrow> (string \<rightharpoonup> string)" where
  "setPlaceholders [] tbl = tbl"
| "setPlaceholders ((placeholder, v) # rest) tbl = setPlaceholders rest (tbl(placeholder \<mapsto> v))"

definition updateDistributedStaticPlaceholders ::
  "string \<Rightarrow> string \<Rightarrow> (string \<times> string) list \<Rightarrow> manager \<Rightarrow> manager" where
  "updateDistributedStaticPlaceholders sid serverName placeholders st =
     st\<lparr>staticPlaceholderValues := setPlaceholders placeholders (staticPlaceholderValues st)\<rparr>"

definition distributedKey :: "string \<Rightarrow> string \<Rightarrow> string" where
  "distributedKey placeholder sid = placeholder @ ''@@'' @ sid"

text \<open>
  \<^verbatim>\<open>clearDistributedStaticPlaceholders\<close> first collects every key of the table whose
  \<^verbatim>\<open>distributedKey\<close> is also a key of the table, then deletes the collected keys.
\<close>

definition clearDistributedStaticPlaceholders :: "string \<Rightarrow> manager \<Rightarrow> manager" where
  "clearDistributedStaticPlaceholders sid st =
     st\<lparr>staticPlaceholderValues :=
          (\<lambda>k. if staticPlaceholderValues st k \<noteq> None
                   \<and> staticPlaceholderValues st (distributedKey k sid) \<noteq> None
                then None else staticPlaceholderValues st k)\<rparr>"

definition unregisterAllDistributedTools :: "string \<Rightarrow> manager \<Rightarrow> manager" where
  "unregisterAllDistributedTools sid st =
     clearDistributedStaticPlaceholders sid
       (st\<lparr>plugins :=
             (\<lambda>n. case plugins st n of
                     None \<Rightarrow> None
                   | Some m \<Rightarrow> if isDistributed m \<and> serverId m = Some sid then None else Some m)\<rparr>)"


subsection \<open>Refreshing a static plugin\<close>

text \<open>
  A \<^typ>\<open>char\<close> stands for a code unit below 256. \<^verbatim>\<open>String.prototype.trim\<close> removes white space
  and line terminators at both ends; these are the ones below 256.
\<close>

definition isWhiteSpace :: "char \<Rightarrow> bool" where
  "isWhiteSpace c \<longleftrightarrow> (of_char c :: nat) \<in> {9, 10, 11, 12, 13, 32, 160}"

definition trim :: "string \<Rightarrow> string" where
  "trim s = rev (dropWhile isWhiteSpace (rev (dropWhile isWhiteSpace s)))"

definition startsWith :: "string \<Rightarrow> string \<Rightarrow> bool" where
  "startsWith s p \<longleftrightarrow> take (length p) s = p"

text \<open>
  How the promise of \<^verbatim>\<open>_executeStaticPluginCommand\<close> settles: rejected with an error of the
  given message, or resolved with the output of the command.
\<close>

datatype exec_result = Rejected string | Resolved string

definition errorMessage :: "string \<Rightarrow> string \<Rightarrow> string" where
  "errorMessage pluginName msg =
     ''[Error updating '' @ pluginName @ '': '' @ take 100 msg @ ''...]''"

definition unavailableMessage :: "string \<Rightarrow> string" where
  "unavailableMessage pluginName = ''['' @ pluginName @ '' data currently unavailable]''"

text \<open>The body of the \<^verbatim>\<open>forEach\<close> of \<^verbatim>\<open>_updateStaticPluginValue\<close>, for one placeholder.\<close>

definition updatePlaceholder ::
  "string \<Rightarrow> exec_result \<Rightarrow> string \<Rightarrow> (string \<rightharpoonup> string) \<Rightarrow> (string \<rightharpoonup> string)" where
  "updatePlaceholder pluginName res placeholderKey tbl =
     (let newValue = (case res of Resolved out \<Rightarrow> Some out | Rejected e \<Rightarrow> None);
          executionError = (case res of Resolved out \<Rightarrow> None | Rejected e \<Rightarrow> Some e);
          currentValue = tbl placeholderKey
      in if newValue \<noteq> None \<and> trim (the newValue) \<noteq> [] then
           tbl(placeholderKey \<mapsto> trim (the newValue))
         else if executionError \<noteq> None then
           (if \<not> truthy currentValue
                 \<or> (truthy currentValue \<and> startsWith (the currentValue) ''[Error'')
            then tbl(placeholderKey \<mapsto> errorMessage pluginName (the executionError))
            else tbl)
         else
           (if tbl placeholderKey = None
            then tbl(placeholderKey \<mapsto> unavailableMessage pluginName)
            else tbl))"

fun updatePlaceholders ::
  "string \<Rightarrow> exec_result \<Rightarrow> string list \<Rightarrow> (string \<rightharpoonup> string)
     \<Rightarrow> (string \<rightharpoonup> string)" where
  "updatePlaceholders pluginName res [] tbl = tbl"
| "updatePlaceholders pluginName res (k # ks) tbl =
     updatePlaceholders pluginName res ks (updatePlaceholder pluginName res k tbl)"

definition updateStaticPluginValue :: "manifest \<Rightarrow> exec_result \<Rightarrow> manager \<Rightarrow> manager" where
  "updateStaticPluginValue plugin res st =
     (case systemPromptPlaceholders plugin of
        None \<Rightarrow> st
      | Some phs \<Rightarrow>
          st\<lparr>staticPlaceholderValues :=
               updatePlaceholders (name plugin) res phs (staticPlaceholderValues st)\<rparr>)"

text \<open>The entry of a placeholder after one refresh, as a function of its entry before.\<close>

definition valueAfter :: "string \<Rightarrow> exec_result \<Rightarrow> string option \<Rightarrow> string option" where
  "valueAfter pluginName res prior =
     (case res of
        Resolved out \<Rightarrow>
          if trim out \<noteq> [] then Some (trim out)
          else if prior = None then Some (unavailableMessage pluginName) else prior
      | Rejected e \<Rightarrow>
          if prior = None \<or> prior = Some [] \<or> startsWith (the prior) ''[Error''
          then Some (errorMessage pluginName e) else prior)"

subsection \<open>The effective configuration of a plugin\<close>

text \<open>
  \<^verbatim>\<open>parseInt(value, 10)\<close>: leading white space is skipped, a sign is read, and the longest
  prefix of decimal digits is the number; without a digit the result is \<^verbatim>\<open>NaN\<close>, here
  \<^verbatim>\<open>None\<close>. The result is a Number, so the integer that the digits denote is rounded to the
  nearest double, ties to even: below \<^verbatim>\<open>2^53\<close> it is the integer itself, and from \<^verbatim>\<open>2^1024\<close>
  on it is \<^verbatim>\<open>Infinity\<close>. A minus sign before digits that denote zero gives the negative
  zero.
\<close>

definition isDigit :: "char \<Rightarrow> bool" where
  "isDigit c \<longleftrightarrow> 48 \<le> (of_char c :: nat) \<and> (of_char c :: nat) \<le> 57"

definition digitsValue :: "string \<Rightarrow> nat" where
  "digitsValue z = foldl (\<lambda>a c. 10 * a + (of_char c - 48)) 0 z"

text \<open>The number of binary digits of a natural number.\<close>

fun bitLength :: "nat \<Rightarrow> nat" where
  "bitLength n = (if n = 0 then 0 else Suc (bitLength (n div 2)))"

text \<open>
  The double nearest to a natural number, \<^verbatim>\<open>None\<close> when that is \<^verbatim>\<open>Infinity\<close>: the number is cut
  to its 53 leading binary digits, and rounded up when the rest is more than half a unit
  of the last kept digit, or exactly half and the last kept digit is odd.
\<close>

definition toDouble :: "nat \<Rightarrow> nat option" where
  "toDouble v =
     (if v < 2 ^ 53 then Some v
      else
        let e = bitLength v - 53;
            q = v div 2 ^ e;
            r = v mod 2 ^ e;
            q' = (if 2 ^ e < 2 * r \<or> (2 * r = 2 ^ e \<and> odd q) then q + 1 else q)
        in if q' * 2 ^ e < 2 ^ 1024 then Some (q' * 2 ^ e) else None)"

text \<open>The Numbers that \<^verbatim>\<open>parseInt\<close> returns, other than \<^verbatim>\<open>NaN\<close>.\<close>

datatype js_number = Finite int | NegativeZero | PositiveInfinity | NegativeInfinity

definition signedNumber :: "bool \<Rightarrow> nat option \<Rightarrow> js_number" where
  "signedNumber negative v =
     (case v of
        None \<Rightarrow> if negative then NegativeInfinity else PositiveInfinity
      | Some n \<Rightarrow>
          if negative then (if n = 0 then NegativeZero else Finite (- int n))
          else Finite (int n))"

definition parseInt10 :: "string \<Rightarrow> js_number option" where
  "parseInt10 s =
     (let s1 = dropWhile isWhiteSpace s;
          negative = (take 1 s1 = ''-'');
          s2 = (if take 1 s1 = ''-'' \<or> take 1 s1 = ''+'' then drop 1 s1 else s1);
          z = takeWhile isDigit s2
      in if z = [] then None else Some (signedNumber negative (toDouble (digitsValue z))))"

text \<open>\<^verbatim>\<open>toLowerCase\<close> on code units below 256.\<close>

definition toLowerChar :: "char \<Rightarrow> char" where
  "toLowerChar c =
     (let n = (of_char c :: nat)
      in if (65 \<le> n \<and> n \<le> 90) \<or> (192 \<le> n \<and> n \<le> 222 \<and> n \<noteq> 215)
         then char_of (n + 32) else c)"

definition toLowerCase :: "string \<Rightarrow> string" where
  "toLowerCase s = map toLowerChar s"

text \<open>
  The values of the own properties of the object that \<^verbatim>\<open>_getPluginConfig\<close> returns; a key
  that the object does not hold is a key at which the map is \<^verbatim>\<open>None\<close>.
\<close>

datatype config_value = VString string | VNumber js_number | VBoolean bool | VUndefined

definition coerceValue :: "string \<Rightarrow> string \<Rightarrow> config_value" where
  "coerceValue expectedType rawValue =
     (if expectedType = ''integer'' then
        (case parseInt10 rawValue of None \<Rightarrow> VUndefined | Some x \<Rightarrow> VNumber x)
      else if expectedType = ''boolean'' then VBoolean (toLowerCase rawValue = ''true'')
      else VString rawValue)"

text \<open>
  \<^verbatim>\<open>obj.hasOwnProperty(key)\<close> on an environment (the object that \<^verbatim>\<open>dotenv.parse\<close> returns, or
  \<^verbatim>\<open>process.env\<close>): the method is looked up on the object first, so when the environment
  defines a variable named \<^verbatim>\<open>hasOwnProperty\<close> the call is the call of a string and throws a
  \<^verbatim>\<open>TypeError\<close>, here \<^verbatim>\<open>None\<close>.
\<close>

definition hasOwnProperty :: "(string \<rightharpoonup> string) \<Rightarrow> string \<Rightarrow> bool option" where
  "hasOwnProperty obj key =
     (if obj ''hasOwnProperty'' \<noteq> None then None else Some (obj key \<noteq> None))"

text \<open>
  \<^verbatim>\<open>config[key] = value\<close> on the object literal \<^verbatim>\<open>config\<close>: the key \<^verbatim>\<open>__proto__\<close> reaches the
  setter of \<^verbatim>\<open>Object.prototype\<close>, which ignores a value that is not an object, so no
  property is created.
\<close>

definition assign ::
  "string \<Rightarrow> config_value \<Rightarrow> (string \<rightharpoonup> config_value) \<Rightarrow> (string \<rightharpoonup> config_value)" where
  "assign key v config = (if key = ''__proto__'' then config else config(key \<mapsto> v))"

text \<open>
  The body of the loop over the keys of \<^verbatim>\<open>configSchema\<close>, and the loop; the environments that
  \<^verbatim>\<open>dotenv.parse\<close> and \<^verbatim>\<open>process.env\<close> give map keys to strings. A declared type that is not
  one of the strings \<^verbatim>\<open>integer\<close> and \<^verbatim>\<open>boolean\<close> leaves the raw string as it is.
\<close>

definition schemaStep ::
  "(string \<rightharpoonup> string) \<Rightarrow> (string \<rightharpoonup> string) \<Rightarrow> string \<times> string
     \<Rightarrow> (string \<rightharpoonup> config_value) \<Rightarrow> (string \<rightharpoonup> config_value) option" where
  "schemaStep pluginSpecificEnv globalEnv kt config =
     (case kt of (key, expectedType) \<Rightarrow>
        (case hasOwnProperty pluginSpecificEnv key of
           None \<Rightarrow> None
         | Some True \<Rightarrow>
             Some (assign key (coerceValue expectedType (the (pluginSpecificEnv key))) config)
         | Some False \<Rightarrow>
             (case hasOwnProperty globalEnv key of
                None \<Rightarrow> None
              | Some True \<Rightarrow>
                  Some (assign key (coerceValue expectedType (the (globalEnv key))) config)
              | Some False \<Rightarrow> Some config)))"

fun schemaLoop ::
  "(string \<rightharpoonup> string) \<Rightarrow> (string \<rightharpoonup> string) \<Rightarrow> (string \<times> string) list
     \<Rightarrow> (string \<rightharpoonup> config_value) \<Rightarrow> (string \<rightharpoonup> config_value) option" where
  "schemaLoop pluginSpecificEnv globalEnv [] config = Some config"
| "schemaLoop pluginSpecificEnv globalEnv (kt # rest) config =
     (case schemaStep pluginSpecificEnv globalEnv kt config of
        None \<Rightarrow> None
      | Some config' \<Rightarrow> schemaLoop pluginSpecificEnv globalEnv rest config')"

text \<open>\<^verbatim>\<open>pluginManifest.pluginSpecificEnvConfig || {}\<close>.\<close>

definition pluginSpecificEnvOf :: "manifest \<Rightarrow> (string \<rightharpoonup> string)" where
  "pluginSpecificEnvOf pluginManifest =
     (case pluginSpecificEnvConfig pluginManifest of None \<Rightarrow> Map.empty | Some e \<Rightarrow> e)"

text \<open>The statements about \<^verbatim>\<open>DebugMode\<close> that follow the loop.\<close>

definition debugModeStep ::
  "(string \<rightharpoonup> string) \<Rightarrow> (string \<rightharpoonup> string) \<Rightarrow> (string \<rightharpoonup> config_value)
     \<Rightarrow> (string \<rightharpoonup> config_value) option" where
  "debugModeStep pluginSpecificEnv globalEnv config =
     (case hasOwnProperty pluginSpecificEnv ''DebugMode'' of
        None \<Rightarrow> None
      | Some True \<Rightarrow>
          Some (config(''DebugMode'' \<mapsto>
                  VBoolean (toLowerCase (the (pluginSpecificEnv ''DebugMode'')) = ''true'')))
      | Some False \<Rightarrow>
          (case hasOwnProperty globalEnv ''DebugMode'' of
             None \<Rightarrow> None
           | Some True \<Rightarrow>
               Some (config(''DebugMode'' \<mapsto>
                       VBoolean (toLowerCase (the (globalEnv ''DebugMode'')) = ''true'')))
           | Some False \<Rightarrow>
               if config ''DebugMode'' = None
               then Some (config(''DebugMode'' \<mapsto> VBoolean False))
               else Some config))"

text \<open>
  \<^verbatim>\<open>_getPluginConfig\<close>: the object it returns, or \<^verbatim>\<open>None\<close> when it throws. The second argument
  is \<^verbatim>\<open>process.env\<close>.
\<close>

definition getPluginConfig ::
  "manifest \<Rightarrow> (string \<rightharpoonup> string) \<Rightarrow> (string \<rightharpoonup> config_value) option" where
  "getPluginConfig pluginManifest globalEnv =
     (let pluginSpecificEnv = pluginSpecificEnvOf pluginManifest
      in case (case configSchema pluginManifest of
                 None \<Rightarrow> Some Map.empty
               | Some schema \<Rightarrow> schemaLoop pluginSpecificEnv globalEnv schema Map.empty) of
           None \<Rightarrow> None
         | Some config \<Rightarrow> debugModeStep pluginSpecificEnv globalEnv config)"

text \<open>
  In the words of the specification: the first defined of
  \<^verbatim>\<open>pluginSpecificEnvConfig[key]\<close> and the process environment at \<^verbatim>\<open>key\<close>; the keys that
  \<^verbatim>\<open>configSchema\<close> declares, with their types; a string that equals \<^verbatim>\<open>true\<close> when the case of
  its letters is ignored; and a string that parses as an integer, which is one that holds
  a decimal digit after its leading white space and an optional sign.
\<close>

definition firstDefined :: "manifest \<Rightarrow> (string \<rightharpoonup> string) \<Rightarrow> string \<Rightarrow> string option" where
  "firstDefined pluginManifest globalEnv key =
     (case pluginSpecificEnvOf pluginManifest key of
        None \<Rightarrow> globalEnv key
      | Some v \<Rightarrow> Some v)"

definition declaredTypes :: "manifest \<Rightarrow> (string \<times> string) list" where
  "declaredTypes pluginManifest =
     (case configSchema pluginManifest of None \<Rightarrow> [] | Some schema \<Rightarrow> schema)"

definition equalsTrueIgnoringCase :: "string \<Rightarrow> bool" where
  "equalsTrueIgnoringCase s \<longleftrightarrow>
     list_all2 (\<lambda>c lu. c = fst lu \<or> c = snd lu) s (zip ''true'' ''TRUE'')"

definition startsWithInteger :: "string \<Rightarrow> bool" where
  "startsWithInteger s \<longleftrightarrow>
     (case dropWhile isWhiteSpace s of
        [] \<Rightarrow> False
      | c # cs \<Rightarrow>
          isDigit c \<or>
          ((c = CHR ''+'' \<or> c = CHR ''-'') \<and> (case cs of [] \<Rightarrow> False | d # _ \<Rightarrow> isDigit d)))"

subsection \<open>executePlugin: the handlers of a spawned process\<close>

text \<open>
  The values of \<^verbatim>\<open>JSON.parse\<close>. \<^verbatim>\<open>JSON.parse\<close> itself belongs to the runtime and is an
  argument \<^verbatim>\<open>parse\<close> of the functions below; \<^verbatim>\<open>None\<close> stands for a \<^verbatim>\<open>SyntaxError\<close>.
\<close>

datatype json =
    JNull | JBool bool | JNumber int | JString string
  | JArray "json list" | JObject "(string \<times> json) list"

definition field :: "json \<Rightarrow> string \<Rightarrow> json option" where
  "field j k = (case j of JObject kvs \<Rightarrow> map_of kvs k | _ \<Rightarrow> None)"

definition setField :: "string \<Rightarrow> json \<Rightarrow> json \<Rightarrow> json" where
  "setField k v j = (case j of JObject kvs \<Rightarrow> JObject (AList.update k v kvs) | _ \<Rightarrow> j)"

text \<open>The test \<^verbatim>\<open>parsedOutput && (parsedOutput.status === "success" ||
  parsedOutput.status === "error")\<close>.\<close>

definition hasStatus :: "json \<Rightarrow> bool" where
  "hasStatus parsedOutput \<longleftrightarrow>
     field parsedOutput ''status'' = Some (JString ''success'')
     \<or> field parsedOutput ''status'' = Some (JString ''error'')"

text \<open>
  The variables that the handlers of one \<^verbatim>\<open>executePlugin\<close> call share. \<^verbatim>\<open>settlements\<close>
  lists the calls of \<^verbatim>\<open>resolve\<close> and \<^verbatim>\<open>reject\<close> in the order in which the handlers make
  them (the promise takes the first), \<^verbatim>\<open>killed\<close> records \<^verbatim>\<open>pluginProcess.kill\<close>, and
  \<^verbatim>\<open>timerCleared\<close> holds once the timer has fired or \<^verbatim>\<open>clearTimeout\<close> was called.
\<close>

datatype settlement = Resolve json | Reject string

record execution =
  outputBuffer :: string
  errorOutput :: string
  processExited :: bool
  initialResponseSent :: bool
  timerCleared :: bool
  killed :: bool
  settlements :: "settlement list"

definition spawned :: execution where
  "spawned =
     \<lparr>outputBuffer = [], errorOutput = [], processExited = False, initialResponseSent = False,
      timerCleared = False, killed = False, settlements = []\<rparr>"

text \<open>What the process and the timer deliver: an exit carries a code or a signal.\<close>

datatype event =
    StdoutData string
  | StderrData string
  | ProcessError string
  | Exit "nat option" "string option"
  | TimeoutFires

text \<open>
  The match of \<^verbatim>\<open>/(\{[\s\S]*?\})(?:\s|$)/\<close>: from the first opening brace to the first
  closing brace after it that is followed by white space or by the end of the buffer.
\<close>

fun shortestClose :: "string \<Rightarrow> string option" where
  "shortestClose [] = None"
| "shortestClose (c # cs) =
     (if c = CHR ''}'' \<and> (case cs of [] \<Rightarrow> True | d # _ \<Rightarrow> isWhiteSpace d)
      then Some [c]
      else map_option (Cons c) (shortestClose cs))"

definition potentialJsonMatch :: "string \<Rightarrow> string option" where
  "potentialJsonMatch buf =
     (case dropWhile (\<lambda>c. c \<noteq> CHR ''{'') buf of
        [] \<Rightarrow> None
      | b # rest \<Rightarrow> map_option (Cons b) (shortestClose rest))"

text \<open>The double quote, and the decimal numeral of an exit code.\<close>

definition dq :: string where
  "dq = [CHR 0x22]"

fun showNat :: "nat \<Rightarrow> string" where
  "showNat n =
     (if n < 10 then [char_of (48 + n)] else showNat (n div 10) @ [char_of (48 + n mod 10)])"

definition showCode :: "nat option \<Rightarrow> string" where
  "showCode code = (case code of None \<Rightarrow> ''null'' | Some n \<Rightarrow> showNat n)"

definition reject :: "string \<Rightarrow> execution \<Rightarrow> execution" where
  "reject msg ex = ex\<lparr>settlements := settlements ex @ [Reject msg]\<rparr>"

definition resolve :: "json \<Rightarrow> execution \<Rightarrow> execution" where
  "resolve v ex = ex\<lparr>settlements := settlements ex @ [Resolve v]\<rparr>"

definition onTimeout :: "bool \<Rightarrow> string \<Rightarrow> execution \<Rightarrow> execution" where
  "onTimeout isAsyncPlugin pluginName ex =
     (if timerCleared ex then ex
      else if \<not> processExited ex \<and> \<not> initialResponseSent ex \<and> isAsyncPlugin then
        reject (''Plugin '' @ dq @ pluginName @ dq @ '' initial response timed out.'')
          (ex\<lparr>killed := True, timerCleared := True\<rparr>)
      else if \<not> processExited ex \<and> \<not> isAsyncPlugin then
        reject (''Plugin '' @ dq @ pluginName @ dq @ '' execution timed out.'')
          (ex\<lparr>killed := True, timerCleared := True\<rparr>)
      else ex\<lparr>timerCleared := True\<rparr>)"

definition onStdoutData ::
  "(string \<Rightarrow> json option) \<Rightarrow> bool \<Rightarrow> string \<Rightarrow> execution \<Rightarrow> execution" where
  "onStdoutData parse isAsyncPlugin chunk ex =
     (if processExited ex \<or> (isAsyncPlugin \<and> initialResponseSent ex) then ex
      else
        let ex1 = ex\<lparr>outputBuffer := outputBuffer ex @ chunk\<rparr>
        in case potentialJsonMatch (outputBuffer ex1) of
             None \<Rightarrow> ex1
           | Some jsonString \<Rightarrow>
               (case parse jsonString of
                  None \<Rightarrow> ex1
                | Some parsedOutput \<Rightarrow>
                    if hasStatus parsedOutput then
                      (if isAsyncPlugin then
                         (if \<not> initialResponseSent ex1
                          then resolve parsedOutput (ex1\<lparr>initialResponseSent := True\<rparr>)
                          else ex1)
                       else ex1)
                    else ex1))"

definition onStderrData :: "string \<Rightarrow> execution \<Rightarrow> execution" where
  "onStderrData chunk ex = ex\<lparr>errorOutput := errorOutput ex @ chunk\<rparr>"

definition onError :: "string \<Rightarrow> string \<Rightarrow> execution \<Rightarrow> execution" where
  "onError pluginName msg ex =
     (let ex1 = ex\<lparr>processExited := True, timerCleared := True\<rparr>
      in if \<not> initialResponseSent ex1
         then reject (''Failed to start plugin '' @ dq @ pluginName @ dq @ '': '' @ msg) ex1
         else ex1)"

definition exitMessage :: "string \<Rightarrow> nat option \<Rightarrow> string \<Rightarrow> string \<Rightarrow> string" where
  "exitMessage pluginName code out err =
     (if code \<noteq> Some 0 then
        ''Plugin '' @ dq @ pluginName @ dq @ '' exited with code '' @ showCode code @ ''.''
          @ (if trim out \<noteq> [] then '' Stdout: '' @ take 200 (trim out) else [])
          @ (if trim err \<noteq> [] then '' Stderr: '' @ take 200 (trim err) else [])
      else
        ''Plugin '' @ dq @ pluginName @ dq
          @ '' exited successfully but did not provide a valid initial JSON response. Stdout: ''
          @ take 200 (trim out))"

definition onExit ::
  "(string \<Rightarrow> json option) \<Rightarrow> bool \<Rightarrow> string \<Rightarrow> nat option \<Rightarrow> string option
     \<Rightarrow> execution \<Rightarrow> execution" where
  "onExit parse isAsyncPlugin pluginName code signal ex0 =
     (let ex = ex0\<lparr>processExited := True, timerCleared := True\<rparr>
      in if isAsyncPlugin \<and> initialResponseSent ex then ex
         else if signal = Some ''SIGKILL'' then
           (if \<not> initialResponseSent ex
            then reject (''Plugin '' @ dq @ pluginName @ dq @ '' execution timed out or was killed.'') ex
            else ex)
         else
           (case parse (trim (outputBuffer ex)) of
              Some parsedOutput \<Rightarrow>
                if hasStatus parsedOutput then
                  (let parsedOutput' =
                         (if trim (errorOutput ex) \<noteq> []
                          then setField ''pluginStderr'' (JString (trim (errorOutput ex))) parsedOutput
                          else parsedOutput)
                   in if \<not> initialResponseSent ex then resolve parsedOutput' ex else ex)
                else
                  (if \<not> initialResponseSent ex
                   then reject (exitMessage pluginName code (outputBuffer ex) (errorOutput ex)) ex
                   else ex)
            | None \<Rightarrow>
                (if \<not> initialResponseSent ex
                 then reject (exitMessage pluginName code (outputBuffer ex) (errorOutput ex)) ex
                 else ex)))"

text \<open>One event, and a sequence of events.\<close>

fun handle ::
  "(string \<Rightarrow> json option) \<Rightarrow> bool \<Rightarrow> string \<Rightarrow> event \<Rightarrow> execution \<Rightarrow> execution" where
  "handle parse isAsyncPlugin pluginName (StdoutData chunk) ex = onStdoutData parse isAsyncPlugin chunk ex"
| "handle parse isAsyncPlugin pluginName (StderrData chunk) ex = onStderrData chunk ex"
| "handle parse isAsyncPlugin pluginName (ProcessError msg) ex = onError pluginName msg ex"
| "handle parse isAsyncPlugin pluginName (Exit code signal) ex =
     onExit parse isAsyncPlugin pluginName code signal ex"
| "handle parse isAsyncPlugin pluginName TimeoutFires ex = onTimeout isAsyncPlugin pluginName ex"

fun run ::
  "(string \<Rightarrow> json option) \<Rightarrow> bool \<Rightarrow> string \<Rightarrow> event list \<Rightarrow> execution \<Rightarrow> execution" where
  "run parse isAsyncPlugin pluginName [] ex = ex"
| "run parse isAsyncPlugin pluginName (e # es) ex =
     run parse isAsyncPlugin pluginName es (handle parse isAsyncPlugin pluginName e ex)"

text \<open>The chunks that a sequence of events writes to stdout and to stderr.\<close>

fun isData :: "event \<Rightarrow> bool" where
  "isData (StdoutData chunk) = True"
| "isData (StderrData chunk) = True"
| "isData e = False"

fun stdoutOf :: "event list \<Rightarrow> string" where
  "stdoutOf [] = []"
| "stdoutOf (StdoutData chunk # es) = chunk @ stdoutOf es"
| "stdoutOf (e # es) = stdoutOf es"

fun stderrOf :: "event list \<Rightarrow> string" where
  "stderrOf [] = []"
| "stderrOf (StderrData chunk # es) = chunk @ stderrOf es"
| "stderrOf (e # es) = stderrOf es"

text \<open>The status object that the text \<^verbatim>\<open>s\<close> parses to, if it does.\<close>

definition statusJson :: "(string \<Rightarrow> json option) \<Rightarrow> string \<Rightarrow> json option" where
  "statusJson parse s =
     (case parse s of
        None \<Rightarrow> None
      | Some parsedOutput \<Rightarrow> if hasStatus parsedOutput then Some parsedOutput else None)"

text \<open>The acknowledgement that the stdout handler finds in a buffer, if any.\<close>

definition ackOf :: "(string \<Rightarrow> json option) \<Rightarrow> string \<Rightarrow> json option" where
  "ackOf parse buf =
     (case potentialJsonMatch buf of None \<Rightarrow> None | Some jsonString \<Rightarrow> statusJson parse jsonString)"

definition attachStderr :: "string \<Rightarrow> json \<Rightarrow> json" where
  "attachStderr err parsedOutput =
     (if trim err \<noteq> [] then setField ''pluginStderr'' (JString (trim err)) parsedOutput
      else parsedOutput)"

subsection \<open>processToolCall\<close>

text \<open>The truth value of a property that may be missing.\<close>

definition jsTruthy :: "json option \<Rightarrow> bool" where
  "jsTruthy v \<longleftrightarrow>
     (case v of
        None \<Rightarrow> False
      | Some JNull \<Rightarrow> False
      | Some (JBool b) \<Rightarrow> b
      | Some (JNumber n) \<Rightarrow> n \<noteq> 0
      | Some (JString s) \<Rightarrow> s \<noteq> []
      | Some (JArray xs) \<Rightarrow> True
      | Some (JObject kvs) \<Rightarrow> True)"

text \<open>
  A thrown \<^verbatim>\<open>Error\<close>. \<^verbatim>\<open>JsonError j\<close> is an error whose message is \<^verbatim>\<open>JSON.stringify\<close> of the
  object \<^verbatim>\<open>j\<close>, so that \<^verbatim>\<open>JSON.parse\<close> of its message gives \<^verbatim>\<open>j\<close> back; the message of a
  \<^verbatim>\<open>PlainError\<close> is taken not to be JSON text.
\<close>

datatype js_error = PlainError string | JsonError json

text \<open>
  The object with which \<^verbatim>\<open>executePlugin\<close> resolves, with the properties that
  \<^verbatim>\<open>processToolCall\<close> reads. \<^verbatim>\<open>code\<close>, \<^verbatim>\<open>fileUrl\<close> and \<^verbatim>\<open>failedParameter\<close> are strings when
  they are present.
\<close>

record plugin_output =
  status :: string
  result :: "json option"
  error :: "json option"
  code :: "string option"
  fileUrl :: "string option"
  failedParameter :: "string option"

text \<open>
  The calls that leave the dispatcher, in the order in which it makes them. The argument
  of \<^verbatim>\<open>executePlugin\<close> is the JSON text of the arguments, kept here as the arguments, or
  \<^verbatim>\<open>null\<close> when there are none.
\<close>

datatype call =
    ExecutePlugin string "(string \<times> json) list option" "string option"
  | FetchFile string string
  | ExecuteDistributedTool "string option" string "(string \<times> json) list"
  | ForwardCommandToChrome "json option" "(string \<times> json) list"
  | ServiceProcessToolCall string "(string \<times> json) list"

text \<open>
  What \<^verbatim>\<open>processToolCall\<close> awaits or reads from outside: every answer may depend on the calls
  made so far. \<^verbatim>\<open>fetchFileX\<close> answers with the base64 text of the buffer and the MIME type,
  or with the message of the error it throws.
\<close>

record externals =
  executePluginX ::
    "call list \<Rightarrow> string \<Rightarrow> (string \<times> json) list option \<Rightarrow> string option
       \<Rightarrow> js_error + plugin_output"
  fetchFileX :: "call list \<Rightarrow> string \<Rightarrow> string \<Rightarrow> string + string \<times> string"
  executeDistributedToolX ::
    "call list \<Rightarrow> string option \<Rightarrow> string \<Rightarrow> (string \<times> json) list \<Rightarrow> js_error + json option"
  forwardCommandToChromeX ::
    "call list \<Rightarrow> json option \<Rightarrow> (string \<times> json) list \<Rightarrow> js_error + json option"
  serviceProcessToolCallX ::
    "call list \<Rightarrow> string \<Rightarrow> (string \<times> json) list \<Rightarrow> js_error + json option"
  serviceHasProcessToolCall :: "string \<Rightarrow> bool"
  webSocketServerSet :: bool
  jsonParse :: "string \<Rightarrow> json option"
  jsonStringify :: "json \<Rightarrow> string"
  localTimestamp :: string

definition errorText :: "externals \<Rightarrow> js_error \<Rightarrow> string" where
  "errorText w e = (case e of PlainError msg \<Rightarrow> msg | JsonError j \<Rightarrow> jsonStringify w j)"

text \<open>\<^verbatim>\<open>String.prototype.replace\<close> with a string pattern: the first occurrence.\<close>

fun replaceFirst :: "string \<Rightarrow> string \<Rightarrow> string \<Rightarrow> string" where
  "replaceFirst pat rep [] = (if pat = [] then rep else [])"
| "replaceFirst pat rep (c # cs) =
     (if take (length pat) (c # cs) = pat then rep @ drop (length pat) (c # cs)
      else c # replaceFirst pat rep cs)"

text \<open>The arguments of the retry, \<^verbatim>\<open>newToolArgs\<close>.\<close>

definition retryArgs ::
  "plugin_output \<Rightarrow> (string \<times> json) list \<Rightarrow> string \<Rightarrow> (string \<times> json) list" where
  "retryArgs pluginOutput toolArgs dataUri =
     (let failedParam = failedParameter pluginOutput
      in if truthy failedParam \<and> jsTruthy (map_of toolArgs (the failedParam)) then
           AList.update (''image_base64_'' @ replaceFirst ''image_url_'' [] (the failedParam))
             (JString dataUri) (AList.delete (the failedParam) toolArgs)
         else
           AList.update ''image_base64'' (JString dataUri) (AList.delete ''image_url'' toolArgs))"

text \<open>The error that the \<^verbatim>\<open>catch (fetchError)\<close> block throws.\<close>

definition fetchFailed :: "string \<Rightarrow> plugin_output \<Rightarrow> js_error" where
  "fetchFailed msg pluginOutput =
     JsonError (JObject
       ((''plugin_error'',
          JString (''Plugin reported local file not found, but remote fetch failed: '' @ msg))
        # (case error pluginOutput of
             None \<Rightarrow> []
           | Some e \<Rightarrow> [(''original_plugin_error'', e)])))"

text \<open>
  The common handling of a result and the outer \<^verbatim>\<open>catch\<close> block. A property that is set
  on an array is not part of its JSON value.
\<close>

definition finishResult :: "externals \<Rightarrow> json option \<Rightarrow> json option \<Rightarrow> json" where
  "finishResult w maidNameFromArgs resultFromPlugin =
     (let finalResultObject =
            (case resultFromPlugin of
               Some (JObject kvs) \<Rightarrow> JObject kvs
             | Some (JArray xs) \<Rightarrow> JArray xs
             | Some v \<Rightarrow> JObject [(''original_plugin_output'', v)]
             | None \<Rightarrow> JObject []);
          withMaid =
            (if jsTruthy maidNameFromArgs
             then setField ''MaidName'' (the maidNameFromArgs) finalResultObject
             else finalResultObject)
      in setField ''timestamp'' (JString (localTimestamp w)) withMaid)"

definition finishError :: "externals \<Rightarrow> json option \<Rightarrow> js_error \<Rightarrow> js_error" where
  "finishError w maidNameFromArgs e =
     (let errorObject =
            (case e of
               JsonError j \<Rightarrow> j
             | PlainError msg \<Rightarrow>
                 JObject [(''plugin_execution_error'',
                           JString (if msg = [] then ''Unknown plugin execution error'' else msg))]);
          withMaid =
            (if jsTruthy maidNameFromArgs \<and> \<not> jsTruthy (field errorObject ''MaidName'')
             then setField ''MaidName'' (the maidNameFromArgs) errorObject
             else errorObject)
      in JsonError
           (if \<not> jsTruthy (field withMaid ''timestamp'')
            then setField ''timestamp'' (JString (localTimestamp w)) withMaid
            else withMaid))"

definition isStdioPlugin :: "manifest \<Rightarrow> bool" where
  "isStdioPlugin plugin \<longleftrightarrow>
     (pluginType plugin = ''synchronous'' \<or> pluginType plugin = ''asynchronous'')
     \<and> (case communication plugin of None \<Rightarrow> False | Some c \<Rightarrow> protocol c = Some ''stdio'')"

definition isDirect :: "manifest \<Rightarrow> bool" where
  "isDirect plugin \<longleftrightarrow>
     (case communication plugin of None \<Rightarrow> False | Some c \<Rightarrow> protocol c = Some ''direct'')"

definition finish ::
  "externals \<Rightarrow> json option \<Rightarrow> call list \<times> (js_error + json option)
     \<Rightarrow> call list \<times> (js_error + json)" where
  "finish w maid r =
     (case r of
        (tr, Inl e) \<Rightarrow> (tr, Inl (finishError w maid e))
      | (tr, Inr v) \<Rightarrow> (tr, Inr (finishResult w maid v)))"

definition maidOf :: "(string \<times> json) list \<Rightarrow> json option" where
  "maidOf toolArgs = (if jsTruthy (map_of toolArgs ''maid'') then map_of toolArgs ''maid'' else None)"

definition pluginNotFound :: "string \<Rightarrow> js_error" where
  "pluginNotFound toolName =
     PlainError (''[PluginManager] Plugin '' @ dq @ toolName @ dq @ '' not found for tool call.'')"

definition callDistributed ::
  "externals \<Rightarrow> call list \<Rightarrow> manifest \<Rightarrow> string \<Rightarrow> (string \<times> json) list
     \<Rightarrow> call list \<times> (js_error + json option)" where
  "callDistributed w trace plugin toolName pluginSpecificArgs =
     (if \<not> webSocketServerSet w then
        (trace, Inl (PlainError
           ''[PluginManager] WebSocketServer is not initialized. Cannot call distributed tool.''))
      else
        (trace @ [ExecuteDistributedTool (serverId plugin) toolName pluginSpecificArgs],
         executeDistributedToolX w trace (serverId plugin) toolName pluginSpecificArgs))"

definition callChrome ::
  "externals \<Rightarrow> call list \<Rightarrow> (string \<times> json) list \<Rightarrow> call list \<times> (js_error + json option)" where
  "callChrome w trace pluginSpecificArgs =
     (if \<not> webSocketServerSet w then
        (trace, Inl (PlainError
           ''[PluginManager] WebSocketServer is not initialized. Cannot call ChromeControl tool.''))
      else
        (trace @ [ForwardCommandToChrome (map_of pluginSpecificArgs ''command'')
                    (AList.delete ''command'' pluginSpecificArgs)],
         forwardCommandToChromeX w trace (map_of pluginSpecificArgs ''command'')
           (AList.delete ''command'' pluginSpecificArgs)))"

definition callService ::
  "externals \<Rightarrow> manager \<Rightarrow> call list \<Rightarrow> string \<Rightarrow> (string \<times> json) list
     \<Rightarrow> call list \<times> (js_error + json option)" where
  "callService w st trace toolName pluginSpecificArgs =
     (if serviceModules st toolName \<noteq> None \<and> serviceHasProcessToolCall w toolName then
        (trace @ [ServiceProcessToolCall toolName pluginSpecificArgs],
         serviceProcessToolCallX w trace toolName pluginSpecificArgs)
      else
        (trace, Inl (PlainError
           (''[PluginManager] Hybrid service plugin '' @ dq @ toolName @ dq
            @ '' does not have a processToolCall function.''))))"

definition notStdio :: "string \<Rightarrow> manifest \<Rightarrow> js_error" where
  "notStdio toolName plugin =
     PlainError (''[PluginManager] Local plugin '' @ dq @ toolName @ dq @ '' (type: ''
                 @ pluginType plugin
                 @ '') is not a supported stdio plugin for direct tool call.'')"

definition parseResult :: "externals \<Rightarrow> plugin_output \<Rightarrow> json option" where
  "parseResult w pluginOutput =
     (case result pluginOutput of
        Some (JString s) \<Rightarrow>
          (case jsonParse w s of
             Some j \<Rightarrow> Some j
           | None \<Rightarrow> Some (JObject [(''original_plugin_output'', JString s)]))
      | r \<Rightarrow> r)"

definition pluginError :: "string \<Rightarrow> plugin_output \<Rightarrow> js_error" where
  "pluginError toolName pluginOutput =
     JsonError (JObject
       [(''plugin_error'',
         if jsTruthy (error pluginOutput) then the (error pluginOutput)
         else JString (''Plugin '' @ dq @ toolName @ dq @ '' reported an unspecified error.''))])"

definition afterRetry ::
  "externals \<Rightarrow> json option \<Rightarrow> plugin_output \<Rightarrow> call list \<times> (js_error + json)
     \<Rightarrow> call list \<times> (js_error + json)" where
  "afterRetry w maid pluginOutput r =
     (case r of
        (tr, Inr v) \<Rightarrow> (tr, Inr v)
      | (tr, Inl e) \<Rightarrow> finish w maid (tr, Inl (fetchFailed (errorText w e) pluginOutput)))"

definition executionParamOf :: "(string \<times> json) list \<Rightarrow> (string \<times> json) list option" where
  "executionParamOf pluginSpecificArgs =
     (if length pluginSpecificArgs > 0 then Some pluginSpecificArgs else None)"

definition fileNotFoundLocally :: "plugin_output \<Rightarrow> string option \<Rightarrow> bool" where
  "fileNotFoundLocally pluginOutput requestIp \<longleftrightarrow>
     code pluginOutput = Some ''FILE_NOT_FOUND_LOCALLY''
     \<and> truthy (fileUrl pluginOutput) \<and> truthy requestIp"

definition dataUriOf :: "string \<Rightarrow> string \<Rightarrow> string" where
  "dataUriOf mimeType base64Data = ''data:'' @ mimeType @ '';base64,'' @ base64Data"

text \<open>
  \<^verbatim>\<open>processToolCall\<close>: the calls made and the object returned (\<^verbatim>\<open>Inr\<close>) or the error
  thrown (\<^verbatim>\<open>Inl\<close>); \<^verbatim>\<open>None\<close> when the retries never end.
\<close>

partial_function (option) processToolCall ::
  "externals \<Rightarrow> manager \<Rightarrow> call list \<Rightarrow> string \<Rightarrow> (string \<times> json) list \<Rightarrow> string option
     \<Rightarrow> (call list \<times> (js_error + json)) option" where
  "processToolCall w st trace toolName toolArgs requestIp =
     (case plugins st toolName of
        None \<Rightarrow> Some (trace, Inl (pluginNotFound toolName))
      | Some plugin \<Rightarrow>
          (if isDistributed plugin then
             Some (finish w (maidOf toolArgs) (callDistributed w trace plugin toolName toolArgs))
           else if toolName = ''ChromeControl'' \<and> isDirect plugin then
             Some (finish w (maidOf toolArgs) (callChrome w trace toolArgs))
           else if pluginType plugin = ''hybridservice'' \<and> isDirect plugin then
             Some (finish w (maidOf toolArgs) (callService w st trace toolName toolArgs))
           else if \<not> isStdioPlugin plugin then
             Some (finish w (maidOf toolArgs) (trace, Inl (notStdio toolName plugin)))
           else
             (case executePluginX w trace toolName (executionParamOf toolArgs) requestIp of
                Inl e \<Rightarrow>
                  Some (finish w (maidOf toolArgs)
                    (trace @ [ExecutePlugin toolName (executionParamOf toolArgs) requestIp], Inl e))
              | Inr pluginOutput \<Rightarrow>
                  (if status pluginOutput = ''success'' then
                     Some (finish w (maidOf toolArgs)
                       (trace @ [ExecutePlugin toolName (executionParamOf toolArgs) requestIp],
                        Inr (parseResult w pluginOutput)))
                   else if fileNotFoundLocally pluginOutput requestIp then
                     (case fetchFileX w
                             (trace @ [ExecutePlugin toolName (executionParamOf toolArgs) requestIp])
                             (the (fileUrl pluginOutput)) (the requestIp) of
                        Inl msg \<Rightarrow>
                          Some (finish w (maidOf toolArgs)
                            (trace @ [ExecutePlugin toolName (executionParamOf toolArgs) requestIp,
                                      FetchFile (the (fileUrl pluginOutput)) (the requestIp)],
                             Inl (fetchFailed msg pluginOutput)))
                      | Inr fetched \<Rightarrow>
                          Option.bind
                            (processToolCall w st
                               (trace @ [ExecutePlugin toolName (executionParamOf toolArgs) requestIp,
                                         FetchFile (the (fileUrl pluginOutput)) (the requestIp)])
                               toolName
                               (retryArgs pluginOutput toolArgs
                                  (dataUriOf (snd fetched) (fst fetched)))
                               requestIp)
                            (\<lambda>r. Some (afterRetry w (maidOf toolArgs) pluginOutput r)))
                   else
                     Some (finish w (maidOf toolArgs)
                       (trace @ [ExecutePlugin toolName (executionParamOf toolArgs) requestIp],
                        Inl (pluginError toolName pluginOutput)))))))"

subsection \<open>The order of the preprocessors, in the words of the specification\<close>

text \<open>Every name once, at the place of its first occurrence.\<close>

fun keepFirst :: "string list \<Rightarrow> string list" where
  "keepFirst [] = []"
| "keepFirst (x # xs) = x # keepFirst (filter (\<lambda>y. y \<noteq> x) xs)"

definition savedNames :: "order_file \<Rightarrow> string list" where
  "savedNames ofile = (case ofile of SavedOrder saved \<Rightarrow> saved | _ \<Rightarrow> [])"

text \<open>The keys of \<^verbatim>\<open>discoveredPreprocessors\<close> at the end of the scan.\<close>

definition discoveredNames :: "environment \<Rightarrow> manager \<Rightarrow> string list" where
  "discoveredNames env st =
     (case pluginFolders env of
        None \<Rightarrow> []
      | Some folders \<Rightarrow>
          map fst (snd (scanFolders (pluginDir env) folders (clearForReload st, []))))"

text \<open>
  The manifest that a directory entry offers to the scan: the entry is a directory and its
  manifest file parses and holds a name, a plugin type and an entry point.
\<close>

definition offeredManifest :: "folder \<Rightarrow> manifest option" where
  "offeredManifest f =
     (if isDirectory f then
        (case manifestFile f of
           None \<Rightarrow> None
         | Some m \<Rightarrow>
             if name m = [] \<or> pluginType m = [] \<or> entryPoint m = None then None else Some m)
      else None)"

text \<open>
  A directory entry provides a preprocessor when the manifest it offers has the type
  \<^verbatim>\<open>messagePreprocessor\<close> or \<^verbatim>\<open>hybridservice\<close>, a script entry point and the protocol
  \<^verbatim>\<open>direct\<close>, and its module loads and exports \<^verbatim>\<open>processMessages\<close>.
\<close>

definition providesPreprocessor :: "folder \<Rightarrow> bool" where
  "providesPreprocessor f \<longleftrightarrow>
     (case offeredManifest f of
        None \<Rightarrow> False
      | Some m \<Rightarrow>
          isPreprocessor m \<and> directScript m \<and>
          (case moduleLoad f of None \<Rightarrow> False | Some md \<Rightarrow> hasProcessMessages md))"

text \<open>
  The preprocessors of the plugin directory: the names for which the first directory entry
  that offers a manifest of that name provides a preprocessor.
\<close>

definition directoryPreprocessor :: "folder list \<Rightarrow> string \<Rightarrow> bool" where
  "directoryPreprocessor folders n \<longleftrightarrow>
     (case List.find (\<lambda>f. map_option name (offeredManifest f) = Some n) folders of
        None \<Rightarrow> False
      | Some f \<Rightarrow> providesPreprocessor f)"

subsection \<open>Where an entry of the map comes from\<close>

text \<open>
  \<^verbatim>\<open>fromFolder dir f n m'\<close>: the directory entry \<^verbatim>\<open>f\<close> holds a manifest named \<^verbatim>\<open>n\<close> and
  \<^verbatim>\<open>m'\<close> is that manifest with \<^verbatim>\<open>basePath\<close> and \<^verbatim>\<open>pluginSpecificEnvConfig\<close> attached.
\<close>

definition fromFolder :: "string \<Rightarrow> folder \<Rightarrow> string \<Rightarrow> manifest \<Rightarrow> bool" where
  "fromFolder dir f n m' \<longleftrightarrow>
     isDirectory f \<and>
     (case manifestFile f of
        None \<Rightarrow> False
      | Some mf \<Rightarrow> name mf = n \<and> m' = loadedManifest dir f mf)"

definition fromDirectory :: "environment \<Rightarrow> string \<Rightarrow> manifest \<Rightarrow> bool" where
  "fromDirectory env n m' \<longleftrightarrow>
     (case pluginFolders env of
        None \<Rightarrow> False
      | Some folders \<Rightarrow> list_ex (\<lambda>f. fromFolder (pluginDir env) f n m') folders)"

text \<open>The names of the manifests that the plugin directory holds.\<close>

definition directoryNames :: "environment \<Rightarrow> string list" where
  "directoryNames env =
     (case pluginFolders env of
        None \<Rightarrow> []
      | Some folders \<Rightarrow>
          List.map_filter
            (\<lambda>f. if isDirectory f then map_option name (manifestFile f) else None) folders)"

text \<open>
  The states of the manager that the operations on the manifest map and on the
  placeholder table produce from the state of the constructor.
\<close>

inductive reachable :: "manager \<Rightarrow> bool" where
  constructed: "reachable newManager"
| loaded: "reachable st \<Longrightarrow> reachable (fst (loadPlugins env st))"
| registered: "reachable st \<Longrightarrow> reachable (registerDistributedTools sid tools st)"
| unregistered: "reachable st \<Longrightarrow> reachable (unregisterAllDistributedTools sid st)"
| pushed: "reachable st \<Longrightarrow> reachable (updateDistributedStaticPlaceholders sid sname phs st)"
| refreshed: "reachable st \<Longrightarrow> reachable (updateStaticPluginValue plugin res st)"

section \<open>Sample data\<close>

definition basicManifest :: "string \<Rightarrow> string \<Rightarrow> manifest" where
  "basicManifest n ty =
     \<lparr>name = n, displayName = None, pluginType = ty,
      entryPoint = Some \<lparr>command = Some ''node main.js'', script = None\<rparr>,
      communication = Some \<lparr>protocol = Some ''stdio'', timeout = None\<rparr>,
      refreshIntervalCron = None, systemPromptPlaceholders = None, configSchema = None,
      basePath = None, pluginSpecificEnvConfig = None, isDistributed = False, serverId = None\<rparr>"

definition basicFolder :: "string \<Rightarrow> manifest \<Rightarrow> folder" where
  "basicFolder d m =
     \<lparr>folderName = d, isDirectory = True, manifestFile = Some m, configEnv = None,
      moduleLoad = None\<rparr>"

text \<open>
  A plugin directory whose only folder holds the plugin \<^verbatim>\<open>Old\<close>, and the manager that has
  loaded it and then registered the tool \<^verbatim>\<open>T1\<close> of the session \<^verbatim>\<open>S1\<close>.
\<close>

definition oldDirectory :: environment where
  "oldDirectory =
     \<lparr>pluginDir = ''Plugin'',
      pluginFolders = Some [basicFolder ''Old'' (basicManifest ''Old'' ''synchronous'')],
      orderFile = NoOrderFile\<rparr>"

definition servedState :: manager where
  "servedState =
     registerDistributedTools ''S1'' [basicManifest ''T1'' ''synchronous'']
       (fst (loadPlugins oldDirectory newManager))"

text \<open>
  The directory after the manifest of \<^verbatim>\<open>Old\<close> was edited (its type is now \<^verbatim>\<open>static\<close>), and the
  directory after a folder with a manifest named \<^verbatim>\<open>T1\<close> was added.
\<close>

definition changedDirectory :: environment where
  "changedDirectory =
     oldDirectory\<lparr>pluginFolders := Some [basicFolder ''Old'' (basicManifest ''Old'' ''static'')]\<rparr>"

definition collidingDirectory :: environment where
  "collidingDirectory =
     oldDirectory\<lparr>pluginFolders :=
       Some [basicFolder ''Old'' (basicManifest ''Old'' ''synchronous''),
             basicFolder ''T1'' (basicManifest ''T1'' ''static'')]\<rparr>"

text \<open>The directory after the folder \<^verbatim>\<open>Old\<close> was replaced by a folder with the plugin \<^verbatim>\<open>New\<close>.\<close>

definition freshDirectory :: environment where
  "freshDirectory =
     \<lparr>pluginDir = ''Plugin'',
      pluginFolders = Some [basicFolder ''New'' (basicManifest ''New'' ''synchronous'')],
      orderFile = NoOrderFile\<rparr>"

text \<open>What \<^verbatim>\<open>registerDistributedTools\<close> stores for a basic manifest named \<^verbatim>\<open>n\<close>.\<close>

definition remoteManifest :: "string \<Rightarrow> string \<Rightarrow> manifest" where
  "remoteManifest n sid =
     (basicManifest n ''synchronous'')
       \<lparr>isDistributed := True, serverId := Some sid, displayName := Some (cloudPrefix @ n)\<rparr>"

text \<open>The session of scenario 5 of the specification: two tools and one placeholder.\<close>

definition sessionS1 :: manager where
  "sessionS1 =
     updateDistributedStaticPlaceholders ''S1'' ''node1'' [(''PH1'', ''v'')]
       (registerDistributedTools ''S1''
          [basicManifest ''T1'' ''synchronous'', basicManifest ''T2'' ''synchronous'']
          newManager)"

text \<open>A static plugin with one placeholder, and a table in which a remote session has
  pushed the empty string under that placeholder.\<close>

definition weatherPlugin :: manifest where
  "weatherPlugin =
     (basicManifest ''WeatherReporter'' ''static'')\<lparr>systemPromptPlaceholders := Some [''Weather'']\<rparr>"

definition emptyPushed :: manager where
  "emptyPushed = updateDistributedStaticPlaceholders ''S1'' ''node1'' [(''Weather'', [])] newManager"

definition sunnyState :: manager where
  "sunnyState = updateStaticPluginValue weatherPlugin (Resolved ''sunny'') newManager"

definition failedState :: manager where
  "failedState = updateStaticPluginValue weatherPlugin (Rejected ''spawn ENOENT'') newManager"

text \<open>Scenario 4 of the specification: the order file holds B, A, C and the directory
  holds the preprocessors A, B and D.\<close>

definition preprocessorFolder :: "string \<Rightarrow> folder" where
  "preprocessorFolder n =
     \<lparr>folderName = n, isDirectory = True,
      manifestFile = Some ((basicManifest n ''messagePreprocessor'')
        \<lparr>entryPoint := Some \<lparr>command = None, script = Some ''index.js''\<rparr>,
         communication := Some \<lparr>protocol = Some ''direct'', timeout = None\<rparr>\<rparr>),
      configEnv = None,
      moduleLoad = Some \<lparr>moduleId = n, hasProcessMessages = True\<rparr>\<rparr>"

definition scenario4 :: environment where
  "scenario4 =
     \<lparr>pluginDir = ''Plugin'',
      pluginFolders = Some [preprocessorFolder ''A'', preprocessorFolder ''B'',
                            preprocessorFolder ''D''],
      orderFile = SavedOrder [''B'', ''A'', ''C'']\<rparr>"

text \<open>A first launch: no order file, and a directory with the preprocessors D and A.\<close>

definition firstLaunch :: environment where
  "firstLaunch = scenario4\<lparr>orderFile := NoOrderFile,
     pluginFolders := Some [preprocessorFolder ''D'', preprocessorFolder ''A'']\<rparr>"

text \<open>Scenario 4 when the plugin directory cannot be read.\<close>

definition unreadableDirectory :: environment where
  "unreadableDirectory = scenario4\<lparr>pluginFolders := None\<rparr>"

text \<open>A manifest with a configuration schema and a \<^verbatim>\<open>config.env\<close>, and a process
  environment.\<close>

definition configuredPlugin :: manifest where
  "configuredPlugin =
     (basicManifest ''Configured'' ''synchronous'')
       \<lparr>configSchema := Some [(''Port'', ''integer''), (''Retries'', ''integer''),
                               (''Offset'', ''integer''), (''Budget'', ''integer''),
                               (''Verbose'', ''boolean''), (''Quiet'', ''boolean''),
                               (''Label'', ''string'')],
        pluginSpecificEnvConfig :=
          Some [''Port'' \<mapsto> ''8080'', ''Verbose'' \<mapsto> ''TRUE'', ''Quiet'' \<mapsto> ''yes'']\<rparr>"

definition processEnv :: "string \<rightharpoonup> string" where
  "processEnv =
     [''Port'' \<mapsto> ''1'', ''Retries'' \<mapsto> ''many'', ''Offset'' \<mapsto> '' -42px'',
      ''Budget'' \<mapsto> ''9007199254740993'', ''Label'' \<mapsto> ''x'', ''API_Key'' \<mapsto> ''secret'']"

text \<open>
  A manifest that declares \<^verbatim>\<open>DebugMode\<close> as a string and sets it in its \<^verbatim>\<open>config.env\<close>, and a
  manifest whose \<^verbatim>\<open>config.env\<close> holds the line \<^verbatim>\<open>hasOwnProperty=1\<close>.
\<close>

definition debugDeclared :: manifest where
  "debugDeclared =
     (basicManifest ''Chatty'' ''synchronous'')
       \<lparr>configSchema := Some [(''DebugMode'', ''string'')],
        pluginSpecificEnvConfig := Some [''DebugMode'' \<mapsto> ''verbose'']\<rparr>"

definition shadowedPlugin :: manifest where
  "shadowedPlugin =
     (basicManifest ''Shadowed'' ''synchronous'')
       \<lparr>pluginSpecificEnvConfig := Some [''hasOwnProperty'' \<mapsto> ''1'']\<rparr>"

text \<open>
  Texts that a plugin writes to stdout and the values that \<^verbatim>\<open>JSON.parse\<close> gives for them.
  \<^verbatim>\<open>sampleParse\<close> is \<^verbatim>\<open>JSON.parse\<close> on the texts of the sample runs: it parses the four
  texts and fails on every other text that the runs below hand to it (\<^verbatim>\<open>oops\<close>, and the
  prefix of \<^verbatim>\<open>nestedText\<close> that ends at its first closing brace).
\<close>

definition okText :: string where
  "okText = ''{\"status\":\"success\",\"result\":42}''"

definition okJson :: json where
  "okJson = JObject [(''status'', JString ''success''), (''result'', JNumber 42)]"

definition nestedText :: string where
  "nestedText = ''{\"status\":\"success\",\"result\":{\"id\":1} }''"

definition nestedJson :: json where
  "nestedJson =
     JObject [(''status'', JString ''success''), (''result'', JObject [(''id'', JNumber 1)])]"

definition queuedText :: string where
  "queuedText = ''{\"status\":\"success\",\"result\":\"queued\"}''"

definition queuedJson :: json where
  "queuedJson = JObject [(''status'', JString ''success''), (''result'', JString ''queued'')]"

definition failedText :: string where
  "failedText = ''{\"status\":\"error\",\"error\":\"late\"}''"

definition failedJson :: json where
  "failedJson = JObject [(''status'', JString ''error''), (''error'', JString ''late'')]"

definition sampleParse :: "string \<Rightarrow> json option" where
  "sampleParse =
     map_of [(okText, okJson), (nestedText, nestedJson), (queuedText, queuedJson),
             (failedText, failedJson)]"

definition newline :: string where
  "newline = [CHR 0x0A]"

text \<open>
  A synchronous stdio plugin that reports a missing local file for the parameters
  \<^verbatim>\<open>image_url_1\<close> and \<^verbatim>\<open>image_url_2\<close> as long as they are in its input, and a file fetcher
  that knows the address 10.0.0.2 only. In \<^verbatim>\<open>brokenWorld\<close> the plugin fails on the fetched
  data. \<^verbatim>\<open>sampleStringify\<close> is \<^verbatim>\<open>JSON.stringify\<close> on the one object that the sample runs
  hand to it.
\<close>

definition imageTool :: manifest where
  "imageTool = basicManifest ''ImageTool'' ''synchronous''"

definition imageManager :: manager where
  "imageManager = newManager\<lparr>plugins := [''ImageTool'' \<mapsto> imageTool]\<rparr>"

definition fileMissing :: "string \<Rightarrow> string \<Rightarrow> plugin_output" where
  "fileMissing url param =
     \<lparr>status = ''error'', result = None, error = Some (JString ''file not found''),
      code = Some ''FILE_NOT_FOUND_LOCALLY'', fileUrl = Some url, failedParameter = Some param\<rparr>"

definition imageDone :: plugin_output where
  "imageDone =
     \<lparr>status = ''success'', result = Some (JObject [(''ok'', JBool True)]), error = None,
      code = None, fileUrl = None, failedParameter = None\<rparr>"

definition decodeFailed :: plugin_output where
  "decodeFailed =
     \<lparr>status = ''error'', result = None, error = Some (JString ''decode failed''),
      code = None, fileUrl = None, failedParameter = None\<rparr>"

definition sampleTimestamp :: string where
  "sampleTimestamp = ''2025-01-01T08:00:00.000+08:00''"

definition decodeFailedText :: string where
  "decodeFailedText =
     ''{\"plugin_error\":\"decode failed\",\"timestamp\":\"2025-01-01T08:00:00.000+08:00\"}''"

definition sampleStringify :: "json \<Rightarrow> string" where
  "sampleStringify j =
     (if j = JObject [(''plugin_error'', JString ''decode failed''),
                      (''timestamp'', JString sampleTimestamp)]
      then decodeFailedText else [])"

definition imageWorld :: externals where
  "imageWorld =
     \<lparr>executePluginX =
        (\<lambda>trace toolName param ip.
           case param of
             None \<Rightarrow> Inr imageDone
           | Some args \<Rightarrow>
               if map_of args ''image_url_1'' \<noteq> None
               then Inr (fileMissing ''file:///a.png'' ''image_url_1'')
               else if map_of args ''image_url_2'' \<noteq> None
               then Inr (fileMissing ''file:///b.png'' ''image_url_2'')
               else Inr imageDone),
      fetchFileX =
        (\<lambda>trace url ip.
           if ip = ''10.0.0.2'' then Inr (''QUJD'', ''image/png'')
           else Inl ''no distributed server for this address''),
      executeDistributedToolX = (\<lambda>trace sid toolName args. Inl (PlainError ''not connected'')),
      forwardCommandToChromeX = (\<lambda>trace command args. Inl (PlainError ''not connected'')),
      serviceProcessToolCallX = (\<lambda>trace toolName args. Inl (PlainError ''no module'')),
      serviceHasProcessToolCall = (\<lambda>toolName. False),
      webSocketServerSet = True,
      jsonParse = sampleParse,
      jsonStringify = sampleStringify,
      localTimestamp = sampleTimestamp\<rparr>"

definition brokenWorld :: externals where
  "brokenWorld =
     imageWorld\<lparr>executePluginX :=
       (\<lambda>trace toolName param ip.
          case param of
            None \<Rightarrow> Inr decodeFailed
          | Some args \<Rightarrow>
              if map_of args ''image_url_1'' \<noteq> None
              then Inr (fileMissing ''file:///a.png'' ''image_url_1'')
              else Inr decodeFailed)\<rparr>"

definition twoImages :: "(string \<times> json) list" where
  "twoImages =
     [(''image_url_1'', JString ''file:///a.png''), (''image_url_2'', JString ''file:///b.png'')]"

definition oneImage :: "(string \<times> json) list" where
  "oneImage = [(''image_url_1'', JString ''file:///a.png'')]"

section \<open>Properties\<close>

subsection \<open>Reload and the placeholder table\<close>

lemma scanFolder_placeholders:
  "staticPlaceholderValues (fst (scanFolder dir f acc)) = staticPlaceholderValues (fst acc)"
  by (cases acc) (simp add: scanFolder_def Let_def split: option.splits)

lemma scanFolders_placeholders:
  "staticPlaceholderValues (fst (scanFolders dir fs acc)) = staticPlaceholderValues (fst acc)"
  by (induction fs arbitrary: acc) (simp_all add: scanFolder_placeholders)

lemma loadPlugins_placeholders_empty:
  "staticPlaceholderValues (fst (loadPlugins env st)) = Map.empty"
proof (cases "pluginFolders env")
  case None
  then show ?thesis by (simp add: loadPlugins_def clearForReload_def)
next
  case (Some folders)
  obtain st1 discovered where
    sc: "scanFolders (pluginDir env) folders (clearForReload st, []) = (st1, discovered)"
    by (cases "scanFolders (pluginDir env) folders (clearForReload st, [])")
  have "staticPlaceholderValues st1 = staticPlaceholderValues (clearForReload st)"
    using scanFolders_placeholders [of "pluginDir env" folders "(clearForReload st, [])"] sc
    by simp
  then show ?thesis
    using Some sc by (simp add: loadPlugins_def Let_def clearForReload_def)
qed

lemma clearForReload_forgets:
  "clearForReload (st\<lparr>staticPlaceholderValues := t, messagePreprocessors := p, serviceModules := s\<rparr>)
     = clearForReload st"
  by (simp add: clearForReload_def)

text \<open>
  C10. Every call of \<^verbatim>\<open>loadPlugins\<close> clears the placeholder table, the preprocessor map and
  the service module map before it scans: the state in which the scan starts has all three
  empty, the result of the reload does not depend on what the three maps held before, and
  after the reload the placeholder table is empty, so a value pushed before by
  \<^verbatim>\<open>updateDistributedStaticPlaceholders\<close> is gone, whatever the directory holds.
\<close>

theorem loadPlugins_clears_placeholders:
  "staticPlaceholderValues (clearForReload st) = Map.empty
   \<and> messagePreprocessors (clearForReload st) = Map.empty
   \<and> serviceModules (clearForReload st) = Map.empty
   \<and> loadPlugins env (st\<lparr>staticPlaceholderValues := t, messagePreprocessors := p,
                          serviceModules := s\<rparr>) = loadPlugins env st
   \<and> staticPlaceholderValues (fst (loadPlugins env st)) = Map.empty
   \<and> staticPlaceholderValues
       (fst (loadPlugins env (updateDistributedStaticPlaceholders sid sname phs st))) k = None"
proof -
  have a: "loadPlugins env (st\<lparr>staticPlaceholderValues := t, messagePreprocessors := p,
                          serviceModules := s\<rparr>) = loadPlugins env st"
    unfolding loadPlugins_def clearForReload_forgets ..
  have b: "staticPlaceholderValues
       (fst (loadPlugins env (updateDistributedStaticPlaceholders sid sname phs st))) k = None"
    by (simp add: loadPlugins_placeholders_empty)
  show ?thesis
    using a b by (simp add: loadPlugins_placeholders_empty) (simp add: clearForReload_def)
qed

subsection \<open>What a reload does to the manifest map\<close>

lemma fromDirectory_names: "fromDirectory env n m' \<Longrightarrow> n \<in> set (directoryNames env)"
  by (force simp: fromDirectory_def directoryNames_def fromFolder_def list_ex_iff
      List.map_filter_def image_iff split: option.splits)

lemma scanFolder_keep:
  "plugins (fst acc) n = Some m \<Longrightarrow> plugins (fst (scanFolder dir f acc)) n = Some m"
  by (cases acc) (auto simp: scanFolder_def Let_def split: option.splits)

lemma scanFolders_keep:
  "plugins (fst acc) n = Some m \<Longrightarrow> plugins (fst (scanFolders dir fs acc)) n = Some m"
  by (induction fs arbitrary: acc) (simp_all add: scanFolder_keep)

lemma scanFolder_origin:
  "plugins (fst (scanFolder dir f acc)) n = Some m' \<Longrightarrow>
     plugins (fst acc) n = Some m' \<or> fromFolder dir f n m'"
  by (cases acc) (auto simp: scanFolder_def fromFolder_def Let_def split: option.splits if_splits)

lemma scanFolders_origin:
  "plugins (fst (scanFolders dir fs acc)) n = Some m' \<Longrightarrow>
     plugins (fst acc) n = Some m' \<or> list_ex (\<lambda>f. fromFolder dir f n m') fs"
proof (induction fs arbitrary: acc)
  case Nil
  then show ?case by simp
next
  case (Cons f fs)
  from Cons.IH [of "scanFolder dir f acc"] Cons.prems
  have "plugins (fst (scanFolder dir f acc)) n = Some m'
          \<or> list_ex (\<lambda>f. fromFolder dir f n m') fs"
    by simp
  then show ?case
    using scanFolder_origin [of dir f acc n m'] by auto
qed

lemma loadPlugins_plugins:
  "plugins (fst (loadPlugins env st)) =
     (case pluginFolders env of
        None \<Rightarrow> localPlugins (plugins st)
      | Some folders \<Rightarrow>
          plugins (fst (scanFolders (pluginDir env) folders (clearForReload st, []))))"
  by (simp add: loadPlugins_def Let_def clearForReload_def split: option.splits prod.splits)

lemma clearForReload_plugins: "plugins (clearForReload st) = localPlugins (plugins st)"
  by (simp add: clearForReload_def)

lemma loadPlugins_keeps_local:
  assumes "plugins st n = Some m" and "\<not> isDistributed m"
  shows "plugins (fst (loadPlugins env st)) n = Some m"
proof -
  from assms have l: "localPlugins (plugins st) n = Some m"
    by (simp add: localPlugins_def)
  show ?thesis
  proof (cases "pluginFolders env")
    case None
    then show ?thesis using l by (simp add: loadPlugins_plugins)
  next
    case (Some folders)
    then show ?thesis
      using l scanFolders_keep [of "(clearForReload st, [])" n m "pluginDir env" folders]
      by (simp add: loadPlugins_plugins clearForReload_plugins)
  qed
qed

lemma loadPlugins_origin:
  assumes a: "plugins (fst (loadPlugins env st)) n = Some m'"
  shows "(plugins st n = Some m' \<and> \<not> isDistributed m') \<or> fromDirectory env n m'"
proof -
  have loc: "localPlugins (plugins st) n = Some m'
               \<Longrightarrow> plugins st n = Some m' \<and> \<not> isDistributed m'"
    by (auto simp: localPlugins_def split: option.splits if_splits)
  show ?thesis
  proof (cases "pluginFolders env")
    case None
    then show ?thesis using a loc by (simp add: loadPlugins_plugins)
  next
    case (Some folders)
    then have "plugins (fst (scanFolders (pluginDir env) folders (clearForReload st, []))) n
                 = Some m'"
      using a by (simp add: loadPlugins_plugins)
    from scanFolders_origin [OF this]
    show ?thesis using loc Some by (auto simp: clearForReload_plugins fromDirectory_def)
  qed
qed

lemmas sample_defs =
  loadPlugins_def servedState_def oldDirectory_def freshDirectory_def changedDirectory_def
  collidingDirectory_def newManager_def clearForReload_def localPlugins_def scanFolder_def
  basicFolder_def basicManifest_def directoryNames_def Let_def isPreprocessor_def isService_def
  loadedManifest_def registerDistributedTools_def registerTool_def truthy_def remoteManifest_def
  reconcileOrder_def orderFileWrite_def orderFileExists_def

lemma reachable_servedState: "reachable servedState"
  unfolding servedState_def
  by (intro reachable.registered reachable.loaded reachable.constructed)

text \<open>
  C1 fails on the code. The manager has loaded the plugin \<^verbatim>\<open>Old\<close> from the directory and has
  registered the tool \<^verbatim>\<open>T1\<close> of the session \<^verbatim>\<open>S1\<close>. A reload over a directory that now holds
  only the plugin \<^verbatim>\<open>New\<close> removes the remote entry \<^verbatim>\<open>T1\<close>, keeps the entry \<^verbatim>\<open>Old\<close> that the
  directory no longer holds, and adds \<^verbatim>\<open>New\<close>. A reload after the manifest of \<^verbatim>\<open>Old\<close> was
  edited keeps the manifest that was loaded before the edit. So the remote entries are not
  retained and the local half does not reflect the directory: \<^verbatim>\<open>loadPlugins\<close> keeps the
  entries that are not \<^verbatim>\<open>isDistributed\<close>, and its scan skips every name that the map holds.
\<close>

theorem reload_drops_remote_keeps_stale_local:
  "plugins servedState ''T1'' = Some (remoteManifest ''T1'' ''S1'')
   \<and> plugins servedState ''Old''
       = Some (loadedManifest ''Plugin'' (basicFolder ''Old'' (basicManifest ''Old'' ''synchronous''))
                 (basicManifest ''Old'' ''synchronous''))
   \<and> directoryNames freshDirectory = [''New'']
   \<and> plugins (fst (loadPlugins freshDirectory servedState)) ''T1'' = None
   \<and> plugins (fst (loadPlugins freshDirectory servedState)) ''Old'' = plugins servedState ''Old''
   \<and> plugins (fst (loadPlugins freshDirectory servedState)) ''New''
       = Some (loadedManifest ''Plugin'' (basicFolder ''New'' (basicManifest ''New'' ''synchronous''))
                 (basicManifest ''New'' ''synchronous''))
   \<and> pluginFolders changedDirectory = Some [basicFolder ''Old'' (basicManifest ''Old'' ''static'')]
   \<and> map_option pluginType (manifestFile (basicFolder ''Old'' (basicManifest ''Old'' ''static'')))
       = Some ''static''
   \<and> map_option pluginType (plugins (fst (loadPlugins changedDirectory servedState)) ''Old'')
       = Some ''synchronous''"
  by (simp add: sample_defs)

subsection \<open>Unique names and first-seen-wins\<close>

lemma registerTool_keep: "ps n = Some m \<Longrightarrow> registerTool sid t ps n = Some m"
  by (auto simp: registerTool_def)

lemma registerTools_keep: "ps n = Some m \<Longrightarrow> registerTools sid ts ps n = Some m"
  by (induction ts arbitrary: ps) (simp_all add: registerTool_keep)

lemma registerTool_origin:
  "registerTool sid t ps n = Some m' \<Longrightarrow> ps n = Some m' \<or> name m' = n"
  by (auto simp: registerTool_def split: if_splits)

lemma registerTools_origin:
  "registerTools sid ts ps n = Some m' \<Longrightarrow> ps n = Some m' \<or> name m' = n"
proof (induction ts arbitrary: ps)
  case Nil
  then show ?case by simp
next
  case (Cons t ts)
  from Cons.IH [of "registerTool sid t ps"] Cons.prems
  have "registerTool sid t ps n = Some m' \<or> name m' = n" by simp
  then show ?case using registerTool_origin [of sid t ps n m'] by auto
qed

lemma fromDirectory_name: "fromDirectory env n m' \<Longrightarrow> name m' = n"
  by (auto simp: fromDirectory_def fromFolder_def loadedManifest_def list_ex_iff
      split: option.splits)

lemma unregister_origin:
  "plugins (unregisterAllDistributedTools sid st) n = Some m \<Longrightarrow> plugins st n = Some m"
  by (auto simp: unregisterAllDistributedTools_def clearDistributedStaticPlaceholders_def
      split: option.splits if_splits)

text \<open>Every entry of a reachable map is stored under the name it carries.\<close>

lemma reachable_keyed: "reachable st \<Longrightarrow> plugins st n = Some m \<Longrightarrow> name m = n"
proof (induction arbitrary: n m rule: reachable.induct)
  case constructed
  then show ?case by (simp add: newManager_def)
next
  case (loaded st env)
  from loadPlugins_origin [OF loaded.prems] loaded.IH fromDirectory_name
  show ?case by blast
next
  case (registered st sid tools)
  then have "registerTools sid tools (plugins st) n = Some m"
    by (simp add: registerDistributedTools_def)
  from registerTools_origin [OF this] registered.IH show ?case by blast
next
  case (unregistered st sid)
  from unregister_origin [OF unregistered.prems] unregistered.IH show ?case by blast
next
  case (pushed st sid sname phs)
  then show ?case by (simp add: updateDistributedStaticPlaceholders_def)
next
  case (refreshed st plugin res)
  then show ?case by (simp add: updateStaticPluginValue_def split: option.splits)
qed

lemma scanFolder_skip:
  "manifestFile f = Some mf \<Longrightarrow> plugins (fst acc) (name mf) \<noteq> None
     \<Longrightarrow> scanFolder dir f acc = acc"
  by (cases acc) (simp add: scanFolder_def)

lemma registerTool_skip: "ps (name t) \<noteq> None \<Longrightarrow> registerTool sid t ps = ps"
  by (simp add: registerTool_def)

text \<open>
  In every state that the operations produce from the constructor's state, two entries
  under different keys carry different names.
\<close>

lemma reachable_names_unique:
  assumes "reachable st" "plugins st n = Some m" "plugins st n' = Some m'" "n \<noteq> n'"
  shows "name m \<noteq> name m'"
proof -
  from assms(1,2) have "name m = n" by (rule reachable_keyed)
  moreover from assms(1,3) have "name m' = n'" by (rule reachable_keyed)
  ultimately show ?thesis using assms(4) by simp
qed

text \<open>
  C9 fails on the code at a local rescan. The tool \<^verbatim>\<open>T1\<close> of the session \<^verbatim>\<open>S1\<close> is registered,
  and the directory then gets a folder whose manifest is named \<^verbatim>\<open>T1\<close>. After \<^verbatim>\<open>loadPlugins\<close>
  the entry \<^verbatim>\<open>T1\<close> is the manifest of the directory: the registration that was there first is
  replaced, not kept. The scan does skip a name that the map holds, as it does for the
  local entry \<^verbatim>\<open>Old\<close>, but \<^verbatim>\<open>loadPlugins\<close> has removed the remote entries before the scan
  starts. On the other path, \<^verbatim>\<open>registerDistributedTools\<close> skips a tool named \<^verbatim>\<open>T1\<close> and keeps
  the entry.
\<close>

theorem rescan_replaces_remote_registration:
  "plugins servedState ''T1'' = Some (remoteManifest ''T1'' ''S1'')
   \<and> plugins (fst (loadPlugins collidingDirectory servedState)) ''T1''
       = Some (loadedManifest ''Plugin'' (basicFolder ''T1'' (basicManifest ''T1'' ''static''))
                 (basicManifest ''T1'' ''static''))
   \<and> map_option isDistributed (plugins (fst (loadPlugins collidingDirectory servedState)) ''T1'')
       = Some False
   \<and> plugins (fst (loadPlugins collidingDirectory servedState)) ''Old''
       = plugins servedState ''Old''
   \<and> plugins (registerDistributedTools ''S2'' [basicManifest ''T1'' ''static''] servedState) ''T1''
       = Some (remoteManifest ''T1'' ''S1'')"
  by (simp add: sample_defs)

subsection \<open>The end of a session\<close>

lemma unregister_no_entry_of_session:
  "plugins (unregisterAllDistributedTools sid st) n = Some m
     \<Longrightarrow> \<not> (isDistributed m \<and> serverId m = Some sid)"
  by (auto simp: unregisterAllDistributedTools_def clearDistributedStaticPlaceholders_def
      split: option.splits if_splits)

text \<open>
  C2 at the session of scenario 5: \<^verbatim>\<open>S1\<close> registers the tools \<^verbatim>\<open>T1\<close> and \<^verbatim>\<open>T2\<close> and pushes
  the placeholder \<^verbatim>\<open>PH1\<close>. After \<^verbatim>\<open>unregisterAllDistributedTools\<close> the two tools are gone,
  but the placeholder is still in the table: the key \<^verbatim>\<open>PH1@@S1\<close> that
  \<^verbatim>\<open>clearDistributedStaticPlaceholders\<close> looks for was never stored.
\<close>

theorem session_end_keeps_pushed_placeholder:
  "plugins sessionS1 ''T1'' = Some (remoteManifest ''T1'' ''S1'')
   \<and> staticPlaceholderValues sessionS1 ''PH1'' = Some ''v''
   \<and> plugins (unregisterAllDistributedTools ''S1'' sessionS1) ''T1'' = None
   \<and> plugins (unregisterAllDistributedTools ''S1'' sessionS1) ''T2'' = None
   \<and> staticPlaceholderValues (unregisterAllDistributedTools ''S1'' sessionS1) ''PH1''
       = Some ''v''"
  by (simp add: sessionS1_def registerDistributedTools_def registerTool_def
      updateDistributedStaticPlaceholders_def newManager_def basicManifest_def truthy_def
      unregisterAllDistributedTools_def clearDistributedStaticPlaceholders_def
      distributedKey_def remoteManifest_def)

subsection \<open>The update rule of a static refresh\<close>

lemma updatePlaceholder_at:
  "updatePlaceholder nm res k tbl k' = (if k' = k then valueAfter nm res (tbl k) else tbl k')"
  by (cases res; cases "tbl k")
     (auto simp: updatePlaceholder_def valueAfter_def truthy_def Let_def)

lemma startsWith_errorMessage: "startsWith (errorMessage nm e) ''[Error''"
  by (simp add: startsWith_def errorMessage_def)

lemma valueAfter_idem: "valueAfter nm res (valueAfter nm res prior) = valueAfter nm res prior"
  using startsWith_errorMessage [of nm]
  by (cases res; cases prior) (auto simp: valueAfter_def)

lemma updatePlaceholders_at:
  "updatePlaceholders nm res ks tbl k =
     (if k \<in> set ks then valueAfter nm res (tbl k) else tbl k)"
  by (induction ks arbitrary: tbl) (auto simp: updatePlaceholder_at valueAfter_idem)

lemma updateStaticPluginValue_at:
  "systemPromptPlaceholders plugin = Some phs \<Longrightarrow> k \<in> set phs \<Longrightarrow>
     staticPlaceholderValues (updateStaticPluginValue plugin res st) k
       = valueAfter (name plugin) res (staticPlaceholderValues st k)"
  by (simp add: updateStaticPluginValue_def updatePlaceholders_at)

lemmas refresh_defs =
  updateStaticPluginValue_def weatherPlugin_def basicManifest_def updatePlaceholder_def
  newManager_def trim_def isWhiteSpace_def truthy_def errorMessage_def startsWith_def
  unavailableMessage_def updateDistributedStaticPlaceholders_def

text \<open>
  C3, as stated, fails. A remote session has pushed the empty string under the placeholder
  \<^verbatim>\<open>Weather\<close>. The value is present and is not an error sentinel, yet a failed refresh of
  the static plugin that declares \<^verbatim>\<open>Weather\<close> replaces it by an error sentinel: the source
  tests \<^verbatim>\<open>!currentValue\<close>, which holds for the empty string too.
\<close>

theorem failed_refresh_overwrites_empty_counterexample:
  "staticPlaceholderValues emptyPushed ''Weather'' = Some []
   \<and> \<not> startsWith [] ''[Error''
   \<and> staticPlaceholderValues
       (updateStaticPluginValue weatherPlugin (Rejected ''spawn ENOENT'') emptyPushed) ''Weather''
      = Some ''[Error updating WeatherReporter: spawn ENOENT...]''"
  by (simp add: emptyPushed_def refresh_defs)

text \<open>
  C3, amended. For every refresh of a static plugin and every placeholder it declares:
  a new value that is not empty after trimming replaces the prior value; an empty result
  installs the sentinel \<^verbatim>\<open>[<name> data currently unavailable]\<close> when the table has no entry
  for the placeholder and keeps the entry otherwise; a failed execution installs the error
  sentinel \<^verbatim>\<open>[Error updating <name>: <first 100 characters of the message>...]\<close> when the
  prior value is absent, is the empty string or starts with \<^verbatim>\<open>[Error\<close>, and keeps the prior
  value otherwise. So a failed refresh never overwrites a non-empty value that is not an
  error sentinel.
\<close>

theorem static_refresh_update_rule:
  "systemPromptPlaceholders plugin = Some phs \<and> k \<in> set phs \<longrightarrow>
     (trim out \<noteq> [] \<longrightarrow>
        staticPlaceholderValues (updateStaticPluginValue plugin (Resolved out) st) k
          = Some (trim out))
   \<and> (trim out = [] \<and> staticPlaceholderValues st k = None \<longrightarrow>
        staticPlaceholderValues (updateStaticPluginValue plugin (Resolved out) st) k
          = Some (''['' @ name plugin @ '' data currently unavailable]''))
   \<and> (trim out = [] \<and> staticPlaceholderValues st k = Some v \<longrightarrow>
        staticPlaceholderValues (updateStaticPluginValue plugin (Resolved out) st) k = Some v)
   \<and> (staticPlaceholderValues st k = None \<or> staticPlaceholderValues st k = Some []
        \<or> (staticPlaceholderValues st k = Some v \<and> startsWith v ''[Error'') \<longrightarrow>
        staticPlaceholderValues (updateStaticPluginValue plugin (Rejected e) st) k
          = Some (''[Error updating '' @ name plugin @ '': '' @ take 100 e @ ''...]''))
   \<and> (staticPlaceholderValues st k = Some v \<and> v \<noteq> [] \<and> \<not> startsWith v ''[Error'' \<longrightarrow>
        staticPlaceholderValues (updateStaticPluginValue plugin (Rejected e) st) k = Some v)"
proof (intro impI)
  assume "systemPromptPlaceholders plugin = Some phs \<and> k \<in> set phs"
  then have at: "\<And>res. staticPlaceholderValues (updateStaticPluginValue plugin res st) k
                   = valueAfter (name plugin) res (staticPlaceholderValues st k)"
    by (simp add: updateStaticPluginValue_at)
  have 1: "trim out \<noteq> [] \<longrightarrow>
        staticPlaceholderValues (updateStaticPluginValue plugin (Resolved out) st) k
          = Some (trim out)"
    by (simp add: at valueAfter_def)
  have 2: "trim out = [] \<and> staticPlaceholderValues st k = None \<longrightarrow>
        staticPlaceholderValues (updateStaticPluginValue plugin (Resolved out) st) k
          = Some (''['' @ name plugin @ '' data currently unavailable]'')"
    by (simp add: at valueAfter_def unavailableMessage_def)
  have 3: "trim out = [] \<and> staticPlaceholderValues st k = Some v \<longrightarrow>
        staticPlaceholderValues (updateStaticPluginValue plugin (Resolved out) st) k = Some v"
    by (simp add: at valueAfter_def)
  have 4: "staticPlaceholderValues st k = None \<or> staticPlaceholderValues st k = Some []
        \<or> (staticPlaceholderValues st k = Some v \<and> startsWith v ''[Error'') \<longrightarrow>
        staticPlaceholderValues (updateStaticPluginValue plugin (Rejected e) st) k
          = Some (''[Error updating '' @ name plugin @ '': '' @ take 100 e @ ''...]'')"
    by (auto simp: at valueAfter_def errorMessage_def)
  have 5: "staticPlaceholderValues st k = Some v \<and> v \<noteq> [] \<and> \<not> startsWith v ''[Error'' \<longrightarrow>
        staticPlaceholderValues (updateStaticPluginValue plugin (Rejected e) st) k = Some v"
    by (simp add: at valueAfter_def)
  from 1 2 3 4 5 show
    "(trim out \<noteq> [] \<longrightarrow>
        staticPlaceholderValues (updateStaticPluginValue plugin (Resolved out) st) k
          = Some (trim out))
   \<and> (trim out = [] \<and> staticPlaceholderValues st k = None \<longrightarrow>
        staticPlaceholderValues (updateStaticPluginValue plugin (Resolved out) st) k
          = Some (''['' @ name plugin @ '' data currently unavailable]''))
   \<and> (trim out = [] \<and> staticPlaceholderValues st k = Some v \<longrightarrow>
        staticPlaceholderValues (updateStaticPluginValue plugin (Resolved out) st) k = Some v)
   \<and> (staticPlaceholderValues st k = None \<or> staticPlaceholderValues st k = Some []
        \<or> (staticPlaceholderValues st k = Some v \<and> startsWith v ''[Error'') \<longrightarrow>
        staticPlaceholderValues (updateStaticPluginValue plugin (Rejected e) st) k
          = Some (''[Error updating '' @ name plugin @ '': '' @ take 100 e @ ''...]''))
   \<and> (staticPlaceholderValues st k = Some v \<and> v \<noteq> [] \<and> \<not> startsWith v ''[Error'' \<longrightarrow>
        staticPlaceholderValues (updateStaticPluginValue plugin (Rejected e) st) k = Some v)"
    by blast
qed

theorem static_refresh_update_rule_witness:
  "systemPromptPlaceholders weatherPlugin = Some [''Weather''] \<and> ''Weather'' \<in> set [''Weather'']
   \<and> (trim '' rain  '' = ''rain''
      \<and> staticPlaceholderValues
           (updateStaticPluginValue weatherPlugin (Resolved '' rain  '') sunnyState) ''Weather''
         = Some ''rain'')
   \<and> (trim '' '' = [] \<and> staticPlaceholderValues newManager ''Weather'' = None
      \<and> staticPlaceholderValues
           (updateStaticPluginValue weatherPlugin (Resolved '' '') newManager) ''Weather''
         = Some ''[WeatherReporter data currently unavailable]'')
   \<and> (staticPlaceholderValues sunnyState ''Weather'' = Some ''sunny''
      \<and> staticPlaceholderValues
           (updateStaticPluginValue weatherPlugin (Resolved '' '') sunnyState) ''Weather''
         = Some ''sunny'')
   \<and> (staticPlaceholderValues failedState ''Weather''
         = Some ''[Error updating WeatherReporter: spawn ENOENT...]''
      \<and> startsWith ''[Error updating WeatherReporter: spawn ENOENT...]'' ''[Error''
      \<and> staticPlaceholderValues
           (updateStaticPluginValue weatherPlugin (Rejected ''timed out'') failedState) ''Weather''
         = Some ''[Error updating WeatherReporter: timed out...]'')
   \<and> (\<not> startsWith ''sunny'' ''[Error''
      \<and> staticPlaceholderValues
           (updateStaticPluginValue weatherPlugin (Rejected ''timed out'') sunnyState) ''Weather''
         = Some ''sunny'')"
proof -
  note R = static_refresh_update_rule
             [where plugin = weatherPlugin and phs = "[''Weather'']" and k = "''Weather''"]
  have decl: "systemPromptPlaceholders weatherPlugin = Some [''Weather'']"
    by (simp add: weatherPlugin_def basicManifest_def)
  have sunny: "staticPlaceholderValues sunnyState ''Weather'' = Some ''sunny''"
    by (simp add: sunnyState_def refresh_defs)
  have failed: "staticPlaceholderValues failedState ''Weather''
         = Some ''[Error updating WeatherReporter: spawn ENOENT...]''"
    by (simp add: failedState_def refresh_defs)
  have nm: "name weatherPlugin = ''WeatherReporter''"
    by (simp add: weatherPlugin_def basicManifest_def)
  have t1: "trim '' rain  '' = ''rain''" and t2: "trim '' '' = []"
    by (simp_all add: trim_def isWhiteSpace_def)
  have s1: "startsWith ''[Error updating WeatherReporter: spawn ENOENT...]'' ''[Error''"
    and s2: "\<not> startsWith ''sunny'' ''[Error''"
    by (simp_all add: startsWith_def)
  have none: "staticPlaceholderValues newManager ''Weather'' = None"
    by (simp add: newManager_def)
  have c1: "staticPlaceholderValues
           (updateStaticPluginValue weatherPlugin (Resolved '' rain  '') sunnyState) ''Weather''
         = Some ''rain''"
    using R [where out = "'' rain  ''" and st = sunnyState] decl t1 by simp
  have c2: "staticPlaceholderValues
           (updateStaticPluginValue weatherPlugin (Resolved '' '') newManager) ''Weather''
         = Some ''[WeatherReporter data currently unavailable]''"
    using R [where out = "'' ''" and st = newManager] decl t2 none nm by simp
  have c3: "staticPlaceholderValues
           (updateStaticPluginValue weatherPlugin (Resolved '' '') sunnyState) ''Weather''
         = Some ''sunny''"
    using R [where out = "'' ''" and st = sunnyState and v = "''sunny''"] decl t2 sunny by simp
  have c4: "staticPlaceholderValues
           (updateStaticPluginValue weatherPlugin (Rejected ''timed out'') failedState) ''Weather''
         = Some ''[Error updating WeatherReporter: timed out...]''"
    using R [where st = failedState and e = "''timed out''"
               and v = "''[Error updating WeatherReporter: spawn ENOENT...]''"]
      decl failed s1 nm by simp
  have c5: "staticPlaceholderValues
           (updateStaticPluginValue weatherPlugin (Rejected ''timed out'') sunnyState) ''Weather''
         = Some ''sunny''"
    using R [where st = sunnyState and e = "''timed out''" and v = "''sunny''"]
      decl sunny s2 by simp
  show ?thesis
    using decl t1 t2 none sunny failed s1 s2 c1 c2 c3 c4 c5 by simp
qed

subsection \<open>The order of the preprocessors\<close>

lemma takeSaved_Cons:
  "fst (takeSaved (p # ps) av) =
     (if p \<in> set av then p # fst (takeSaved ps (removeAll p av)) else fst (takeSaved ps av))"
  "snd (takeSaved (p # ps) av) =
     (if p \<in> set av then snd (takeSaved ps (removeAll p av)) else snd (takeSaved ps av))"
  by (simp_all split: prod.splits)

lemma takeSaved_fst:
  "fst (takeSaved saved av) = keepFirst (filter (\<lambda>p. p \<in> set av) saved)"
proof (induction saved arbitrary: av)
  case Nil
  then show ?case by simp
next
  case (Cons p ps)
  have "filter (\<lambda>y. y \<in> set (removeAll p av)) ps
          = filter (\<lambda>y. y \<noteq> p) (filter (\<lambda>y. y \<in> set av) ps)"
    by (induction ps) auto
  with Cons show ?case by (simp only: takeSaved_Cons) simp
qed

lemma takeSaved_snd:
  "snd (takeSaved saved av) = filter (\<lambda>a. a \<notin> set saved) av"
proof (induction saved arbitrary: av)
  case Nil
  then show ?case by simp
next
  case (Cons p ps)
  have a: "filter (\<lambda>a. a \<notin> set ps) (removeAll p av) = filter (\<lambda>a. a \<notin> set (p # ps)) av"
    by (induction av) auto
  have b: "p \<notin> set av
             \<Longrightarrow> filter (\<lambda>a. a \<notin> set ps) av = filter (\<lambda>a. a \<notin> set (p # ps)) av"
    by (induction av) auto
  from Cons a b show ?case by (simp only: takeSaved_Cons split: if_splits) simp
qed

lemma reconcileOrder_eq:
  "reconcileOrder ofile av =
     keepFirst (filter (\<lambda>p. p \<in> set av) (savedNames ofile))
       @ sort (filter (\<lambda>a. a \<notin> set (savedNames ofile)) av)"
proof (cases ofile)
  case (SavedOrder saved)
  then show ?thesis
    using takeSaved_fst [of saved av] takeSaved_snd [of saved av]
    by (cases "takeSaved saved av") (simp add: reconcileOrder_def savedNames_def)
qed (simp_all add: reconcileOrder_def savedNames_def)

lemma keepFirst_distinct: "distinct xs \<Longrightarrow> keepFirst xs = xs"
proof (induction xs)
  case Nil
  then show ?case by simp
next
  case (Cons x xs)
  then have "filter (\<lambda>y. y \<noteq> x) xs = xs" by (auto intro: filter_True)
  with Cons show ?case by simp
qed

lemma loadPlugins_order:
  "pluginFolders env = Some folders \<Longrightarrow>
     preprocessorOrder (fst (loadPlugins env st))
        = reconcileOrder (orderFile env) (discoveredNames env st)
     \<and> snd (loadPlugins env st)
        = orderFileWrite (orderFile env)
            (reconcileOrder (orderFile env) (discoveredNames env st))"
  by (simp add: loadPlugins_def discoveredNames_def Let_def split: prod.splits)

text \<open>
  What one step of the scan does to the map and to \<^verbatim>\<open>discoveredPreprocessors\<close>, and the keys
  of \<^verbatim>\<open>discoveredPreprocessors\<close> when the scan ends: the keys it held before, and the
  preprocessors of the directory whose name the map did not hold when the scan started.
\<close>

lemma scanFolder_not_offered:
  "offeredManifest f = None \<Longrightarrow> scanFolder dir f acc = acc"
  by (cases acc) (auto simp: scanFolder_def offeredManifest_def split: option.splits if_splits)

lemma scanFolder_known:
  "offeredManifest f = Some m \<Longrightarrow> plugins (fst acc) (name m) \<noteq> None
     \<Longrightarrow> scanFolder dir f acc = acc"
  by (cases acc) (auto simp: scanFolder_def offeredManifest_def split: option.splits if_splits)

lemma loadedManifest_kind:
  "isPreprocessor (loadedManifest dir f m) = isPreprocessor m"
  "directScript (loadedManifest dir f m) = directScript m"
  by (simp_all add: loadedManifest_def isPreprocessor_def directScript_def)

lemma scanFolder_new:
  assumes "offeredManifest f = Some m" "plugins st (name m) = None"
  shows "plugins (fst (scanFolder dir f (st, disc))) = (plugins st)(name m \<mapsto> loadedManifest dir f m)"
    and "fst ` set (snd (scanFolder dir f (st, disc)))
           = fst ` set disc \<union> (if providesPreprocessor f then {name m} else {})"
    and "distinct (map fst disc) \<Longrightarrow> distinct (map fst (snd (scanFolder dir f (st, disc))))"
  using assms
  by (auto simp: scanFolder_def offeredManifest_def providesPreprocessor_def Let_def
        loadedManifest_kind dom_update distinct_update
      split: option.splits if_splits)

lemma scanFolders_discovered:
  "fst ` set (snd (scanFolders dir fs (st, disc)))
     = fst ` set disc \<union> {n. plugins st n = None \<and> directoryPreprocessor fs n}"
proof (induction fs arbitrary: st disc)
  case Nil
  then show ?case by (simp add: directoryPreprocessor_def)
next
  case (Cons f fs)
  show ?case
  proof (cases "offeredManifest f")
    case None
    then have "\<And>n. directoryPreprocessor (f # fs) n = directoryPreprocessor fs n"
      by (simp add: directoryPreprocessor_def)
    with None Cons.IH [of st disc] show ?thesis
      by (simp add: scanFolder_not_offered)
  next
    case (Some m)
    show ?thesis
    proof (cases "plugins st (name m) = None")
      case False
      have "\<And>n. plugins st n = None \<Longrightarrow>
              directoryPreprocessor (f # fs) n = directoryPreprocessor fs n"
        using Some False by (auto simp: directoryPreprocessor_def)
      then have "{n. plugins st n = None \<and> directoryPreprocessor (f # fs) n}
                   = {n. plugins st n = None \<and> directoryPreprocessor fs n}"
        by auto
      with Some False Cons.IH [of st disc] show ?thesis
        using scanFolder_known [of f m "(st, disc)" dir] by simp
    next
      case True
      obtain st1 disc1 where sc: "scanFolder dir f (st, disc) = (st1, disc1)"
        by (cases "scanFolder dir f (st, disc)")
      from scanFolder_new(1,2) [OF Some True, of dir disc] sc
      have p1: "plugins st1 = (plugins st)(name m \<mapsto> loadedManifest dir f m)"
        and d1: "fst ` set disc1
                   = fst ` set disc \<union> (if providesPreprocessor f then {name m} else {})"
        by simp_all
      have here: "directoryPreprocessor (f # fs) (name m) = providesPreprocessor f"
        using Some by (simp add: directoryPreprocessor_def)
      have other: "\<And>n. n \<noteq> name m \<Longrightarrow>
                     directoryPreprocessor (f # fs) n = directoryPreprocessor fs n"
        using Some by (auto simp: directoryPreprocessor_def)
      have "fst ` set (snd (scanFolders dir (f # fs) (st, disc)))
              = fst ` set disc1 \<union> {n. plugins st1 n = None \<and> directoryPreprocessor fs n}"
        using Cons.IH [of st1 disc1] sc by simp
      also have "\<dots> = fst ` set disc
                      \<union> {n. plugins st n = None \<and> directoryPreprocessor (f # fs) n}"
        using d1 p1 True here other by (auto split: if_splits)
      finally show ?thesis .
    qed
  qed
qed

lemma scanFolders_distinct:
  "distinct (map fst disc) \<Longrightarrow> distinct (map fst (snd (scanFolders dir fs (st, disc))))"
proof (induction fs arbitrary: st disc)
  case Nil
  then show ?case by simp
next
  case (Cons f fs)
  obtain st1 disc1 where sc: "scanFolder dir f (st, disc) = (st1, disc1)"
    by (cases "scanFolder dir f (st, disc)")
  have "distinct (map fst disc1)"
  proof (cases "offeredManifest f")
    case None
    with sc Cons.prems show ?thesis by (simp add: scanFolder_not_offered)
  next
    case (Some m)
    show ?thesis
    proof (cases "plugins st (name m) = None")
      case True
      from scanFolder_new(3) [OF Some True Cons.prems, of dir] sc show ?thesis by simp
    next
      case False
      with Some sc Cons.prems show ?thesis
        using scanFolder_known [of f m "(st, disc)" dir] by simp
    qed
  qed
  from Cons.IH [OF this, of st1] sc show ?case by simp
qed

lemma directoryPreprocessor_offered:
  "directoryPreprocessor folders n \<Longrightarrow>
     \<exists>f\<in>set folders. \<exists>m. offeredManifest f = Some m \<and> name m = n"
  by (auto simp: directoryPreprocessor_def find_Some_iff split: option.splits)

lemma discoveredNames_set:
  assumes "pluginFolders env = Some folders"
    and "\<forall>f\<in>set folders. \<forall>m. offeredManifest f = Some m
            \<longrightarrow> plugins st (name m) = None"
  shows "set (discoveredNames env st) = {n. directoryPreprocessor folders n}"
    and "distinct (discoveredNames env st)"
proof -
  have "set (discoveredNames env st)
          = {n. localPlugins (plugins st) n = None \<and> directoryPreprocessor folders n}"
    using assms(1) scanFolders_discovered [of "pluginDir env" folders "clearForReload st" "[]"]
    by (simp add: discoveredNames_def clearForReload_def)
  also have "\<dots> = {n. directoryPreprocessor folders n}"
  proof -
    have "localPlugins (plugins st) n = None" if "directoryPreprocessor folders n" for n
    proof -
      from directoryPreprocessor_offered [OF that] obtain f m where
        "f \<in> set folders" "offeredManifest f = Some m" "name m = n" by blast
      with assms(2) have "plugins st n = None" by auto
      then show ?thesis by (simp add: localPlugins_def)
    qed
    then show ?thesis by blast
  qed
  finally show "set (discoveredNames env st) = {n. directoryPreprocessor folders n}" .
  show "distinct (discoveredNames env st)"
    using assms(1) scanFolders_distinct [of "[]" "pluginDir env" folders "clearForReload st"]
    by (simp add: discoveredNames_def)
qed


lemmas order_defs =
  sample_defs scenario4_def firstLaunch_def unreadableDirectory_def preprocessorFolder_def
  directScript_def

lemmas preprocessor_defs =
  directoryPreprocessor_def offeredManifest_def providesPreprocessor_def preprocessorFolder_def
  basicManifest_def isPreprocessor_def directScript_def truthy_def

text \<open>
  C6, as stated, fails. At scenario 4 of the specification, with the order file B, A, C and
  the preprocessors A, B, D in the directory, the effective order is B, A, D, but
  \<^verbatim>\<open>loadPlugins\<close> writes nothing: the file keeps the content B, A, C. When the plugin directory
  cannot be read, the order in memory stays what it was (here A, D from the first launch).
  And a second load of scenario 4 gives the empty order although the directory still holds
  A, B and D: the entries that the first load stored are kept and the scan skips them.
\<close>

theorem order_file_rewritten_counterexample:
  "orderFile scenario4 = SavedOrder [''B'', ''A'', ''C'']
   \<and> preprocessorOrder (fst (loadPlugins scenario4 newManager)) = [''B'', ''A'', ''D'']
   \<and> snd (loadPlugins scenario4 newManager) = None
   \<and> pluginFolders unreadableDirectory = None
   \<and> preprocessorOrder (fst (loadPlugins firstLaunch newManager)) = [''A'', ''D'']
   \<and> preprocessorOrder
        (fst (loadPlugins unreadableDirectory (fst (loadPlugins firstLaunch newManager))))
       = [''A'', ''D'']
   \<and> preprocessorOrder (fst (loadPlugins scenario4 (fst (loadPlugins scenario4 newManager))))
       = []"
  by (simp add: order_defs)

text \<open>
  C6, amended. At a load that reads the plugin directory, when no entry of the map bears
  the name of a manifest that the directory offers (as at the first load), the
  effective preprocessor order is: the names of the saved order file that are preprocessors
  of the directory, each once and in the order of their first occurrence in the file (for a
  file without repetitions: in their saved order), followed by the other preprocessors of
  the directory in lexicographic order; a saved name that is not a preprocessor of the
  directory is dropped. The file is written only when it did not exist and the effective
  order is not empty, and then with the effective order; an existing file is left as it
  is. When the plugin directory cannot be read, the order in memory stays what it was and
  nothing is written.
\<close>

theorem preprocessor_order_reconciled:
  "(pluginFolders env = Some folders
      \<and> (\<forall>f\<in>set folders. \<forall>m. offeredManifest f = Some m
            \<longrightarrow> plugins st (name m) = None) \<longrightarrow>
      (\<exists>others.
         preprocessorOrder (fst (loadPlugins env st))
           = keepFirst (filter (directoryPreprocessor folders) (savedNames (orderFile env)))
             @ others
         \<and> sorted others \<and> distinct others
         \<and> set others = {n. directoryPreprocessor folders n \<and> n \<notin> set (savedNames (orderFile env))})
      \<and> (distinct (savedNames (orderFile env)) \<longrightarrow>
           keepFirst (filter (directoryPreprocessor folders) (savedNames (orderFile env)))
             = filter (directoryPreprocessor folders) (savedNames (orderFile env)))
      \<and> snd (loadPlugins env st)
          = (if orderFile env = NoOrderFile \<and> preprocessorOrder (fst (loadPlugins env st)) \<noteq> []
             then Some (preprocessorOrder (fst (loadPlugins env st))) else None))
   \<and> (pluginFolders env = None \<longrightarrow>
        preprocessorOrder (fst (loadPlugins env st)) = preprocessorOrder st
        \<and> snd (loadPlugins env st) = None)"
proof (intro conjI impI)
  assume a: "pluginFolders env = Some folders
      \<and> (\<forall>f\<in>set folders. \<forall>m. offeredManifest f = Some m
            \<longrightarrow> plugins st (name m) = None)"
  then have f: "pluginFolders env = Some folders"
    and k: "\<forall>f\<in>set folders. \<forall>m. offeredManifest f = Some m
            \<longrightarrow> plugins st (name m) = None" by blast+
  note s = discoveredNames_set(1) [OF f k] and d = discoveredNames_set(2) [OF f k]
  let ?saved = "savedNames (orderFile env)"
  let ?others = "sort (filter (\<lambda>a. a \<notin> set ?saved) (discoveredNames env st))"
  have o: "preprocessorOrder (fst (loadPlugins env st))
             = keepFirst (filter (directoryPreprocessor folders) ?saved) @ ?others"
    using loadPlugins_order [OF f, of st] s by (simp add: reconcileOrder_eq)
  have "sorted ?others" "distinct ?others"
    "set ?others = {n. directoryPreprocessor folders n \<and> n \<notin> set ?saved}"
    using s d by auto
  with o show "\<exists>others.
         preprocessorOrder (fst (loadPlugins env st))
           = keepFirst (filter (directoryPreprocessor folders) (savedNames (orderFile env)))
             @ others
         \<and> sorted others \<and> distinct others
         \<and> set others = {n. directoryPreprocessor folders n \<and> n \<notin> set (savedNames (orderFile env))}"
    by blast
  from loadPlugins_order [OF f, of st]
  show "snd (loadPlugins env st)
          = (if orderFile env = NoOrderFile \<and> preprocessorOrder (fst (loadPlugins env st)) \<noteq> []
             then Some (preprocessorOrder (fst (loadPlugins env st))) else None)"
    by (auto simp: orderFileWrite_def orderFileExists_def)
next
  assume "distinct (savedNames (orderFile env))"
  then show "keepFirst (filter (directoryPreprocessor folders) (savedNames (orderFile env)))
             = filter (directoryPreprocessor folders) (savedNames (orderFile env))"
    by (simp add: keepFirst_distinct)
next
  assume "pluginFolders env = None"
  then show "preprocessorOrder (fst (loadPlugins env st)) = preprocessorOrder st"
    by (simp add: loadPlugins_def clearForReload_def)
next
  assume "pluginFolders env = None"
  then show "snd (loadPlugins env st) = None"
    by (simp add: loadPlugins_def)
qed

theorem preprocessor_order_reconciled_witness:
  "(pluginFolders firstLaunch = Some [preprocessorFolder ''D'', preprocessorFolder ''A'']
      \<and> map (\<lambda>f. map_option name (offeredManifest f))
            [preprocessorFolder ''D'', preprocessorFolder ''A''] = [Some ''D'', Some ''A'']
      \<and> plugins newManager ''D'' = None
      \<and> plugins newManager ''A'' = None
      \<and> savedNames (orderFile firstLaunch) = []
      \<and> preprocessorOrder (fst (loadPlugins firstLaunch newManager)) = [''A'', ''D'']
      \<and> snd (loadPlugins firstLaunch newManager) = Some [''A'', ''D''])
   \<and> (pluginFolders scenario4
        = Some [preprocessorFolder ''A'', preprocessorFolder ''B'', preprocessorFolder ''D'']
      \<and> map (\<lambda>f. map_option name (offeredManifest f))
            [preprocessorFolder ''A'', preprocessorFolder ''B'', preprocessorFolder ''D'']
          = [Some ''A'', Some ''B'', Some ''D'']
      \<and> plugins servedState ''A'' = None
      \<and> plugins servedState ''B'' = None
      \<and> plugins servedState ''D'' = None
      \<and> map_option name (plugins servedState ''Old'') = Some ''Old''
      \<and> map_option name (plugins servedState ''T1'') = Some ''T1''
      \<and> savedNames (orderFile scenario4) = [''B'', ''A'', ''C'']
      \<and> distinct (savedNames (orderFile scenario4))
      \<and> keepFirst (filter (directoryPreprocessor
                             [preprocessorFolder ''A'', preprocessorFolder ''B'',
                              preprocessorFolder ''D''])
                     (savedNames (orderFile scenario4))) = [''B'', ''A'']
      \<and> preprocessorOrder (fst (loadPlugins scenario4 servedState)) = [''B'', ''A'', ''D'']
      \<and> snd (loadPlugins scenario4 servedState) = None)
   \<and> (pluginFolders unreadableDirectory = None
      \<and> preprocessorOrder
           (fst (loadPlugins unreadableDirectory (fst (loadPlugins firstLaunch newManager))))
          = [''A'', ''D'']
      \<and> snd (loadPlugins unreadableDirectory (fst (loadPlugins firstLaunch newManager))) = None)"
proof -
  note T = preprocessor_order_reconciled
  let ?fl = "[preprocessorFolder ''D'', preprocessorFolder ''A'']"
  let ?s4 = "[preprocessorFolder ''A'', preprocessorFolder ''B'', preprocessorFolder ''D'']"
  have f1: "pluginFolders firstLaunch = Some ?fl" by (simp add: firstLaunch_def)
  have f2: "pluginFolders scenario4 = Some ?s4" by (simp add: scenario4_def)
  have f3: "pluginFolders unreadableDirectory = None" by (simp add: unreadableDirectory_def)
  have k1: "\<forall>f\<in>set ?fl. \<forall>m. offeredManifest f = Some m
              \<longrightarrow> plugins newManager (name m) = None"
    by (simp add: newManager_def)
  have k2: "\<forall>f\<in>set ?s4. \<forall>m. offeredManifest f = Some m
              \<longrightarrow> plugins servedState (name m) = None"
    by (auto simp: offeredManifest_def preprocessorFolder_def sample_defs)
  have n1: "map (\<lambda>f. map_option name (offeredManifest f)) ?fl = [Some ''D'', Some ''A'']"
    and n2: "map (\<lambda>f. map_option name (offeredManifest f)) ?s4
               = [Some ''A'', Some ''B'', Some ''D'']"
    by (simp_all add: offeredManifest_def preprocessorFolder_def basicManifest_def)
  have e1: "plugins newManager ''D'' = None"
    "plugins newManager ''A'' = None"
    by (simp_all add: newManager_def)
  have e2: "plugins servedState ''A'' = None"
    "plugins servedState ''B'' = None"
    "plugins servedState ''D'' = None"
    by (simp_all add: sample_defs)
  have old: "map_option name (plugins servedState ''Old'') = Some ''Old''"
    "map_option name (plugins servedState ''T1'') = Some ''T1''"
    by (simp_all add: sample_defs)
  have s1: "savedNames (orderFile firstLaunch) = []"
    and s2: "savedNames (orderFile scenario4) = [''B'', ''A'', ''C'']"
    and o1: "orderFile firstLaunch = NoOrderFile"
    and o2: "orderFile scenario4 \<noteq> NoOrderFile"
    by (simp_all add: savedNames_def firstLaunch_def scenario4_def)
  have p1: "directoryPreprocessor ?fl n \<longleftrightarrow> n = ''D'' \<or> n = ''A''" for n
    by (auto simp: preprocessor_defs)
  have p2: "directoryPreprocessor ?s4 n \<longleftrightarrow> n = ''A'' \<or> n = ''B'' \<or> n = ''D''" for n
    by (auto simp: preprocessor_defs)
  from T [where env = firstLaunch and st = newManager and folders = ?fl, THEN conjunct1] f1 k1
  obtain others where
    a1: "preprocessorOrder (fst (loadPlugins firstLaunch newManager))
           = keepFirst (filter (directoryPreprocessor ?fl) (savedNames (orderFile firstLaunch)))
             @ others"
    and a2: "sorted others" "distinct others"
    and a3: "set others = {n. directoryPreprocessor ?fl n
                             \<and> n \<notin> set (savedNames (orderFile firstLaunch))}"
    and a4: "snd (loadPlugins firstLaunch newManager)
          = (if orderFile firstLaunch = NoOrderFile
                \<and> preprocessorOrder (fst (loadPlugins firstLaunch newManager)) \<noteq> []
             then Some (preprocessorOrder (fst (loadPlugins firstLaunch newManager))) else None)"
    by blast
  from a3 have "set others = set [''A'', ''D'']" by (auto simp: p1 s1)
  with a2 have "others = [''A'', ''D'']"
    by (intro sorted_distinct_set_unique) simp_all
  with a1 have c1: "preprocessorOrder (fst (loadPlugins firstLaunch newManager)) = [''A'', ''D'']"
    by (simp add: s1)
  with a4 o1 have c2: "snd (loadPlugins firstLaunch newManager) = Some [''A'', ''D'']" by simp
  from T [where env = scenario4 and st = servedState and folders = ?s4, THEN conjunct1] f2 k2
  obtain others' where
    b1: "preprocessorOrder (fst (loadPlugins scenario4 servedState))
           = keepFirst (filter (directoryPreprocessor ?s4) (savedNames (orderFile scenario4)))
             @ others'"
    and b2: "sorted others'" "distinct others'"
    and b3: "set others' = {n. directoryPreprocessor ?s4 n
                             \<and> n \<notin> set (savedNames (orderFile scenario4))}"
    and b4: "snd (loadPlugins scenario4 servedState)
          = (if orderFile scenario4 = NoOrderFile
                \<and> preprocessorOrder (fst (loadPlugins scenario4 servedState)) \<noteq> []
             then Some (preprocessorOrder (fst (loadPlugins scenario4 servedState))) else None)"
    by blast
  from b3 have "set others' = set [''D'']" by (auto simp: p2 s2)
  with b2 have "others' = [''D'']"
    by (intro sorted_distinct_set_unique) simp_all
  with b1 have c3: "preprocessorOrder (fst (loadPlugins scenario4 servedState)) = [''B'', ''A'', ''D'']"
    by (simp add: s2 p2)
  from b4 o2 have c4: "snd (loadPlugins scenario4 servedState) = None" by simp
  have ds: "distinct (savedNames (orderFile scenario4))" by (simp add: s2)
  from T [where env = scenario4 and st = servedState and folders = ?s4, THEN conjunct1] f2 k2 ds
  have c7: "keepFirst (filter (directoryPreprocessor ?s4) (savedNames (orderFile scenario4)))
              = [''B'', ''A'']"
    by (simp add: s2 p2)
  from T [where env = unreadableDirectory and st = "fst (loadPlugins firstLaunch newManager)",
          THEN conjunct2] f3 c1
  have c5: "preprocessorOrder
              (fst (loadPlugins unreadableDirectory (fst (loadPlugins firstLaunch newManager))))
             = [''A'', ''D'']"
    and c6: "snd (loadPlugins unreadableDirectory (fst (loadPlugins firstLaunch newManager))) = None"
    by simp_all
  show ?thesis
    using f1 n1 e1 s1 c1 c2 f2 n2 e2 old s2 ds c7 c3 c4 f3 c5 c6 by blast
qed

subsection \<open>The effective configuration\<close>

text \<open>Lower case and the letters of \<^verbatim>\<open>true\<close>.\<close>

lemma char_code_eq: "c = d \<longleftrightarrow> (of_char c :: nat) = of_char d"
  by simp

lemma toLowerChar_letters:
  "toLowerChar c = CHR ''t'' \<longleftrightarrow> c = CHR ''t'' \<or> c = CHR ''T''"
  "toLowerChar c = CHR ''r'' \<longleftrightarrow> c = CHR ''r'' \<or> c = CHR ''R''"
  "toLowerChar c = CHR ''u'' \<longleftrightarrow> c = CHR ''u'' \<or> c = CHR ''U''"
  "toLowerChar c = CHR ''e'' \<longleftrightarrow> c = CHR ''e'' \<or> c = CHR ''E''"
  unfolding char_code_eq [of c]
  by (auto simp: toLowerChar_def Let_def char_of_eq_iff take_bit_eq_mod char_code_eq [of c])

lemma toLowerCase_true: "toLowerCase s = ''true'' \<longleftrightarrow> equalsTrueIgnoringCase s"
  by (simp add: toLowerCase_def equalsTrueIgnoringCase_def map_eq_Cons_conv list_all2_Cons2
      toLowerChar_letters)

lemma isDigit_not_white: "isDigit c \<Longrightarrow> \<not> isWhiteSpace c"
  by (auto simp: isDigit_def isWhiteSpace_def)

lemma isDigit_not_sign: "isDigit c \<Longrightarrow> c \<noteq> CHR ''-'' \<and> c \<noteq> CHR ''+''"
  by (auto simp: isDigit_def)

lemma sign_not_white: "\<not> isWhiteSpace CHR ''-''" "\<not> isWhiteSpace CHR ''+''"
  by (simp_all add: isWhiteSpace_def)

lemma parseInt10_None: "parseInt10 s = None \<longleftrightarrow> \<not> startsWithInteger s"
proof (cases "dropWhile isWhiteSpace s")
  case Nil
  show ?thesis unfolding parseInt10_def startsWithInteger_def Let_def Nil by simp
next
  case (Cons c cs)
  then show ?thesis
    using isDigit_not_sign [of c]
    by (cases cs) (auto simp: parseInt10_def startsWithInteger_def Let_def takeWhile_eq_Nil_iff)
qed

lemma digit_char:
  "d < 10 \<Longrightarrow> isDigit (char_of (48 + d)) \<and> (of_char (char_of (48 + d)) :: nat) = 48 + d"
  by (simp add: isDigit_def)

lemma showNat_small: "n < 10 \<Longrightarrow> showNat n = [char_of (48 + n)]"
  by (simp add: showNat.simps [of n] del: showNat.simps)

lemma showNat_large:
  "\<not> n < 10 \<Longrightarrow> showNat n = showNat (n div 10) @ [char_of (48 + n mod 10)]"
  by (simp add: showNat.simps [of n] del: showNat.simps)

lemma showNat_digits: "c \<in> set (showNat n) \<Longrightarrow> isDigit c"
proof (induction n arbitrary: c rule: showNat.induct)
  case (1 n)
  show ?case
  proof (cases "n < 10")
    case True
    with 1(2) show ?thesis
      using digit_char [of n] by (simp add: showNat_small del: showNat.simps)
  next
    case False
    with 1(2) have "c \<in> set (showNat (n div 10)) \<or> c = char_of (48 + n mod 10)"
      by (auto simp add: showNat_large simp del: showNat.simps)
    with 1(1) [OF False] show ?thesis
      using digit_char [of "n mod 10"] by (auto simp del: showNat.simps)
  qed
qed

lemma showNat_not_Nil: "showNat n \<noteq> []"
  by (cases "n < 10") (simp_all add: showNat_small showNat_large del: showNat.simps)

lemma digitsValue_snoc: "digitsValue (z @ [c]) = 10 * digitsValue z + (of_char c - 48)"
  by (simp add: digitsValue_def)

lemma digitsValue_showNat: "digitsValue (showNat n) = n"
proof (induction n rule: showNat.induct)
  case (1 n)
  show ?case
  proof (cases "n < 10")
    case True
    then show ?thesis
      using digit_char [of n] by (simp add: showNat_small digitsValue_def del: showNat.simps)
  next
    case False
    with 1 show ?thesis
      using digit_char [of "n mod 10"]
      by (simp add: showNat_large digitsValue_snoc del: showNat.simps)
  qed
qed

lemma takeWhile_showNat:
  assumes "rest = [] \<or> \<not> isDigit (hd rest)"
  shows "takeWhile isDigit (showNat n @ rest) = showNat n"
proof -
  from assms have "takeWhile isDigit rest = []" by (cases rest) auto
  moreover have "\<And>x. x \<in> set (showNat n) \<Longrightarrow> isDigit x" by (rule showNat_digits)
  ultimately show ?thesis
    by (simp del: showNat.simps)
qed

lemma parseInt10_decimal:
  assumes ws: "\<forall>c\<in>set ws. isWhiteSpace c" and r: "rest = [] \<or> \<not> isDigit (hd rest)"
  shows "parseInt10 (ws @ showNat n @ rest) = Some (signedNumber False (toDouble n))"
    and "parseInt10 (ws @ ''+'' @ showNat n @ rest) = Some (signedNumber False (toDouble n))"
    and "parseInt10 (ws @ ''-'' @ showNat n @ rest) = Some (signedNumber True (toDouble n))"
proof -
  obtain d ds where s: "showNat n = d # ds"
    using showNat_not_Nil [of n] by (cases "showNat n") (auto simp del: showNat.simps)
  have d: "isDigit d" using showNat_digits [of d n] s by (simp del: showNat.simps)
  have tw: "takeWhile isDigit (d # ds @ rest) = d # ds"
    using takeWhile_showNat [OF r, of n] s by (simp del: showNat.simps takeWhile.simps)
  have dv: "digitsValue (d # ds) = n"
    using digitsValue_showNat [of n] s by (simp del: showNat.simps)
  have dw: "\<And>x. dropWhile isWhiteSpace (ws @ x) = dropWhile isWhiteSpace x"
    using ws by simp
  show "parseInt10 (ws @ showNat n @ rest) = Some (signedNumber False (toDouble n))"
    using isDigit_not_white [OF d] isDigit_not_sign [OF d] tw dv
    by (simp add: parseInt10_def Let_def dw s del: takeWhile.simps showNat.simps)
  show "parseInt10 (ws @ ''+'' @ showNat n @ rest) = Some (signedNumber False (toDouble n))"
    using sign_not_white tw dv
    by (simp add: parseInt10_def Let_def dw s del: takeWhile.simps showNat.simps)
  show "parseInt10 (ws @ ''-'' @ showNat n @ rest) = Some (signedNumber True (toDouble n))"
    using sign_not_white tw dv
    by (simp add: parseInt10_def Let_def dw s del: takeWhile.simps showNat.simps)
qed

lemma toDouble_safe: "n < 2 ^ 53 \<Longrightarrow> toDouble n = Some n"
  by (simp add: toDouble_def)

text \<open>The numbers from \<^verbatim>\<open>2^1024\<close> on are rounded to \<^verbatim>\<open>Infinity\<close>.\<close>

lemma bitLength_bounds: "n \<noteq> 0 \<Longrightarrow> 2 ^ (bitLength n - 1) \<le> n \<and> n < 2 ^ bitLength n"
proof (induction n rule: bitLength.induct)
  case (1 n)
  have b: "bitLength n = Suc (bitLength (n div 2))"
    using 1(2) by (subst bitLength.simps) simp
  show ?case
  proof (cases "n div 2 = 0")
    case True
    with 1(2) have n1: "n = 1" by presburger
    have "bitLength 0 = 0" by simp
    with b True have "bitLength n = 1" by (simp del: bitLength.simps)
    with n1 show ?thesis by (simp del: bitLength.simps)
  next
    case False
    from 1(1) [OF 1(2) False]
    have lo: "2 ^ (bitLength (n div 2) - 1) \<le> n div 2" and hi: "n div 2 < 2 ^ bitLength (n div 2)"
      by simp_all
    have pos: "bitLength (n div 2) \<noteq> 0"
      using False by (subst bitLength.simps) simp
    then obtain b where bb: "bitLength (n div 2) = Suc b" by (cases "bitLength (n div 2)") auto
    from lo hi bb have "2 ^ Suc b \<le> n" "n < 2 ^ Suc (Suc b)"
      by (simp_all del: bitLength.simps)
    then show ?thesis by (simp add: b bb del: bitLength.simps)
  qed
qed

lemma toDouble_overflow:
  assumes "2 ^ 1024 \<le> v"
  shows "toDouble v = None"
proof -
  from assms have v0: "v \<noteq> 0" by auto
  have big: "\<not> v < 2 ^ 53"
  proof -
    have "(2::nat) ^ 53 \<le> 2 ^ 1024" by (rule power_increasing) simp_all
    with assms show ?thesis by linarith
  qed
  define L where "L = bitLength v"
  from bitLength_bounds [OF v0] have lo: "2 ^ (L - 1) \<le> v" and hi: "v < 2 ^ L"
    by (simp_all add: L_def del: bitLength.simps)
  from assms hi have p: "(2::nat) ^ 1024 < 2 ^ L" by linarith
  have "(1::nat) < 2" by simp
  from power_less_imp_less_exp [OF this p] have L: "1024 < L" .
  define e where "e = L - 53"
  from L have le: "L - 1 = 52 + e" by (simp add: e_def)
  from lo have "(2::nat) ^ (52 + e) \<le> v" unfolding le .
  then have m: "(2::nat) ^ 52 * 2 ^ e \<le> v" by (simp only: power_add)
  have "0 < (2::nat) ^ e" by simp
  from less_eq_div_iff_mult_less_eq [OF this] m have q: "(2::nat) ^ 52 \<le> v div 2 ^ e"
    by blast
  have "1024 \<le> 52 + e" using L le by linarith
  then have "(2::nat) ^ 1024 \<le> 2 ^ (52 + e)"
    by (intro power_increasing) simp_all
  also have "\<dots> = 2 ^ 52 * 2 ^ e" by (simp only: power_add)
  also have "\<dots> \<le> (v div 2 ^ e) * 2 ^ e" using q by (intro mult_right_mono) simp_all
  finally have a: "2 ^ 1024 \<le> (v div 2 ^ e) * 2 ^ e" .
  then have b: "2 ^ 1024 \<le> (v div 2 ^ e + 1) * 2 ^ e"
    by (simp add: add_mult_distrib)
  from a b big show ?thesis
    unfolding toDouble_def Let_def L_def [symmetric] e_def [symmetric]
    by (simp del: bitLength.simps)
qed

lemma coerceValue_infinity:
  assumes "2 ^ 1024 \<le> n"
  shows "coerceValue ''integer'' (showNat n) = VNumber PositiveInfinity"
  using parseInt10_decimal(1) [of "[]" "[]" n] toDouble_overflow [OF assms]
  by (simp add: coerceValue_def signedNumber_def del: showNat.simps)

text \<open>The loop over the schema when no environment defines \<^verbatim>\<open>hasOwnProperty\<close>.\<close>

lemma schemaStep_plain:
  assumes "pse ''hasOwnProperty'' = None" "env ''hasOwnProperty'' = None"
  shows "schemaStep pse env (k, ty) cfg =
           Some (case (case pse k of None \<Rightarrow> env k | Some v \<Rightarrow> Some v) of
                   None \<Rightarrow> cfg
                 | Some raw \<Rightarrow> assign k (coerceValue ty raw) cfg)"
  using assms by (auto simp: schemaStep_def hasOwnProperty_def split: option.splits)

lemma schemaLoop_total:
  assumes "pse ''hasOwnProperty'' = None" "env ''hasOwnProperty'' = None"
  shows "\<exists>cfg'. schemaLoop pse env schema cfg = Some cfg'"
proof (induction schema arbitrary: cfg)
  case Nil
  then show ?case by simp
next
  case (Cons kt schema)
  then show ?case using schemaStep_plain [of pse env, OF assms] by (cases kt) simp
qed

lemma schemaLoop_other:
  "schemaLoop pse env schema cfg = Some cfg' \<Longrightarrow> k \<notin> fst ` set schema \<Longrightarrow> cfg' k = cfg k"
proof (induction schema arbitrary: cfg)
  case Nil
  then show ?case by simp
next
  case (Cons kt schema)
  obtain k0 ty0 where kt: "kt = (k0, ty0)" by (cases kt)
  from Cons.prems(1) obtain c1 where
    s: "schemaStep pse env kt cfg = Some c1" and l: "schemaLoop pse env schema c1 = Some cfg'"
    by (auto split: option.splits)
  from Cons.prems(2) kt have ne: "k0 \<noteq> k" and nin: "k \<notin> fst ` set schema" by auto
  from s ne kt have "c1 k = cfg k"
    by (auto simp: schemaStep_def assign_def split: option.splits bool.splits if_splits)
  with Cons.IH [OF l nin] show ?case by simp
qed

lemma schemaLoop_proto:
  "schemaLoop pse env schema cfg = Some cfg' \<Longrightarrow> cfg' ''__proto__'' = cfg ''__proto__''"
proof (induction schema arbitrary: cfg)
  case Nil
  then show ?case by simp
next
  case (Cons kt schema)
  obtain k0 ty0 where kt: "kt = (k0, ty0)" by (cases kt)
  from Cons.prems(1) obtain c1 where
    s: "schemaStep pse env kt cfg = Some c1" and l: "schemaLoop pse env schema c1 = Some cfg'"
    by (auto split: option.splits)
  from s kt have "c1 ''__proto__'' = cfg ''__proto__''"
    by (auto simp: schemaStep_def assign_def split: option.splits bool.splits if_splits)
  with Cons.IH [OF l] show ?case by simp
qed

lemma schemaLoop_at:
  assumes h: "pse ''hasOwnProperty'' = None" "env ''hasOwnProperty'' = None"
  shows "schemaLoop pse env schema cfg = Some cfg' \<Longrightarrow> distinct (map fst schema) \<Longrightarrow>
     (k, ty) \<in> set schema \<Longrightarrow> k \<noteq> ''__proto__'' \<Longrightarrow>
     cfg' k = (case (case pse k of None \<Rightarrow> env k | Some v \<Rightarrow> Some v) of
                 None \<Rightarrow> cfg k
               | Some raw \<Rightarrow> Some (coerceValue ty raw))"
proof (induction schema arbitrary: cfg)
  case Nil
  then show ?case by simp
next
  case (Cons kt schema)
  from Cons.prems(1) obtain c1 where
    s: "schemaStep pse env kt cfg = Some c1" and l: "schemaLoop pse env schema c1 = Some cfg'"
    by (auto split: option.splits)
  show ?case
  proof (cases "(k, ty) = kt")
    case True
    from Cons.prems(2) have "fst kt \<notin> set (map fst schema)" by simp
    with True have "k \<notin> fst ` set schema" by force
    from schemaLoop_other [OF l this] have "cfg' k = c1 k" .
    also have "c1 k = (case (case pse k of None \<Rightarrow> env k | Some v \<Rightarrow> Some v) of
                 None \<Rightarrow> cfg k
               | Some raw \<Rightarrow> Some (coerceValue ty raw))"
      using s True [symmetric] Cons.prems(4) schemaStep_plain [of pse env k ty cfg, OF h]
      by (auto simp: assign_def split: option.splits)
    finally show ?thesis .
  next
    case False
    with Cons.prems have in_rest: "(k, ty) \<in> set schema" and d: "distinct (map fst schema)"
      and ne: "fst kt \<noteq> k" by (auto simp: image_iff)
    from ne s have "c1 k = cfg k"
      by (cases kt)
         (auto simp: schemaStep_def assign_def split: option.splits bool.splits if_splits)
    with Cons.IH [OF l d in_rest Cons.prems(4)] show ?thesis by (simp split: option.splits)
  qed
qed

lemma debugModeStep_plain:
  assumes "pse ''hasOwnProperty'' = None" "env ''hasOwnProperty'' = None"
    and "cfg ''DebugMode'' \<noteq> None \<longrightarrow> pse ''DebugMode'' \<noteq> None \<or> env ''DebugMode'' \<noteq> None"
  shows "debugModeStep pse env cfg =
           Some (cfg(''DebugMode'' \<mapsto>
                   VBoolean (case (case pse ''DebugMode'' of None \<Rightarrow> env ''DebugMode''
                                   | Some v \<Rightarrow> Some v) of
                               None \<Rightarrow> False
                             | Some raw \<Rightarrow> equalsTrueIgnoringCase raw)))"
  using assms
  by (auto simp: debugModeStep_def hasOwnProperty_def toLowerCase_true split: option.splits)


lemma schemaLoop_undefined:
  "schemaLoop pse env schema cfg = Some cfg' \<Longrightarrow> pse k = None \<Longrightarrow> env k = None
     \<Longrightarrow> cfg' k = cfg k"
proof (induction schema arbitrary: cfg)
  case Nil
  then show ?case by simp
next
  case (Cons kt schema)
  from Cons.prems(1) obtain c1 where
    s: "schemaStep pse env kt cfg = Some c1" and l: "schemaLoop pse env schema c1 = Some cfg'"
    by (auto split: option.splits)
  from s Cons.prems(2,3) have "c1 k = cfg k"
    by (cases kt)
       (auto simp: schemaStep_def assign_def hasOwnProperty_def
             split: option.splits bool.splits if_splits)
  with Cons.IH [OF l Cons.prems(2,3)] show ?case by simp
qed

lemma getPluginConfig_plain:
  assumes h: "pluginSpecificEnvOf m ''hasOwnProperty'' = None" "env ''hasOwnProperty'' = None"
  shows "\<exists>cfg. schemaLoop (pluginSpecificEnvOf m) env (declaredTypes m) Map.empty = Some cfg
           \<and> getPluginConfig m env =
               Some (cfg(''DebugMode'' \<mapsto>
                       VBoolean (case firstDefined m env ''DebugMode'' of
                                   None \<Rightarrow> False
                                 | Some raw \<Rightarrow> equalsTrueIgnoringCase raw)))"
proof -
  from schemaLoop_total [of "pluginSpecificEnvOf m" env "declaredTypes m" Map.empty, OF h]
  obtain cfg where
    l: "schemaLoop (pluginSpecificEnvOf m) env (declaredTypes m) Map.empty = Some cfg"
    by blast
  have u: "cfg ''DebugMode'' \<noteq> None \<longrightarrow>
             pluginSpecificEnvOf m ''DebugMode'' \<noteq> None \<or> env ''DebugMode'' \<noteq> None"
  proof (intro impI)
    assume n: "cfg ''DebugMode'' \<noteq> None"
    show "pluginSpecificEnvOf m ''DebugMode'' \<noteq> None \<or> env ''DebugMode'' \<noteq> None"
    proof (rule ccontr)
      assume "\<not> (pluginSpecificEnvOf m ''DebugMode'' \<noteq> None \<or> env ''DebugMode'' \<noteq> None)"
      then have "pluginSpecificEnvOf m ''DebugMode'' = None" "env ''DebugMode'' = None"
        by auto
      from schemaLoop_undefined [OF l this] n show False by simp
    qed
  qed
  have c: "(case configSchema m of
              None \<Rightarrow> Some Map.empty
            | Some schema \<Rightarrow> schemaLoop (pluginSpecificEnvOf m) env schema Map.empty) = Some cfg"
    using l by (simp add: declaredTypes_def split: option.splits)
  have "getPluginConfig m env = debugModeStep (pluginSpecificEnvOf m) env cfg"
    unfolding getPluginConfig_def Let_def c by simp
  with debugModeStep_plain [of "pluginSpecificEnvOf m" env cfg, OF h u] l
  show ?thesis by (simp add: firstDefined_def)
qed

lemma coerceValue_integer:
  assumes "\<forall>c\<in>set ws. isWhiteSpace c" "rest = [] \<or> \<not> isDigit (hd rest)" "n < 2 ^ 53"
  shows "coerceValue ''integer'' (ws @ showNat n @ rest) = VNumber (Finite (int n))"
    and "coerceValue ''integer'' (ws @ ''+'' @ showNat n @ rest) = VNumber (Finite (int n))"
    and "coerceValue ''integer'' (ws @ ''-'' @ showNat n @ rest)
           = VNumber (if n = 0 then NegativeZero else Finite (- int n))"
  using parseInt10_decimal [OF assms(1,2), of n] toDouble_safe [OF assms(3)]
  by (simp_all add: coerceValue_def signedNumber_def del: showNat.simps)

lemma coerceValue_undefined:
  "coerceValue ''integer'' raw = VUndefined \<longleftrightarrow> \<not> startsWithInteger raw"
  using parseInt10_None [of raw]
  by (auto simp: coerceValue_def split: option.splits)

lemmas config_defs =
  configuredPlugin_def processEnv_def debugDeclared_def shadowedPlugin_def basicManifest_def
  firstDefined_def pluginSpecificEnvOf_def declaredTypes_def

lemmas coerce_defs =
  coerceValue_def parseInt10_def isWhiteSpace_def isDigit_def digitsValue_def Let_def
  toDouble_def signedNumber_def toLowerCase_def toLowerChar_def char_of_eq_iff
  equalsTrueIgnoringCase_def startsWithInteger_def

lemmas loop_defs =
  getPluginConfig_def schemaStep_def hasOwnProperty_def assign_def debugModeStep_def

text \<open>
  When the \<^verbatim>\<open>config.env\<close> of a plugin defines a variable named \<^verbatim>\<open>hasOwnProperty\<close>,
  \<^verbatim>\<open>_getPluginConfig\<close> throws.
\<close>

lemma getPluginConfig_throws: "getPluginConfig shadowedPlugin processEnv = None"
  by (simp add: config_defs loop_defs)


text \<open>
  C8, as stated, fails. The manifest \<^verbatim>\<open>Configured\<close> does not declare the key \<^verbatim>\<open>API_Key\<close>; the
  process environment defines it, so the first defined of the two sources is \<^verbatim>\<open>secret\<close>,
  but the effective configuration has no value for the key. The manifest \<^verbatim>\<open>Chatty\<close> declares
  \<^verbatim>\<open>DebugMode\<close> as a string and its \<^verbatim>\<open>config.env\<close> sets it to \<^verbatim>\<open>verbose\<close>; the effective value
  is the boolean false, not the string.
\<close>

theorem config_first_defined_counterexample:
  "declaredTypes configuredPlugin
     = [(''Port'', ''integer''), (''Retries'', ''integer''), (''Offset'', ''integer''),
        (''Budget'', ''integer''), (''Verbose'', ''boolean''), (''Quiet'', ''boolean''),
        (''Label'', ''string'')]
   \<and> firstDefined configuredPlugin processEnv ''API_Key'' = Some ''secret''
   \<and> map_option (\<lambda>config. config ''API_Key'') (getPluginConfig configuredPlugin processEnv)
       = Some None
   \<and> declaredTypes debugDeclared = [(''DebugMode'', ''string'')]
   \<and> firstDefined debugDeclared Map.empty ''DebugMode'' = Some ''verbose''
   \<and> map_option (\<lambda>config. config ''DebugMode'') (getPluginConfig debugDeclared Map.empty)
       = Some (Some (VBoolean False))"
proof -
  have a: "map_option (\<lambda>config. config ''API_Key'') (getPluginConfig configuredPlugin processEnv)
       = Some None"
    by (simp add: config_defs loop_defs)
  have b: "map_option (\<lambda>config. config ''DebugMode'') (getPluginConfig debugDeclared Map.empty)
       = Some (Some (VBoolean False))"
    by (simp add: config_defs loop_defs coerce_defs)
  show ?thesis using a b by (simp add: config_defs)
qed

text \<open>
  C8, amended. For a manifest whose \<^verbatim>\<open>configSchema\<close> declares each key once, when neither
  \<^verbatim>\<open>pluginSpecificEnvConfig\<close> nor the process environment defines a variable named
  \<^verbatim>\<open>hasOwnProperty\<close>, \<^verbatim>\<open>_getPluginConfig\<close> returns an object with these own properties. A key
  that \<^verbatim>\<open>configSchema\<close> declares, other than \<^verbatim>\<open>DebugMode\<close> and \<^verbatim>\<open>__proto__\<close>, is absent when
  neither source defines it and otherwise holds the first defined of
  \<^verbatim>\<open>pluginSpecificEnvConfig[key]\<close> and the process environment at \<^verbatim>\<open>key\<close>, coerced by the
  declared type. A key that \<^verbatim>\<open>configSchema\<close> does not declare, other than \<^verbatim>\<open>DebugMode\<close>, is
  absent whatever the sources hold, and so is \<^verbatim>\<open>__proto__\<close>. \<^verbatim>\<open>DebugMode\<close> is always a boolean,
  whatever \<^verbatim>\<open>configSchema\<close> declares for it: true iff the first defined raw value equals
  \<^verbatim>\<open>true\<close> when case is ignored, and false when neither source defines it. The coercion: a
  declared boolean is true iff the raw string equals \<^verbatim>\<open>true\<close> when case is ignored; a
  declared integer is \<^verbatim>\<open>undefined\<close> iff no decimal digit follows the leading white space and
  the optional sign of the raw string; when the raw string is white space, an optional
  sign, the decimal numeral of a number below \<^verbatim>\<open>2^53\<close> and a rest that does not start with a
  digit, the value is that number, negated after a minus sign (the negative zero when the
  number is zero); any other declared type keeps the raw string.
\<close>

theorem effective_config_by_schema:
  "(pluginSpecificEnvOf m ''hasOwnProperty'' = None \<and> env ''hasOwnProperty'' = None
      \<and> distinct (map fst (declaredTypes m)) \<longrightarrow>
      (\<exists>config. getPluginConfig m env = Some config
         \<and> (\<forall>k ty. (k, ty) \<in> set (declaredTypes m) \<and> k \<noteq> ''DebugMode'' \<and> k \<noteq> ''__proto__''
              \<longrightarrow> config k = map_option (coerceValue ty) (firstDefined m env k))
         \<and> (\<forall>k. k \<notin> fst ` set (declaredTypes m) \<and> k \<noteq> ''DebugMode'' \<longrightarrow> config k = None)
         \<and> config ''__proto__'' = None
         \<and> config ''DebugMode''
             = Some (VBoolean (case firstDefined m env ''DebugMode'' of
                                 None \<Rightarrow> False
                               | Some raw \<Rightarrow> equalsTrueIgnoringCase raw))))
   \<and> coerceValue ''boolean'' raw = VBoolean (equalsTrueIgnoringCase raw)
   \<and> (coerceValue ''integer'' raw = VUndefined \<longleftrightarrow> \<not> startsWithInteger raw)
   \<and> ((\<forall>c\<in>set ws. isWhiteSpace c) \<and> (rest = [] \<or> \<not> isDigit (hd rest)) \<and> n < 2 ^ 53 \<longrightarrow>
         coerceValue ''integer'' (ws @ showNat n @ rest) = VNumber (Finite (int n))
       \<and> coerceValue ''integer'' (ws @ ''+'' @ showNat n @ rest) = VNumber (Finite (int n))
       \<and> coerceValue ''integer'' (ws @ ''-'' @ showNat n @ rest)
           = VNumber (if n = 0 then NegativeZero else Finite (- int n)))
   \<and> (ty \<noteq> ''integer'' \<and> ty \<noteq> ''boolean'' \<longrightarrow> coerceValue ty raw = VString raw)"
proof (intro conjI)
  show "pluginSpecificEnvOf m ''hasOwnProperty'' = None \<and> env ''hasOwnProperty'' = None
      \<and> distinct (map fst (declaredTypes m)) \<longrightarrow>
      (\<exists>config. getPluginConfig m env = Some config
         \<and> (\<forall>k ty. (k, ty) \<in> set (declaredTypes m) \<and> k \<noteq> ''DebugMode'' \<and> k \<noteq> ''__proto__''
              \<longrightarrow> config k = map_option (coerceValue ty) (firstDefined m env k))
         \<and> (\<forall>k. k \<notin> fst ` set (declaredTypes m) \<and> k \<noteq> ''DebugMode'' \<longrightarrow> config k = None)
         \<and> config ''__proto__'' = None
         \<and> config ''DebugMode''
             = Some (VBoolean (case firstDefined m env ''DebugMode'' of
                                 None \<Rightarrow> False
                               | Some raw \<Rightarrow> equalsTrueIgnoringCase raw)))"
  proof (intro impI)
    assume a: "pluginSpecificEnvOf m ''hasOwnProperty'' = None \<and> env ''hasOwnProperty'' = None
      \<and> distinct (map fst (declaredTypes m))"
    then have h: "pluginSpecificEnvOf m ''hasOwnProperty'' = None" "env ''hasOwnProperty'' = None"
      and d: "distinct (map fst (declaredTypes m))" by blast+
    from getPluginConfig_plain [of m env, OF h] obtain cfg where
      l: "schemaLoop (pluginSpecificEnvOf m) env (declaredTypes m) Map.empty = Some cfg"
      and g: "getPluginConfig m env =
               Some (cfg(''DebugMode'' \<mapsto>
                       VBoolean (case firstDefined m env ''DebugMode'' of
                                   None \<Rightarrow> False
                                 | Some raw \<Rightarrow> equalsTrueIgnoringCase raw)))"
      by blast
    let ?config = "cfg(''DebugMode'' \<mapsto>
                       VBoolean (case firstDefined m env ''DebugMode'' of
                                   None \<Rightarrow> False
                                 | Some raw \<Rightarrow> equalsTrueIgnoringCase raw))"
    have 1: "\<forall>k ty. (k, ty) \<in> set (declaredTypes m) \<and> k \<noteq> ''DebugMode'' \<and> k \<noteq> ''__proto__''
              \<longrightarrow> ?config k = map_option (coerceValue ty) (firstDefined m env k)"
    proof (intro allI impI)
      fix k ty
      assume b: "(k, ty) \<in> set (declaredTypes m) \<and> k \<noteq> ''DebugMode'' \<and> k \<noteq> ''__proto__''"
      then have "cfg k = (case (case pluginSpecificEnvOf m k of None \<Rightarrow> env k | Some v \<Rightarrow> Some v) of
                 None \<Rightarrow> Map.empty k
               | Some raw \<Rightarrow> Some (coerceValue ty raw))"
        using schemaLoop_at [of "pluginSpecificEnvOf m" env "declaredTypes m" Map.empty cfg k ty,
                             OF h l d] by blast
      with b show "?config k = map_option (coerceValue ty) (firstDefined m env k)"
        by (simp add: firstDefined_def split: option.splits)
    qed
    have 2: "\<forall>k. k \<notin> fst ` set (declaredTypes m) \<and> k \<noteq> ''DebugMode'' \<longrightarrow> ?config k = None"
      using schemaLoop_other [OF l] by simp
    have 3: "?config ''__proto__'' = None"
      using schemaLoop_proto [OF l] by simp
    have 4: "?config ''DebugMode''
             = Some (VBoolean (case firstDefined m env ''DebugMode'' of
                                 None \<Rightarrow> False
                               | Some raw \<Rightarrow> equalsTrueIgnoringCase raw))"
      by simp
    from g 1 2 3 4 show "\<exists>config. getPluginConfig m env = Some config
         \<and> (\<forall>k ty. (k, ty) \<in> set (declaredTypes m) \<and> k \<noteq> ''DebugMode'' \<and> k \<noteq> ''__proto__''
              \<longrightarrow> config k = map_option (coerceValue ty) (firstDefined m env k))
         \<and> (\<forall>k. k \<notin> fst ` set (declaredTypes m) \<and> k \<noteq> ''DebugMode'' \<longrightarrow> config k = None)
         \<and> config ''__proto__'' = None
         \<and> config ''DebugMode''
             = Some (VBoolean (case firstDefined m env ''DebugMode'' of
                                 None \<Rightarrow> False
                               | Some raw \<Rightarrow> equalsTrueIgnoringCase raw))"
      by blast
  qed
next
  show "coerceValue ''boolean'' raw = VBoolean (equalsTrueIgnoringCase raw)"
    by (simp add: coerceValue_def toLowerCase_true)
next
  show "coerceValue ''integer'' raw = VUndefined \<longleftrightarrow> \<not> startsWithInteger raw"
    by (rule coerceValue_undefined)
next
  show "(\<forall>c\<in>set ws. isWhiteSpace c) \<and> (rest = [] \<or> \<not> isDigit (hd rest)) \<and> n < 2 ^ 53 \<longrightarrow>
         coerceValue ''integer'' (ws @ showNat n @ rest) = VNumber (Finite (int n))
       \<and> coerceValue ''integer'' (ws @ ''+'' @ showNat n @ rest) = VNumber (Finite (int n))
       \<and> coerceValue ''integer'' (ws @ ''-'' @ showNat n @ rest)
           = VNumber (if n = 0 then NegativeZero else Finite (- int n))"
    using coerceValue_integer [of ws rest n] by blast
next
  show "ty \<noteq> ''integer'' \<and> ty \<noteq> ''boolean'' \<longrightarrow> coerceValue ty raw = VString raw"
    by (simp add: coerceValue_def)
qed

theorem effective_config_by_schema_witness:
  "(\<exists>config. getPluginConfig configuredPlugin processEnv = Some config
      \<and> config ''Port'' = Some (VNumber (Finite 8080))
      \<and> config ''Retries'' = Some VUndefined
      \<and> config ''Offset'' = Some (VNumber (Finite (- 42)))
      \<and> config ''Budget'' = Some (VNumber (Finite 9007199254740992))
      \<and> config ''Verbose'' = Some (VBoolean True)
      \<and> config ''Quiet'' = Some (VBoolean False)
      \<and> config ''Label'' = Some (VString ''x'')
      \<and> config ''API_Key'' = None
      \<and> config ''__proto__'' = None
      \<and> config ''DebugMode'' = Some (VBoolean False))
   \<and> (\<exists>config. getPluginConfig configuredPlugin [''DebugMode'' \<mapsto> ''True''] = Some config
         \<and> config ''Label'' = None
         \<and> config ''DebugMode'' = Some (VBoolean True))
   \<and> coerceValue ''boolean'' ''tRuE'' = VBoolean True
   \<and> coerceValue ''boolean'' ''true '' = VBoolean False
   \<and> coerceValue ''integer'' ''px12'' = VUndefined
   \<and> coerceValue ''integer'' '' +7 apples'' = VNumber (Finite 7)
   \<and> coerceValue ''integer'' ''-0'' = VNumber NegativeZero
   \<and> coerceValue ''integer'' ''-15'' = VNumber (Finite (- 15))
   \<and> coerceValue ''json'' ''{}'' = VString ''{}''"
proof -
  note E = effective_config_by_schema
  have h: "pluginSpecificEnvOf configuredPlugin ''hasOwnProperty'' = None"
    "processEnv ''hasOwnProperty'' = None"
    "distinct (map fst (declaredTypes configuredPlugin))"
    by (simp_all add: config_defs)
  from E [where m = configuredPlugin and env = processEnv, THEN conjunct1] h
  obtain config where g: "getPluginConfig configuredPlugin processEnv = Some config"
    and d: "\<And>k ty. (k, ty) \<in> set (declaredTypes configuredPlugin) \<Longrightarrow> k \<noteq> ''DebugMode''
              \<Longrightarrow> k \<noteq> ''__proto__''
              \<Longrightarrow> config k = map_option (coerceValue ty) (firstDefined configuredPlugin processEnv k)"
    and u: "\<And>k. k \<notin> fst ` set (declaredTypes configuredPlugin) \<Longrightarrow> k \<noteq> ''DebugMode''
              \<Longrightarrow> config k = None"
    and p: "config ''__proto__'' = None"
    and dm: "config ''DebugMode''
             = Some (VBoolean (case firstDefined configuredPlugin processEnv ''DebugMode'' of
                                 None \<Rightarrow> False
                               | Some raw \<Rightarrow> equalsTrueIgnoringCase raw))"
    by blast
  have c1: "config ''Port'' = Some (VNumber (Finite 8080))"
    using d [of "''Port''" "''integer''"] by (simp add: config_defs coerce_defs)
  have c2: "config ''Retries'' = Some VUndefined"
    using d [of "''Retries''" "''integer''"] by (simp add: config_defs coerce_defs)
  have c3: "config ''Offset'' = Some (VNumber (Finite (- 42)))"
    using d [of "''Offset''" "''integer''"] by (simp add: config_defs coerce_defs)
  have c4: "config ''Budget'' = Some (VNumber (Finite 9007199254740992))"
    using d [of "''Budget''" "''integer''"] by (simp add: config_defs coerce_defs)
  have c5: "config ''Verbose'' = Some (VBoolean True)"
    using d [of "''Verbose''" "''boolean''"] by (simp add: config_defs coerce_defs)
  have c6: "config ''Quiet'' = Some (VBoolean False)"
    using d [of "''Quiet''" "''boolean''"] by (simp add: config_defs coerce_defs)
  have c7: "config ''Label'' = Some (VString ''x'')"
    using d [of "''Label''" "''string''"] by (simp add: config_defs coerce_defs)
  have c8: "config ''API_Key'' = None"
    using u [of "''API_Key''"] by (simp add: config_defs)
  have c9: "config ''DebugMode'' = Some (VBoolean False)"
    using dm by (simp add: config_defs)
  have h': "[''DebugMode'' \<mapsto> ''True''] ''hasOwnProperty'' = None" by simp
  from E [where m = configuredPlugin and env = "[''DebugMode'' \<mapsto> ''True'']", THEN conjunct1]
    h(1,3) h'
  obtain config' where
    g': "getPluginConfig configuredPlugin [''DebugMode'' \<mapsto> ''True''] = Some config'"
    and d': "\<And>k ty. (k, ty) \<in> set (declaredTypes configuredPlugin) \<Longrightarrow> k \<noteq> ''DebugMode''
              \<Longrightarrow> k \<noteq> ''__proto__''
              \<Longrightarrow> config' k = map_option (coerceValue ty)
                               (firstDefined configuredPlugin [''DebugMode'' \<mapsto> ''True''] k)"
    and dm': "config' ''DebugMode''
             = Some (VBoolean (case firstDefined configuredPlugin [''DebugMode'' \<mapsto> ''True'']
                                      ''DebugMode'' of
                                 None \<Rightarrow> False
                               | Some raw \<Rightarrow> equalsTrueIgnoringCase raw))"
    by blast
  have c10: "config' ''Label'' = None"
    using d' [of "''Label''" "''string''"] by (simp add: config_defs)
  have c11: "config' ''DebugMode'' = Some (VBoolean True)"
    using dm' by (simp add: config_defs equalsTrueIgnoringCase_def)
  from g' c10 c11
  have second: "\<exists>config. getPluginConfig configuredPlugin [''DebugMode'' \<mapsto> ''True''] = Some config
         \<and> config ''Label'' = None
         \<and> config ''DebugMode'' = Some (VBoolean True)"
    by blast
  have ch: "char_of (55 :: nat) = CHR ''7''" "char_of (48 :: nat) = CHR ''0''"
    "char_of (49 :: nat) = CHR ''1''" "char_of (53 :: nat) = CHR ''5''"
    by (simp_all add: char_of_eq_iff)
  have b1: "coerceValue ''boolean'' ''tRuE'' = VBoolean True"
    using E [where raw = "''tRuE''", THEN conjunct2, THEN conjunct1]
    by (simp add: equalsTrueIgnoringCase_def)
  have b2: "coerceValue ''boolean'' ''true '' = VBoolean False"
    using E [where raw = "''true ''", THEN conjunct2, THEN conjunct1]
    by (simp add: equalsTrueIgnoringCase_def)
  have i1: "coerceValue ''integer'' ''px12'' = VUndefined"
    using E [where raw = "''px12''", THEN conjunct2, THEN conjunct2, THEN conjunct1]
    by (simp add: startsWithInteger_def isWhiteSpace_def isDigit_def)
  have i2: "coerceValue ''integer'' '' +7 apples'' = VNumber (Finite 7)"
    using E [where ws = "'' ''" and n = 7 and rest = "'' apples''",
             THEN conjunct2, THEN conjunct2, THEN conjunct2, THEN conjunct1]
    by (simp add: isWhiteSpace_def isDigit_def ch)
  have i3: "coerceValue ''integer'' ''-0'' = VNumber NegativeZero"
    using E [where ws = "[]" and n = 0 and rest = "[]",
             THEN conjunct2, THEN conjunct2, THEN conjunct2, THEN conjunct1]
    by (simp add: ch)
  have i4: "coerceValue ''integer'' ''-15'' = VNumber (Finite (- 15))"
    using E [where ws = "[]" and n = 15 and rest = "[]",
             THEN conjunct2, THEN conjunct2, THEN conjunct2, THEN conjunct1]
    by (simp add: ch)
  have s1: "coerceValue ''json'' ''{}'' = VString ''{}''"
    using E [where ty = "''json''" and raw = "''{}''",
             THEN conjunct2, THEN conjunct2, THEN conjunct2, THEN conjunct2]
    by simp
  from g c1 c2 c3 c4 c5 c6 c7 c8 p c9
  have "\<exists>config. getPluginConfig configuredPlugin processEnv = Some config
      \<and> config ''Port'' = Some (VNumber (Finite 8080))
      \<and> config ''Retries'' = Some VUndefined
      \<and> config ''Offset'' = Some (VNumber (Finite (- 42)))
      \<and> config ''Budget'' = Some (VNumber (Finite 9007199254740992))
      \<and> config ''Verbose'' = Some (VBoolean True)
      \<and> config ''Quiet'' = Some (VBoolean False)
      \<and> config ''Label'' = Some (VString ''x'')
      \<and> config ''API_Key'' = None
      \<and> config ''__proto__'' = None
      \<and> config ''DebugMode'' = Some (VBoolean False)"
    by blast
  with second b1 b2 i1 i2 i3 i4 s1 show ?thesis by blast
qed

subsection \<open>The result of a synchronous plugin\<close>

lemma run_append:
  "run parse a nm (xs @ ys) ex = run parse a nm ys (run parse a nm xs ex)"
  by (induction xs arbitrary: ex) simp_all

lemma sync_data_handle:
  "\<not> processExited ex \<Longrightarrow> isData e \<Longrightarrow>
     handle parse False nm e ex
       = ex\<lparr>outputBuffer := outputBuffer ex @ stdoutOf [e],
            errorOutput := errorOutput ex @ stderrOf [e]\<rparr>"
  by (cases e)
     (auto simp: onStdoutData_def onStderrData_def Let_def split: option.splits)

lemma stdoutOf_Cons: "stdoutOf (e # es) = stdoutOf [e] @ stdoutOf es"
  by (cases e) simp_all

lemma stderrOf_Cons: "stderrOf (e # es) = stderrOf [e] @ stderrOf es"
  by (cases e) simp_all

lemma sync_data_run:
  "\<not> processExited ex \<Longrightarrow> \<forall>e\<in>set es. isData e \<Longrightarrow>
     run parse False nm es ex
       = ex\<lparr>outputBuffer := outputBuffer ex @ stdoutOf es,
            errorOutput := errorOutput ex @ stderrOf es\<rparr>"
proof (induction es arbitrary: ex)
  case Nil
  then show ?case by simp
next
  case (Cons e es)
  have h: "handle parse False nm e ex
       = ex\<lparr>outputBuffer := outputBuffer ex @ stdoutOf [e],
            errorOutput := errorOutput ex @ stderrOf [e]\<rparr>"
    using Cons.prems by (simp add: sync_data_handle)
  have "run parse False nm es (handle parse False nm e ex)
       = (handle parse False nm e ex)
           \<lparr>outputBuffer := outputBuffer (handle parse False nm e ex) @ stdoutOf es,
            errorOutput := errorOutput (handle parse False nm e ex) @ stderrOf es\<rparr>"
    using Cons.prems by (intro Cons.IH) (simp_all add: h)
  then show ?case
    by (simp add: h stdoutOf_Cons [of e es] stderrOf_Cons [of e es])
qed

lemma sync_exit_settlements:
  assumes "\<forall>e\<in>set es. isData e" and "signal \<noteq> Some ''SIGKILL''"
  shows "settlements (run parse False nm (es @ [Exit exitCode signal]) spawned)
     = (case statusJson parse (trim (stdoutOf es)) of
          Some parsedOutput \<Rightarrow> [Resolve (attachStderr (stderrOf es) parsedOutput)]
        | None \<Rightarrow> [Reject (exitMessage nm exitCode (stdoutOf es) (stderrOf es))])"
proof -
  have "run parse False nm es spawned
          = spawned\<lparr>outputBuffer := stdoutOf es, errorOutput := stderrOf es\<rparr>"
    using sync_data_run [of spawned es parse nm] assms(1) by (simp add: spawned_def)
  then show ?thesis
    using assms(2)
    by (simp add: run_append onExit_def Let_def spawned_def statusJson_def attachStderr_def
        reject_def resolve_def split: option.splits)
qed

lemma acked_handle:
  "initialResponseSent ex \<Longrightarrow>
     initialResponseSent (handle parse True nm e ex)
     \<and> settlements (handle parse True nm e ex) = settlements ex
     \<and> outputBuffer (handle parse True nm e ex) = outputBuffer ex
     \<and> killed (handle parse True nm e ex) = killed ex"
  by (cases e)
     (auto simp: onStdoutData_def onStderrData_def onError_def onExit_def onTimeout_def Let_def)

lemma acked_run:
  "initialResponseSent ex \<Longrightarrow>
     initialResponseSent (run parse True nm es ex)
     \<and> settlements (run parse True nm es ex) = settlements ex
     \<and> outputBuffer (run parse True nm es ex) = outputBuffer ex
     \<and> killed (run parse True nm es ex) = killed ex"
proof (induction es arbitrary: ex)
  case Nil
  then show ?case by simp
next
  case (Cons e es)
  from acked_handle [OF Cons.prems, of parse nm e]
  show ?case using Cons.IH [of "handle parse True nm e ex"] by simp
qed

lemma async_data_handle:
  "\<not> processExited ex \<Longrightarrow> \<not> initialResponseSent ex \<Longrightarrow>
     handle parse True nm (StdoutData chunk) ex
       = (case ackOf parse (outputBuffer ex @ chunk) of
            None \<Rightarrow> ex\<lparr>outputBuffer := outputBuffer ex @ chunk\<rparr>
          | Some parsedOutput \<Rightarrow>
              ex\<lparr>outputBuffer := outputBuffer ex @ chunk, initialResponseSent := True,
                 settlements := settlements ex @ [Resolve parsedOutput]\<rparr>)"
  by (auto simp: onStdoutData_def ackOf_def statusJson_def resolve_def Let_def
      split: option.splits)

lemmas exec_defs =
  spawned_def onStdoutData_def onStderrData_def onError_def onExit_def onTimeout_def
  potentialJsonMatch_def sampleParse_def okText_def okJson_def nestedText_def nestedJson_def
  queuedText_def queuedJson_def failedText_def failedJson_def newline_def
  hasStatus_def field_def setField_def reject_def resolve_def trim_def isWhiteSpace_def
  exitMessage_def showCode_def dq_def Let_def statusJson_def ackOf_def attachStderr_def char_of_eq_iff

text \<open>
  C7, as stated, fails. A synchronous plugin writes \<^verbatim>\<open>oops\<close> to stdout and \<^verbatim>\<open>boom\<close> to
  stderr and exits with code 0. The call is rejected with a message that carries the
  stdout text only; it is the message of the same run without any stderr output.
\<close>

theorem exit_zero_rejection_counterexample:
  "settlements (run sampleParse False ''P''
       [StdoutData ''oops'', StderrData ''boom'', Exit (Some 0) None] spawned)
     = [Reject (''Plugin '' @ dq @ ''P'' @ dq
          @ '' exited successfully but did not provide a valid initial JSON response. Stdout: oops'')]
   \<and> settlements (run sampleParse False ''P''
         [StdoutData ''oops'', StderrData ''boom'', Exit (Some 0) None] spawned)
     = settlements (run sampleParse False ''P'' [StdoutData ''oops'', Exit (Some 0) None] spawned)"
  by (simp add: exec_defs)

text \<open>
  C7, amended. For a synchronous plugin whose process writes its output and then exits
  (not killed by \<^verbatim>\<open>SIGKILL\<close>), the result is determined by parsing the trimmed, fully
  accumulated stdout at exit. If it parses to an object whose status is \<^verbatim>\<open>success\<close> or
  \<^verbatim>\<open>error\<close>, the call resolves with that object (with the trimmed stderr attached as
  \<^verbatim>\<open>pluginStderr\<close> when it is not empty), whatever the exit code. Otherwise the call is
  rejected: for exit code 0 with a message that carries the first 200 characters of stdout
  and no stderr; for any other exit code with a message that carries the code and the first
  200 characters of stdout and of stderr, each when not empty.
\<close>

theorem sync_result_at_exit:
  "(\<forall>e\<in>set es. isData e) \<and> signal \<noteq> Some ''SIGKILL'' \<longrightarrow>
     (statusJson parse (trim (stdoutOf es)) = Some parsedOutput \<longrightarrow>
        settlements (run parse False nm (es @ [Exit exitCode signal]) spawned)
          = [Resolve (if trim (stderrOf es) \<noteq> []
                      then setField ''pluginStderr'' (JString (trim (stderrOf es))) parsedOutput
                      else parsedOutput)])
   \<and> (statusJson parse (trim (stdoutOf es)) = None \<and> exitCode = Some 0 \<longrightarrow>
        settlements (run parse False nm (es @ [Exit exitCode signal]) spawned)
          = [Reject (''Plugin '' @ dq @ nm @ dq
               @ '' exited successfully but did not provide a valid initial JSON response. Stdout: ''
               @ take 200 (trim (stdoutOf es)))])
   \<and> (statusJson parse (trim (stdoutOf es)) = None \<and> exitCode \<noteq> Some 0 \<longrightarrow>
        settlements (run parse False nm (es @ [Exit exitCode signal]) spawned)
          = [Reject (''Plugin '' @ dq @ nm @ dq @ '' exited with code '' @ showCode exitCode @ ''.''
               @ (if trim (stdoutOf es) \<noteq> []
                  then '' Stdout: '' @ take 200 (trim (stdoutOf es)) else [])
               @ (if trim (stderrOf es) \<noteq> []
                  then '' Stderr: '' @ take 200 (trim (stderrOf es)) else []))])"
proof (intro impI)
  assume "(\<forall>e\<in>set es. isData e) \<and> signal \<noteq> Some ''SIGKILL''"
  then have s: "settlements (run parse False nm (es @ [Exit exitCode signal]) spawned)
     = (case statusJson parse (trim (stdoutOf es)) of
          Some parsedOutput \<Rightarrow> [Resolve (attachStderr (stderrOf es) parsedOutput)]
        | None \<Rightarrow> [Reject (exitMessage nm exitCode (stdoutOf es) (stderrOf es))])"
    by (simp add: sync_exit_settlements)
  show "(statusJson parse (trim (stdoutOf es)) = Some parsedOutput \<longrightarrow>
        settlements (run parse False nm (es @ [Exit exitCode signal]) spawned)
          = [Resolve (if trim (stderrOf es) \<noteq> []
                      then setField ''pluginStderr'' (JString (trim (stderrOf es))) parsedOutput
                      else parsedOutput)])
   \<and> (statusJson parse (trim (stdoutOf es)) = None \<and> exitCode = Some 0 \<longrightarrow>
        settlements (run parse False nm (es @ [Exit exitCode signal]) spawned)
          = [Reject (''Plugin '' @ dq @ nm @ dq
               @ '' exited successfully but did not provide a valid initial JSON response. Stdout: ''
               @ take 200 (trim (stdoutOf es)))])
   \<and> (statusJson parse (trim (stdoutOf es)) = None \<and> exitCode \<noteq> Some 0 \<longrightarrow>
        settlements (run parse False nm (es @ [Exit exitCode signal]) spawned)
          = [Reject (''Plugin '' @ dq @ nm @ dq @ '' exited with code '' @ showCode exitCode @ ''.''
               @ (if trim (stdoutOf es) \<noteq> []
                  then '' Stdout: '' @ take 200 (trim (stdoutOf es)) else [])
               @ (if trim (stderrOf es) \<noteq> []
                  then '' Stderr: '' @ take 200 (trim (stderrOf es)) else []))])"
    unfolding s by (simp add: attachStderr_def exitMessage_def)
qed

theorem sync_result_at_exit_witness:
  "statusJson sampleParse (trim (stdoutOf [StdoutData okText, StderrData ''warn''])) = Some okJson
   \<and> settlements (run sampleParse False ''P''
        ([StdoutData okText, StderrData ''warn''] @ [Exit (Some 3) None]) spawned)
      = [Resolve (JObject [(''status'', JString ''success''), (''result'', JNumber 42),
                           (''pluginStderr'', JString ''warn'')])]
   \<and> statusJson sampleParse (trim (stdoutOf [StdoutData ''oops'', StderrData ''boom''])) = None
   \<and> settlements (run sampleParse False ''P''
        ([StdoutData ''oops'', StderrData ''boom''] @ [Exit (Some 0) None]) spawned)
      = [Reject (''Plugin '' @ dq @ ''P'' @ dq
           @ '' exited successfully but did not provide a valid initial JSON response. Stdout: oops'')]
   \<and> settlements (run sampleParse False ''P''
        ([StdoutData ''oops'', StderrData ''boom''] @ [Exit (Some 3) None]) spawned)
      = [Reject (''Plugin '' @ dq @ ''P'' @ dq @ '' exited with code 3. Stdout: oops Stderr: boom'')]"
proof -
  have d1: "\<forall>e\<in>set [StdoutData okText, StderrData ''warn'']. isData e"
    and d2: "\<forall>e\<in>set [StdoutData ''oops'', StderrData ''boom'']. isData e"
    by simp_all
  have sg: "(None :: string option) \<noteq> Some ''SIGKILL''" by simp
  have p1: "statusJson sampleParse (trim (stdoutOf [StdoutData okText, StderrData ''warn'']))
              = Some okJson"
    and p2: "statusJson sampleParse (trim (stdoutOf [StdoutData ''oops'', StderrData ''boom'']))
              = None"
    by (simp_all add: exec_defs)
  have e1: "trim (stderrOf [StdoutData okText, StderrData ''warn'']) = ''warn''"
    and e2: "trim (stderrOf [StdoutData ''oops'', StderrData ''boom'']) = ''boom''"
    and o2: "trim (stdoutOf [StdoutData ''oops'', StderrData ''boom'']) = ''oops''"
    by (simp_all add: trim_def isWhiteSpace_def)
  have c1: "settlements (run sampleParse False ''P''
        ([StdoutData okText, StderrData ''warn''] @ [Exit (Some 3) None]) spawned)
      = [Resolve (JObject [(''status'', JString ''success''), (''result'', JNumber 42),
                           (''pluginStderr'', JString ''warn'')])]"
    using sync_result_at_exit
            [where es = "[StdoutData okText, StderrData ''warn'']" and signal = None
               and parse = sampleParse and parsedOutput = okJson and nm = "''P''"
               and exitCode = "Some 3", THEN mp, THEN conjunct1]
      d1 sg p1 e1 by (simp add: okJson_def setField_def)
  have c2: "settlements (run sampleParse False ''P''
        ([StdoutData ''oops'', StderrData ''boom''] @ [Exit (Some 0) None]) spawned)
      = [Reject (''Plugin '' @ dq @ ''P'' @ dq
           @ '' exited successfully but did not provide a valid initial JSON response. Stdout: oops'')]"
    using sync_result_at_exit
            [where es = "[StdoutData ''oops'', StderrData ''boom'']" and signal = None
               and parse = sampleParse and nm = "''P''" and exitCode = "Some 0",
             THEN mp, THEN conjunct2, THEN conjunct1]
      d2 sg p2 o2 by simp
  have c3: "settlements (run sampleParse False ''P''
        ([StdoutData ''oops'', StderrData ''boom''] @ [Exit (Some 3) None]) spawned)
      = [Reject (''Plugin '' @ dq @ ''P'' @ dq @ '' exited with code 3. Stdout: oops Stderr: boom'')]"
    using sync_result_at_exit
            [where es = "[StdoutData ''oops'', StderrData ''boom'']" and signal = None
               and parse = sampleParse and nm = "''P''" and exitCode = "Some 3",
             THEN mp, THEN conjunct2, THEN conjunct2]
      d2 sg p2 o2 e2 by (simp add: showCode_def char_of_eq_iff)
  show ?thesis
    using p1 p2 c1 c2 c3 by simp
qed

subsection \<open>The acknowledgement of an asynchronous plugin\<close>

text \<open>
  C5, as stated, fails. An asynchronous plugin writes a complete JSON object with a nested
  object, a space before the last brace and a newline. \<^verbatim>\<open>JSON.parse\<close> reads the text as an
  object with status \<^verbatim>\<open>success\<close>, but the stdout handler does not resolve the call: the
  pattern stops at the first closing brace that white space follows, and that prefix does
  not parse. If the process then exits, the call resolves only at the exit; if the timer
  fires first, the call is rejected and never resolved.
\<close>

theorem async_ack_first_object_counterexample:
  "statusJson sampleParse (trim (nestedText @ newline)) = Some nestedJson
   \<and> settlements (run sampleParse True ''R'' [StdoutData (nestedText @ newline)] spawned) = []
   \<and> settlements (run sampleParse True ''R''
        [StdoutData (nestedText @ newline), Exit (Some 0) None] spawned)
      = [Resolve nestedJson]
   \<and> settlements (run sampleParse True ''R''
        [StdoutData (nestedText @ newline), TimeoutFires, Exit None (Some ''SIGKILL'')] spawned)
      = [Reject (''Plugin '' @ dq @ ''R'' @ dq @ '' initial response timed out.''),
         Reject (''Plugin '' @ dq @ ''R'' @ dq @ '' execution timed out or was killed.'')]"
  by (simp add: exec_defs)

text \<open>
  C5, amended. For an asynchronous plugin the stdout handler resolves the call at the first
  stdout chunk after which the text from the first opening brace of the accumulated
  buffer to the first closing brace that is followed by white space or by the end of the
  buffer parses to an object with status \<^verbatim>\<open>success\<close> or \<^verbatim>\<open>error\<close>; a chunk without such a
  text settles nothing. Once the call is resolved in this way, no later event (stdout
  bytes, further JSON objects, stderr, the timer, an error or the exit of the process)
  calls \<^verbatim>\<open>resolve\<close> or \<^verbatim>\<open>reject\<close> again.
\<close>

theorem async_ack_once:
  "(initialResponseSent ex \<longrightarrow>
      settlements (run parse True nm es ex) = settlements ex)
   \<and> (\<not> processExited ex \<and> \<not> initialResponseSent ex
       \<and> ackOf parse (outputBuffer ex @ chunk) = None \<longrightarrow>
      settlements (handle parse True nm (StdoutData chunk) ex) = settlements ex)
   \<and> (\<not> processExited (run parse True nm before spawned)
       \<and> \<not> initialResponseSent (run parse True nm before spawned)
       \<and> settlements (run parse True nm before spawned) = []
       \<and> ackOf parse (outputBuffer (run parse True nm before spawned) @ chunk)
           = Some parsedOutput \<longrightarrow>
      settlements (run parse True nm (before @ StdoutData chunk # after) spawned)
        = [Resolve parsedOutput])"
proof (intro conjI impI)
  assume "initialResponseSent ex"
  then show "settlements (run parse True nm es ex) = settlements ex"
    by (simp add: acked_run)
next
  assume "\<not> processExited ex \<and> \<not> initialResponseSent ex
       \<and> ackOf parse (outputBuffer ex @ chunk) = None"
  then show "settlements (handle parse True nm (StdoutData chunk) ex) = settlements ex"
    using async_data_handle [of ex parse nm chunk] by simp
next
  let ?ex = "run parse True nm before spawned"
  assume a: "\<not> processExited ?ex \<and> \<not> initialResponseSent ?ex \<and> settlements ?ex = []
       \<and> ackOf parse (outputBuffer ?ex @ chunk) = Some parsedOutput"
  then have h: "handle parse True nm (StdoutData chunk) ?ex
       = ?ex\<lparr>outputBuffer := outputBuffer ?ex @ chunk, initialResponseSent := True,
              settlements := [Resolve parsedOutput]\<rparr>"
    using async_data_handle [of ?ex parse nm chunk] by simp
  have i: "initialResponseSent (handle parse True nm (StdoutData chunk) ?ex)"
    unfolding h by simp
  have r: "run parse True nm (before @ StdoutData chunk # after) spawned
             = run parse True nm after (handle parse True nm (StdoutData chunk) ?ex)"
    unfolding run_append by (simp only: run.simps)
  from acked_run [OF i, of parse nm after]
  have "settlements (run parse True nm after (handle parse True nm (StdoutData chunk) ?ex))
          = settlements (handle parse True nm (StdoutData chunk) ?ex)"
    by simp
  then show "settlements (run parse True nm (before @ StdoutData chunk # after) spawned)
        = [Resolve parsedOutput]"
    unfolding r h by simp
qed

theorem async_ack_once_witness:
  "ackOf sampleParse
       (outputBuffer (run sampleParse True ''R''
                        [StderrData ''warn'', StdoutData ''{\"status\":''] spawned)
        @ ''\"success\",\"result\":\"queued\"}'' @ newline)
     = Some queuedJson
   \<and> settlements (run sampleParse True ''R''
        ([StderrData ''warn'', StdoutData ''{\"status\":'']
         @ StdoutData (''\"success\",\"result\":\"queued\"}'' @ newline)
         # [StdoutData (failedText @ newline), TimeoutFires, Exit (Some 1) None]) spawned)
      = [Resolve queuedJson]
   \<and> ackOf sampleParse (outputBuffer spawned @ ''{\"status\":'') = None
   \<and> settlements (handle sampleParse True ''R'' (StdoutData ''{\"status\":'') spawned)
      = settlements spawned
   \<and> initialResponseSent (spawned\<lparr>initialResponseSent := True\<rparr>)
   \<and> settlements (run sampleParse True ''R'' [StdoutData (failedText @ newline), Exit (Some 1) None]
        (spawned\<lparr>initialResponseSent := True\<rparr>))
      = settlements (spawned\<lparr>initialResponseSent := True\<rparr>)"
proof -
  let ?before = "[StderrData ''warn'', StdoutData ''{\"status\":'']"
  let ?chunk = "''\"success\",\"result\":\"queued\"}'' @ newline"
  let ?after = "[StdoutData (failedText @ newline), TimeoutFires, Exit (Some 1) None]"
  have b: "run sampleParse True ''R'' ?before spawned
             = spawned\<lparr>outputBuffer := ''{\"status\":'', errorOutput := ''warn''\<rparr>"
    by (simp add: exec_defs)
  have b1: "\<not> processExited (run sampleParse True ''R'' ?before spawned)"
    and b2: "\<not> initialResponseSent (run sampleParse True ''R'' ?before spawned)"
    and b3: "settlements (run sampleParse True ''R'' ?before spawned) = []"
    unfolding b by (simp_all add: spawned_def)
  have a1: "ackOf sampleParse (outputBuffer (run sampleParse True ''R'' ?before spawned) @ ?chunk)
              = Some queuedJson"
    unfolding b by (simp add: exec_defs)
  have a2: "ackOf sampleParse (outputBuffer spawned @ ''{\"status\":'') = None"
    by (simp add: exec_defs)
  have s1: "\<not> processExited spawned" and s2: "\<not> initialResponseSent spawned"
    by (simp_all add: spawned_def)
  have c1: "settlements (run sampleParse True ''R'' (?before @ StdoutData ?chunk # ?after) spawned)
      = [Resolve queuedJson]"
    using async_ack_once
            [where parse = sampleParse and nm = "''R''" and before = ?before
               and chunk = ?chunk and parsedOutput = queuedJson and after = ?after,
             THEN conjunct2, THEN conjunct2]
      b1 b2 b3 a1 by simp
  have c2: "settlements (handle sampleParse True ''R'' (StdoutData ''{\"status\":'') spawned)
      = settlements spawned"
    using async_ack_once
            [where parse = sampleParse and nm = "''R''" and ex = spawned
               and chunk = "''{\"status\":''", THEN conjunct2, THEN conjunct1]
      s1 s2 a2 by simp
  have c3: "settlements (run sampleParse True ''R''
        [StdoutData (failedText @ newline), Exit (Some 1) None]
        (spawned\<lparr>initialResponseSent := True\<rparr>))
      = settlements (spawned\<lparr>initialResponseSent := True\<rparr>)"
    using async_ack_once
            [where parse = sampleParse and nm = "''R''"
               and ex = "spawned\<lparr>initialResponseSent := True\<rparr>"
               and es = "[StdoutData (failedText @ newline), Exit (Some 1) None]",
             THEN conjunct1]
    by simp
  show ?thesis
    using a1 a2 c1 c2 c3 by simp
qed

subsection \<open>The retry after a missing local file\<close>

lemma replaceFirst_prefix: "pat \<noteq> [] \<Longrightarrow> replaceFirst pat rep (pat @ n) = rep @ n"
  by (cases pat) simp_all

lemma stdio_not_direct: "isStdioPlugin plugin \<Longrightarrow> \<not> isDirect plugin"
  by (auto simp: isStdioPlugin_def isDirect_def split: option.splits)

lemma stdio_not_hybrid: "isStdioPlugin plugin \<Longrightarrow> pluginType plugin \<noteq> ''hybridservice''"
  by (auto simp: isStdioPlugin_def)

lemma local_stdio_call:
  assumes "plugins st toolName = Some plugin" "\<not> isDistributed plugin" "isStdioPlugin plugin"
    "executePluginX w trace toolName (executionParamOf toolArgs) requestIp = Inr pluginOutput"
  shows "processToolCall w st trace toolName toolArgs requestIp =
     (if status pluginOutput = ''success'' then
        Some (finish w (maidOf toolArgs)
          (trace @ [ExecutePlugin toolName (executionParamOf toolArgs) requestIp],
           Inr (parseResult w pluginOutput)))
      else if fileNotFoundLocally pluginOutput requestIp then
        (case fetchFileX w
                (trace @ [ExecutePlugin toolName (executionParamOf toolArgs) requestIp])
                (the (fileUrl pluginOutput)) (the requestIp) of
           Inl msg \<Rightarrow>
             Some (finish w (maidOf toolArgs)
               (trace @ [ExecutePlugin toolName (executionParamOf toolArgs) requestIp,
                         FetchFile (the (fileUrl pluginOutput)) (the requestIp)],
                Inl (fetchFailed msg pluginOutput)))
         | Inr fetched \<Rightarrow>
             Option.bind
               (processToolCall w st
                  (trace @ [ExecutePlugin toolName (executionParamOf toolArgs) requestIp,
                            FetchFile (the (fileUrl pluginOutput)) (the requestIp)])
                  toolName
                  (retryArgs pluginOutput toolArgs (dataUriOf (snd fetched) (fst fetched)))
                  requestIp)
               (\<lambda>r. Some (afterRetry w (maidOf toolArgs) pluginOutput r)))
      else
        Some (finish w (maidOf toolArgs)
          (trace @ [ExecutePlugin toolName (executionParamOf toolArgs) requestIp],
           Inl (pluginError toolName pluginOutput))))"
  using assms stdio_not_direct [OF assms(3)] stdio_not_hybrid [OF assms(3)]
  by (subst processToolCall.simps) simp

lemmas dispatch_defs =
  imageTool_def imageManager_def fileMissing_def imageDone_def decodeFailed_def
  sampleTimestamp_def decodeFailedText_def sampleStringify_def imageWorld_def brokenWorld_def
  twoImages_def oneImage_def newManager_def basicManifest_def
  finish_def finishResult_def finishError_def maidOf_def jsTruthy_def isStdioPlugin_def isDirect_def
  executionParamOf_def fileNotFoundLocally_def truthy_def retryArgs_def dataUriOf_def
  afterRetry_def fetchFailed_def errorText_def parseResult_def pluginError_def
  setField_def field_def AList.delete_eq Let_def

text \<open>
  C4, as stated, fails. The plugin is called with two file parameters and a request origin.
  The first call reports \<^verbatim>\<open>image_url_1\<close> as missing; the retry, in which
  \<^verbatim>\<open>image_base64_1\<close> has taken its place, reports \<^verbatim>\<open>image_url_2\<close> as missing and is
  retried in turn. The dispatcher runs the plugin three times and fetches two files.
\<close>

theorem retry_exactly_once_counterexample:
  "processToolCall imageWorld imageManager [] ''ImageTool'' twoImages (Some ''10.0.0.2'')
     = Some ([ExecutePlugin ''ImageTool'' (Some twoImages) (Some ''10.0.0.2''),
              FetchFile ''file:///a.png'' ''10.0.0.2'',
              ExecutePlugin ''ImageTool''
                (Some [(''image_url_2'', JString ''file:///b.png''),
                       (''image_base64_1'', JString ''data:image/png;base64,QUJD'')])
                (Some ''10.0.0.2''),
              FetchFile ''file:///b.png'' ''10.0.0.2'',
              ExecutePlugin ''ImageTool''
                (Some [(''image_base64_1'', JString ''data:image/png;base64,QUJD''),
                       (''image_base64_2'', JString ''data:image/png;base64,QUJD'')])
                (Some ''10.0.0.2'')],
             Inr (JObject [(''ok'', JBool True), (''timestamp'', JString sampleTimestamp)]))"
  by (simp add: processToolCall.simps dispatch_defs)

text \<open>
  C4, amended. For a local stdio tool call whose plugin output has a status other than
  \<^verbatim>\<open>success\<close>, the code \<^verbatim>\<open>FILE_NOT_FOUND_LOCALLY\<close> and a non-empty \<^verbatim>\<open>fileUrl\<close>, with a
  request origin present, the dispatcher fetches the file once. If the fetch fails, the
  call fails with the structured error that holds the message of the fetch error in
  \<^verbatim>\<open>plugin_error\<close> and the plugin's error in \<^verbatim>\<open>original_plugin_error\<close>. If the fetch
  succeeds, the dispatcher calls \<^verbatim>\<open>processToolCall\<close> again with the new input: when
  \<^verbatim>\<open>failedParameter\<close> is \<^verbatim>\<open>image_url_N\<close> and the input holds a value under it, that
  parameter is removed and \<^verbatim>\<open>image_base64_N\<close> holds the data URI. The retry is a full
  dispatcher call (so it may fetch and retry again): its result is returned as it is, and
  its failure is wrapped in the same structured error, with the message of the failure in
  \<^verbatim>\<open>plugin_error\<close> and the first plugin error in \<^verbatim>\<open>original_plugin_error\<close>.
\<close>

theorem file_fallback_retry:
  "plugins st toolName = Some plugin \<and> \<not> isDistributed plugin \<and> isStdioPlugin plugin
   \<and> executePluginX w trace toolName (executionParamOf toolArgs) requestIp = Inr pluginOutput
   \<and> status pluginOutput \<noteq> ''success''
   \<and> code pluginOutput = Some ''FILE_NOT_FOUND_LOCALLY''
   \<and> fileUrl pluginOutput = Some url \<and> url \<noteq> [] \<and> requestIp = Some ip \<and> ip \<noteq> []
   \<longrightarrow>
     (fetchFileX w (trace @ [ExecutePlugin toolName (executionParamOf toolArgs) requestIp]) url ip
        = Inl msg \<longrightarrow>
      processToolCall w st trace toolName toolArgs requestIp
        = Some (trace @ [ExecutePlugin toolName (executionParamOf toolArgs) requestIp,
                         FetchFile url ip],
                Inl (finishError w (maidOf toolArgs)
                  (JsonError (JObject
                    ((''plugin_error'',
                      JString (''Plugin reported local file not found, but remote fetch failed: ''
                               @ msg))
                     # (case error pluginOutput of
                          None \<Rightarrow> []
                        | Some e \<Rightarrow> [(''original_plugin_error'', e)])))))))
   \<and> (fetchFileX w (trace @ [ExecutePlugin toolName (executionParamOf toolArgs) requestIp]) url ip
        = Inr (base64Data, mimeType) \<longrightarrow>
      processToolCall w st trace toolName toolArgs requestIp
        = Option.bind
            (processToolCall w st
               (trace @ [ExecutePlugin toolName (executionParamOf toolArgs) requestIp,
                         FetchFile url ip])
               toolName
               (retryArgs pluginOutput toolArgs (''data:'' @ mimeType @ '';base64,'' @ base64Data))
               requestIp)
            (\<lambda>r. Some (afterRetry w (maidOf toolArgs) pluginOutput r)))
   \<and> (failedParameter pluginOutput = Some (''image_url_'' @ n)
       \<and> jsTruthy (map_of toolArgs (''image_url_'' @ n)) \<longrightarrow>
      retryArgs pluginOutput toolArgs dataUri
        = AList.update (''image_base64_'' @ n) (JString dataUri)
            (AList.delete (''image_url_'' @ n) toolArgs))
   \<and> afterRetry w (maidOf toolArgs) pluginOutput (tr, Inr v) = (tr, Inr v)
   \<and> afterRetry w (maidOf toolArgs) pluginOutput (tr, Inl e)
       = (tr, Inl (finishError w (maidOf toolArgs)
            (JsonError (JObject
              ((''plugin_error'',
                JString (''Plugin reported local file not found, but remote fetch failed: ''
                         @ errorText w e))
               # (case error pluginOutput of
                    None \<Rightarrow> []
                  | Some e \<Rightarrow> [(''original_plugin_error'', e)]))))))"
proof (intro impI)
  assume a: "plugins st toolName = Some plugin \<and> \<not> isDistributed plugin \<and> isStdioPlugin plugin
   \<and> executePluginX w trace toolName (executionParamOf toolArgs) requestIp = Inr pluginOutput
   \<and> status pluginOutput \<noteq> ''success''
   \<and> code pluginOutput = Some ''FILE_NOT_FOUND_LOCALLY''
   \<and> fileUrl pluginOutput = Some url \<and> url \<noteq> [] \<and> requestIp = Some ip \<and> ip \<noteq> []"
  then have fnf: "fileNotFoundLocally pluginOutput requestIp"
    by (auto simp: fileNotFoundLocally_def truthy_def)
  have call: "processToolCall w st trace toolName toolArgs requestIp =
        (case fetchFileX w
                (trace @ [ExecutePlugin toolName (executionParamOf toolArgs) requestIp])
                (the (fileUrl pluginOutput)) (the requestIp) of
           Inl msg \<Rightarrow>
             Some (finish w (maidOf toolArgs)
               (trace @ [ExecutePlugin toolName (executionParamOf toolArgs) requestIp,
                         FetchFile (the (fileUrl pluginOutput)) (the requestIp)],
                Inl (fetchFailed msg pluginOutput)))
         | Inr fetched \<Rightarrow>
             Option.bind
               (processToolCall w st
                  (trace @ [ExecutePlugin toolName (executionParamOf toolArgs) requestIp,
                            FetchFile (the (fileUrl pluginOutput)) (the requestIp)])
                  toolName
                  (retryArgs pluginOutput toolArgs (dataUriOf (snd fetched) (fst fetched)))
                  requestIp)
               (\<lambda>r. Some (afterRetry w (maidOf toolArgs) pluginOutput r)))"
  proof -
    from a have s: "(status pluginOutput = ''success'') = False" by blast
    from fnf have f: "fileNotFoundLocally pluginOutput requestIp = True" by simp
    have full: "plugins st toolName = Some plugin" "\<not> isDistributed plugin"
      "isStdioPlugin plugin"
      "executePluginX w trace toolName (executionParamOf toolArgs) requestIp = Inr pluginOutput"
      using a by blast+
    show ?thesis
      unfolding local_stdio_call [OF full] s f if_False if_True by (rule refl)
  qed
  from a have "fileUrl pluginOutput = Some url" and "requestIp = Some ip" by blast+
  then have u: "the (fileUrl pluginOutput) = url" and i: "the requestIp = ip" by simp_all
  have 1: "fetchFileX w (trace @ [ExecutePlugin toolName (executionParamOf toolArgs) requestIp]) url ip
        = Inl msg \<longrightarrow>
      processToolCall w st trace toolName toolArgs requestIp
        = Some (trace @ [ExecutePlugin toolName (executionParamOf toolArgs) requestIp,
                         FetchFile url ip],
                Inl (finishError w (maidOf toolArgs)
                  (JsonError (JObject
                    ((''plugin_error'',
                      JString (''Plugin reported local file not found, but remote fetch failed: ''
                               @ msg))
                     # (case error pluginOutput of
                          None \<Rightarrow> []
                        | Some e \<Rightarrow> [(''original_plugin_error'', e)]))))))"
  proof
    assume "fetchFileX w (trace @ [ExecutePlugin toolName (executionParamOf toolArgs) requestIp])
              url ip = Inl msg"
    then show "processToolCall w st trace toolName toolArgs requestIp
        = Some (trace @ [ExecutePlugin toolName (executionParamOf toolArgs) requestIp,
                         FetchFile url ip],
                Inl (finishError w (maidOf toolArgs)
                  (JsonError (JObject
                    ((''plugin_error'',
                      JString (''Plugin reported local file not found, but remote fetch failed: ''
                               @ msg))
                     # (case error pluginOutput of
                          None \<Rightarrow> []
                        | Some e \<Rightarrow> [(''original_plugin_error'', e)]))))))"
      unfolding call u i by (simp add: finish_def fetchFailed_def)
  qed
  have 2: "fetchFileX w (trace @ [ExecutePlugin toolName (executionParamOf toolArgs) requestIp]) url ip
        = Inr (base64Data, mimeType) \<longrightarrow>
      processToolCall w st trace toolName toolArgs requestIp
        = Option.bind
            (processToolCall w st
               (trace @ [ExecutePlugin toolName (executionParamOf toolArgs) requestIp,
                         FetchFile url ip])
               toolName
               (retryArgs pluginOutput toolArgs (''data:'' @ mimeType @ '';base64,'' @ base64Data))
               requestIp)
            (\<lambda>r. Some (afterRetry w (maidOf toolArgs) pluginOutput r))"
  proof
    assume f: "fetchFileX w (trace @ [ExecutePlugin toolName (executionParamOf toolArgs) requestIp])
              url ip = Inr (base64Data, mimeType)"
    show "processToolCall w st trace toolName toolArgs requestIp
        = Option.bind
            (processToolCall w st
               (trace @ [ExecutePlugin toolName (executionParamOf toolArgs) requestIp,
                         FetchFile url ip])
               toolName
               (retryArgs pluginOutput toolArgs (''data:'' @ mimeType @ '';base64,'' @ base64Data))
               requestIp)
            (\<lambda>r. Some (afterRetry w (maidOf toolArgs) pluginOutput r))"
      by (subst call) (simp add: u i f dataUriOf_def)
  qed
  have 3: "failedParameter pluginOutput = Some (''image_url_'' @ n)
       \<and> jsTruthy (map_of toolArgs (''image_url_'' @ n)) \<longrightarrow>
      retryArgs pluginOutput toolArgs dataUri
        = AList.update (''image_base64_'' @ n) (JString dataUri)
            (AList.delete (''image_url_'' @ n) toolArgs)"
    using replaceFirst_prefix [of "''image_url_''" "[]" n]
    by (simp add: retryArgs_def truthy_def Let_def)
  have 4: "afterRetry w (maidOf toolArgs) pluginOutput (tr, Inr v) = (tr, Inr v)"
    by (simp add: afterRetry_def)
  have 5: "afterRetry w (maidOf toolArgs) pluginOutput (tr, Inl e)
       = (tr, Inl (finishError w (maidOf toolArgs)
            (JsonError (JObject
              ((''plugin_error'',
                JString (''Plugin reported local file not found, but remote fetch failed: ''
                         @ errorText w e))
               # (case error pluginOutput of
                    None \<Rightarrow> []
                  | Some e \<Rightarrow> [(''original_plugin_error'', e)]))))))"
    by (simp add: afterRetry_def finish_def fetchFailed_def)
  from 1 2 3 4 5 show "(fetchFileX w (trace @ [ExecutePlugin toolName (executionParamOf toolArgs) requestIp]) url ip
        = Inl msg \<longrightarrow>
      processToolCall w st trace toolName toolArgs requestIp
        = Some (trace @ [ExecutePlugin toolName (executionParamOf toolArgs) requestIp,
                         FetchFile url ip],
                Inl (finishError w (maidOf toolArgs)
                  (JsonError (JObject
                    ((''plugin_error'',
                      JString (''Plugin reported local file not found, but remote fetch failed: ''
                               @ msg))
                     # (case error pluginOutput of
                          None \<Rightarrow> []
                        | Some e \<Rightarrow> [(''original_plugin_error'', e)])))))))
   \<and> (fetchFileX w (trace @ [ExecutePlugin toolName (executionParamOf toolArgs) requestIp]) url ip
        = Inr (base64Data, mimeType) \<longrightarrow>
      processToolCall w st trace toolName toolArgs requestIp
        = Option.bind
            (processToolCall w st
               (trace @ [ExecutePlugin toolName (executionParamOf toolArgs) requestIp,
                         FetchFile url ip])
               toolName
               (retryArgs pluginOutput toolArgs (''data:'' @ mimeType @ '';base64,'' @ base64Data))
               requestIp)
            (\<lambda>r. Some (afterRetry w (maidOf toolArgs) pluginOutput r)))
   \<and> (failedParameter pluginOutput = Some (''image_url_'' @ n)
       \<and> jsTruthy (map_of toolArgs (''image_url_'' @ n)) \<longrightarrow>
      retryArgs pluginOutput toolArgs dataUri
        = AList.update (''image_base64_'' @ n) (JString dataUri)
            (AList.delete (''image_url_'' @ n) toolArgs))
   \<and> afterRetry w (maidOf toolArgs) pluginOutput (tr, Inr v) = (tr, Inr v)
   \<and> afterRetry w (maidOf toolArgs) pluginOutput (tr, Inl e)
       = (tr, Inl (finishError w (maidOf toolArgs)
            (JsonError (JObject
              ((''plugin_error'',
                JString (''Plugin reported local file not found, but remote fetch failed: ''
                         @ errorText w e))
               # (case error pluginOutput of
                    None \<Rightarrow> []
                  | Some e \<Rightarrow> [(''original_plugin_error'', e)]))))))"
    by blast
qed

theorem file_fallback_retry_witness:
  "executePluginX imageWorld [] ''ImageTool'' (executionParamOf oneImage) (Some ''10.9.9.9'')
     = Inr (fileMissing ''file:///a.png'' ''image_url_1'')
   \<and> fetchFileX imageWorld
        [ExecutePlugin ''ImageTool'' (executionParamOf oneImage) (Some ''10.9.9.9'')]
        ''file:///a.png'' ''10.9.9.9''
      = Inl ''no distributed server for this address''
   \<and> processToolCall imageWorld imageManager [] ''ImageTool'' oneImage (Some ''10.9.9.9'')
      = Some ([ExecutePlugin ''ImageTool'' (Some oneImage) (Some ''10.9.9.9''),
               FetchFile ''file:///a.png'' ''10.9.9.9''],
              Inl (JsonError (JObject
                [(''plugin_error'',
                  JString ''Plugin reported local file not found, but remote fetch failed: no distributed server for this address''),
                 (''original_plugin_error'', JString ''file not found''),
                 (''timestamp'', JString sampleTimestamp)])))
   \<and> fetchFileX imageWorld
        [ExecutePlugin ''ImageTool'' (executionParamOf oneImage) (Some ''10.0.0.2'')]
        ''file:///a.png'' ''10.0.0.2''
      = Inr (''QUJD'', ''image/png'')
   \<and> retryArgs (fileMissing ''file:///a.png'' ''image_url_1'') oneImage
        ''data:image/png;base64,QUJD''
      = [(''image_base64_1'', JString ''data:image/png;base64,QUJD'')]
   \<and> processToolCall imageWorld imageManager [] ''ImageTool'' oneImage (Some ''10.0.0.2'')
      = Some ([ExecutePlugin ''ImageTool'' (Some oneImage) (Some ''10.0.0.2''),
               FetchFile ''file:///a.png'' ''10.0.0.2'',
               ExecutePlugin ''ImageTool''
                 (Some [(''image_base64_1'', JString ''data:image/png;base64,QUJD'')])
                 (Some ''10.0.0.2'')],
              Inr (JObject [(''ok'', JBool True), (''timestamp'', JString sampleTimestamp)]))
   \<and> processToolCall brokenWorld imageManager [] ''ImageTool'' oneImage (Some ''10.0.0.2'')
      = Some ([ExecutePlugin ''ImageTool'' (Some oneImage) (Some ''10.0.0.2''),
               FetchFile ''file:///a.png'' ''10.0.0.2'',
               ExecutePlugin ''ImageTool''
                 (Some [(''image_base64_1'', JString ''data:image/png;base64,QUJD'')])
                 (Some ''10.0.0.2'')],
              Inl (JsonError (JObject
                [(''plugin_error'',
                  JString (''Plugin reported local file not found, but remote fetch failed: ''
                           @ decodeFailedText)),
                 (''original_plugin_error'', JString ''file not found''),
                 (''timestamp'', JString sampleTimestamp)])))"
proof -
  note R = file_fallback_retry
             [where st = imageManager and toolName = "''ImageTool''" and plugin = imageTool
                and trace = "[]" and toolArgs = oneImage
                and pluginOutput = "fileMissing ''file:///a.png'' ''image_url_1''"
                and url = "''file:///a.png''"]
  have pl: "plugins imageManager ''ImageTool'' = Some imageTool"
    and loc: "\<not> isDistributed imageTool" and std: "isStdioPlugin imageTool"
    by (simp_all add: dispatch_defs)
  have out: "status (fileMissing ''file:///a.png'' ''image_url_1'') \<noteq> ''success''"
    "code (fileMissing ''file:///a.png'' ''image_url_1'') = Some ''FILE_NOT_FOUND_LOCALLY''"
    "fileUrl (fileMissing ''file:///a.png'' ''image_url_1'') = Some ''file:///a.png''"
    "failedParameter (fileMissing ''file:///a.png'' ''image_url_1'') = Some (''image_url_'' @ ''1'')"
    "error (fileMissing ''file:///a.png'' ''image_url_1'') = Some (JString ''file not found'')"
    by (simp_all add: fileMissing_def)
  have param: "executionParamOf oneImage = Some oneImage"
    and maid: "maidOf oneImage = None"
    and tr: "jsTruthy (map_of oneImage (''image_url_'' @ ''1''))"
    by (simp_all add: executionParamOf_def maidOf_def oneImage_def jsTruthy_def)
  have x1: "executePluginX imageWorld [] ''ImageTool'' (executionParamOf oneImage) ip
     = Inr (fileMissing ''file:///a.png'' ''image_url_1'')" for ip
    by (simp add: imageWorld_def executionParamOf_def oneImage_def)
  have x2: "executePluginX brokenWorld [] ''ImageTool'' (executionParamOf oneImage) ip
     = Inr (fileMissing ''file:///a.png'' ''image_url_1'')" for ip
    by (simp add: imageWorld_def brokenWorld_def executionParamOf_def oneImage_def)
  have f1: "fetchFileX imageWorld tr0 ''file:///a.png'' ''10.9.9.9''
      = Inl ''no distributed server for this address''" for tr0
    by (simp add: imageWorld_def)
  have f2: "fetchFileX imageWorld tr0 ''file:///a.png'' ''10.0.0.2''
      = Inr (''QUJD'', ''image/png'')" for tr0
    by (simp add: imageWorld_def)
  have f3: "fetchFileX brokenWorld tr0 ''file:///a.png'' ''10.0.0.2''
      = Inr (''QUJD'', ''image/png'')" for tr0
    by (simp add: imageWorld_def brokenWorld_def)
  have ts: "localTimestamp imageWorld = sampleTimestamp"
    by (simp add: imageWorld_def)
  have c1: "processToolCall imageWorld imageManager [] ''ImageTool'' oneImage (Some ''10.9.9.9'')
      = Some ([ExecutePlugin ''ImageTool'' (Some oneImage) (Some ''10.9.9.9''),
               FetchFile ''file:///a.png'' ''10.9.9.9''],
              Inl (JsonError (JObject
                [(''plugin_error'',
                  JString ''Plugin reported local file not found, but remote fetch failed: no distributed server for this address''),
                 (''original_plugin_error'', JString ''file not found''),
                 (''timestamp'', JString sampleTimestamp)])))"
    using R [where w = imageWorld and requestIp = "Some ''10.9.9.9''" and ip = "''10.9.9.9''"
               and msg = "''no distributed server for this address''",
             THEN mp, THEN conjunct1, THEN mp]
      pl loc std out x1 f1 param maid ts
    by (simp add: finishError_def jsTruthy_def field_def setField_def)
  have c2: "retryArgs (fileMissing ''file:///a.png'' ''image_url_1'') oneImage
        ''data:image/png;base64,QUJD''
      = [(''image_base64_1'', JString ''data:image/png;base64,QUJD'')]"
    using R [where w = imageWorld and requestIp = "Some ''10.0.0.2''" and ip = "''10.0.0.2''"
               and n = "''1''" and dataUri = "''data:image/png;base64,QUJD''",
             THEN mp, THEN conjunct2, THEN conjunct2, THEN conjunct1, THEN mp]
      pl loc std out x1 tr
    by (simp add: oneImage_def AList.delete_eq)
  have inner1: "processToolCall imageWorld imageManager
        [ExecutePlugin ''ImageTool'' (Some oneImage) (Some ''10.0.0.2''),
         FetchFile ''file:///a.png'' ''10.0.0.2'']
        ''ImageTool'' [(''image_base64_1'', JString ''data:image/png;base64,QUJD'')]
        (Some ''10.0.0.2'')
      = Some ([ExecutePlugin ''ImageTool'' (Some oneImage) (Some ''10.0.0.2''),
               FetchFile ''file:///a.png'' ''10.0.0.2'',
               ExecutePlugin ''ImageTool''
                 (Some [(''image_base64_1'', JString ''data:image/png;base64,QUJD'')])
                 (Some ''10.0.0.2'')],
              Inr (JObject [(''ok'', JBool True), (''timestamp'', JString sampleTimestamp)]))"
    by (simp add: processToolCall.simps dispatch_defs)
  have c3: "processToolCall imageWorld imageManager [] ''ImageTool'' oneImage (Some ''10.0.0.2'')
      = Some ([ExecutePlugin ''ImageTool'' (Some oneImage) (Some ''10.0.0.2''),
               FetchFile ''file:///a.png'' ''10.0.0.2'',
               ExecutePlugin ''ImageTool''
                 (Some [(''image_base64_1'', JString ''data:image/png;base64,QUJD'')])
                 (Some ''10.0.0.2'')],
              Inr (JObject [(''ok'', JBool True), (''timestamp'', JString sampleTimestamp)]))"
    using R [where w = imageWorld and requestIp = "Some ''10.0.0.2''" and ip = "''10.0.0.2''"
               and base64Data = "''QUJD''" and mimeType = "''image/png''",
             THEN mp, THEN conjunct2, THEN conjunct1, THEN mp]
      pl loc std out x1 f2 param c2 inner1
    by (simp add: afterRetry_def)
  have inner2: "processToolCall brokenWorld imageManager
        [ExecutePlugin ''ImageTool'' (Some oneImage) (Some ''10.0.0.2''),
         FetchFile ''file:///a.png'' ''10.0.0.2'']
        ''ImageTool'' [(''image_base64_1'', JString ''data:image/png;base64,QUJD'')]
        (Some ''10.0.0.2'')
      = Some ([ExecutePlugin ''ImageTool'' (Some oneImage) (Some ''10.0.0.2''),
               FetchFile ''file:///a.png'' ''10.0.0.2'',
               ExecutePlugin ''ImageTool''
                 (Some [(''image_base64_1'', JString ''data:image/png;base64,QUJD'')])
                 (Some ''10.0.0.2'')],
              Inl (JsonError (JObject
                [(''plugin_error'', JString ''decode failed''),
                 (''timestamp'', JString sampleTimestamp)])))"
    by (simp add: processToolCall.simps dispatch_defs)
  have c4: "processToolCall brokenWorld imageManager [] ''ImageTool'' oneImage (Some ''10.0.0.2'')
      = Some ([ExecutePlugin ''ImageTool'' (Some oneImage) (Some ''10.0.0.2''),
               FetchFile ''file:///a.png'' ''10.0.0.2'',
               ExecutePlugin ''ImageTool''
                 (Some [(''image_base64_1'', JString ''data:image/png;base64,QUJD'')])
                 (Some ''10.0.0.2'')],
              Inl (JsonError (JObject
                [(''plugin_error'',
                  JString (''Plugin reported local file not found, but remote fetch failed: ''
                           @ decodeFailedText)),
                 (''original_plugin_error'', JString ''file not found''),
                 (''timestamp'', JString sampleTimestamp)])))"
    using R [where w = brokenWorld and requestIp = "Some ''10.0.0.2''" and ip = "''10.0.0.2''"
               and base64Data = "''QUJD''" and mimeType = "''image/png''",
             THEN mp, THEN conjunct2, THEN conjunct1, THEN mp]
      pl loc std out x2 f3 param c2 inner2 maid
    by (simp add: afterRetry_def finish_def finishError_def fetchFailed_def errorText_def
        brokenWorld_def imageWorld_def sampleStringify_def jsTruthy_def field_def setField_def)
  show ?thesis
    using x1 f1 f2 c1 c2 c3 c4 by simp
qed


end
